theory Spec2Isabelle
  imports Main "HOL-Library.Sublist"
begin

section \<open>Exceptions, Python values and the effect model\<close>

text \<open>
  The exception classes of \<^verbatim>\<open>app/core/exceptions.py\<close> that the modelled code raises or
  catches, the two exception classes of the proxmoxer library that
  \<^verbatim>\<open>proxmox_service.py\<close> distinguishes, and \<open>PyException\<close> for every other subclass
  of Python's \<^verbatim>\<open>Exception\<close> (KeyError, TypeError, OSError, ...). Each carries its
  message, which is what \<^verbatim>\<open>str(e)\<close> returns. What \<^verbatim>\<open>except Exception\<close> does not
  catch (KeyboardInterrupt, SystemExit, the cancellation of an asyncio task) is outside the
  model.
\<close>

datatype exn =
    ProxmoxConnectionError string
  | VMCreationError string
  | VMCloneError string
  | VMNotFoundError string
  | TemplateNotFoundError string
  | InvalidVMIDError string
  | ResourceException string
  | AuthenticationError string
  | PyException string

fun str :: "exn \<Rightarrow> string" where
  "str (ProxmoxConnectionError m) = m"
| "str (VMCreationError m) = m"
| "str (VMCloneError m) = m"
| "str (VMNotFoundError m) = m"
| "str (TemplateNotFoundError m) = m"
| "str (InvalidVMIDError m) = m"
| "str (ResourceException m) = m"
| "str (AuthenticationError m) = m"
| "str (PyException m) = m"

text \<open>
  A subscript \<^verbatim>\<open>d['k']\<close> on a dictionary without the key raises
  \<^verbatim>\<open>KeyError('k')\<close>, whose \<^verbatim>\<open>str\<close> is the key in single quotes.
\<close>

abbreviation KeyError :: "string \<Rightarrow> exn" where
  "KeyError k \<equiv> PyException (CHR 0x27 # k @ [CHR 0x27])"

text \<open>Decimal rendering of an integer, as an f-string does for \<^verbatim>\<open>{vmid}\<close>.\<close>

definition digit_char :: "nat \<Rightarrow> char" where
  "digit_char d = ''0123456789'' ! d"

fun str_nat :: "nat \<Rightarrow> string" where
  "str_nat n = (if n < 10 then [digit_char n] else str_nat (n div 10) @ [digit_char (n mod 10)])"

declare str_nat.simps [simp del]

definition str_int :: "int \<Rightarrow> string" where
  "str_int i = (if i < 0 then CHR ''-'' # str_nat (nat (- i)) else str_nat (nat i))"

text \<open>Python truthiness of an \<^verbatim>\<open>Optional[str]\<close>, an \<^verbatim>\<open>Optional[int]\<close> and an optional list,
  and the idiom \<^verbatim>\<open>x or default\<close>.\<close>

fun truthy_str :: "string option \<Rightarrow> bool" where
  "truthy_str None = False"
| "truthy_str (Some s) = (s \<noteq> [])"

fun truthy_int :: "int option \<Rightarrow> bool" where
  "truthy_int None = False"
| "truthy_int (Some i) = (i \<noteq> 0)"

fun truthy_list :: "'a list option \<Rightarrow> bool" where
  "truthy_list None = False"
| "truthy_list (Some xs) = (xs \<noteq> [])"

fun str_or :: "string option \<Rightarrow> string \<Rightarrow> string" where
  "str_or None d = d"
| "str_or (Some s) d = (if s \<noteq> [] then s else d)"

text \<open>\<^verbatim>\<open>sep.join(xs)\<close>.\<close>

fun join :: "string \<Rightarrow> string list \<Rightarrow> string" where
  "join sep [] = []"
| "join sep [x] = x"
| "join sep (x # y # ys) = x @ sep @ join sep (y # ys)"

section \<open>Requests, responses and settings\<close>

text \<open>
  A keyword-argument value handed to the proxmoxer library, or found in a dictionary it
  returns.
\<close>

datatype pval = PNone | PBool bool | PInt int | PStr string

text \<open>\<^verbatim>\<open>app/config.py\<close>, class Settings: the fields the modelled services read.\<close>

record settings =
  proxmox_user :: string
  default_node :: string
  default_storage :: string
  default_network_bridge :: string
  vmid_min :: int
  vmid_max :: int
  validation_timeout :: int
  validation_ssh_port :: int
  validation_rdp_port :: int
  validation_retry_interval :: int
  enable_auto_start :: bool

text \<open>\<^verbatim>\<open>app/schemas/vm.py\<close>, class VMCreateRequest. An \<^verbatim>\<open>Optional\<close> field is an option.\<close>

record VMCreateRequest =
  rq_vmid :: "int option"
  rq_name :: string
  rq_node :: "string option"
  rq_cores :: int
  rq_sockets :: int
  rq_cpu_type :: string
  rq_memory :: int
  rq_disk_size :: int
  rq_storage :: "string option"
  rq_network_bridge :: "string option"
  rq_network_model :: string
  rq_os_type :: string
  rq_bios :: string
  rq_machine :: string
  rq_iso :: "string option"
  rq_virtio_iso :: "string option"
  rq_start_on_creation :: bool
  rq_enable_guest_agent :: bool
  rq_description :: "string option"
  rq_tags :: "string list option"

text \<open>\<^verbatim>\<open>app/schemas/vm.py\<close>, class VMCreateResponse (CloneResponse has the same fields).\<close>

record VMCreateResponse =
  rs_vmid :: int
  rs_name :: string
  rs_node :: string
  rs_status :: string
  rs_message :: string
  rs_task_id :: "string option"

text \<open>\<^verbatim>\<open>app/schemas/vm.py\<close>, classes BatchVMCreateResponse and VMInfo.\<close>

record BatchVMCreateResponse =
  b_results :: "VMCreateResponse list"
  b_total :: int
  b_successful :: int
  b_failed :: int

record VMInfo =
  vi_vmid :: int
  vi_name :: string
  vi_node :: string
  vi_status :: string
  vi_cores :: "int option"
  vi_memory :: "int option"
  vi_uptime :: "int option"

text \<open>\<^verbatim>\<open>app/schemas/template.py\<close>, classes CloudInitUser, CloudInitConfig and CloneRequest.\<close>

record CloudInitUser =
  cu_username :: string
  cu_password :: "string option"
  cu_ssh_keys :: "string list option"
  cu_sudo :: bool
  cu_groups :: "string list option"

record CloudInitConfig =
  ci_ipconfig :: "string option"
  ci_nameserver :: "string option"
  ci_searchdomain :: "string option"
  ci_users :: "CloudInitUser list option"
  ci_packages :: "string list option"
  ci_runcmd :: "string list option"

record CloneRequest =
  cl_source_vmid :: int
  cl_new_vmid :: "int option"
  cl_name :: string
  cl_node :: "string option"
  cl_storage :: "string option"
  cl_full_clone :: bool
  cl_cores :: "int option"
  cl_memory :: "int option"
  cl_start_after_clone :: bool
  cl_description :: "string option"
  cl_tags :: "string list option"
  cl_cloudinit :: "CloudInitConfig option"

text \<open>\<^verbatim>\<open>app/schemas/validation.py\<close>, classes ValidationCheck and ValidationResult. The
  \<^verbatim>\<open>checks\<close> dictionary keeps its insertion order, so it is an association list. The
  wall-clock \<^verbatim>\<open>timestamp\<close> field is left out.\<close>

record ValidationCheck =
  vc_passed :: bool
  vc_message :: "string option"
  vc_details :: "(string \<times> pval) list option"
  vc_required :: bool

record ValidationResult =
  vr_vmid :: int
  vr_status :: string
  vr_ip_address :: "string option"
  vr_checks :: "(string \<times> ValidationCheck) list"
  vr_message :: "string option"

text \<open>\<^verbatim>\<open>d[k] = v\<close> on an insertion-ordered dictionary.\<close>

fun dict_set :: "('k \<times> 'v) list \<Rightarrow> 'k \<Rightarrow> 'v \<Rightarrow> ('k \<times> 'v) list" where
  "dict_set [] k v = [(k, v)]"
| "dict_set ((k', v') # kvs) k v =
     (if k' = k then (k, v) # kvs else (k', v') # dict_set kvs k v)"

section \<open>VMService.validate\_vm\_config\<close>

text \<open>The dictionary \<^verbatim>\<open>{"valid": ..., "issues": ...}\<close> the function returns.\<close>

record config_validation =
  valid :: bool
  issues :: "string list"

definition validate_vm_config :: "VMCreateRequest \<Rightarrow> config_validation" where
  "validate_vm_config request =
    (let issues0 = [];
         issues1 = (if rq_cores request < 1 \<or> rq_cores request > 256
                    then issues0 @ [''cores must be between 1 and 256''] else issues0);
         issues2 = (if rq_memory request < 512
                    then issues1 @ [''memory must be at least 512 MB''] else issues1);
         issues3 = (if rq_disk_size request < 8
                    then issues2 @ [''disk_size must be at least 8 GB''] else issues2);
         issues4 = (if rq_os_type request \<notin> set [''linux'', ''windows'']
                    then issues3 @ [''os_type must be '' @ [CHR 0x27] @ ''linux'' @ [CHR 0x27] @
                                    '' or '' @ [CHR 0x27] @ ''windows'' @ [CHR 0x27]]
                    else issues3)
     in \<lparr> valid = (length issues4 = 0), issues = issues4 \<rparr>)"

section \<open>The effect model: fake clock, call trace, exceptions as values\<close>

text \<open>
  Everything the modelled code does to the outside world is recorded as an event: one per
  call of the proxmoxer API object, of the guest-init helper, of the port prober and of the
  audit logger, and one per sleep.
\<close>

datatype event =
    CallProxmoxAPI
  | CallVersionGet
  | CallNodesGet
  | CallQemuGet string
  | CallConfigGet string int
  | CallStatusCurrentGet string int
  | CallNextidGet
  | CallClonePost string int "(string \<times> pval) list"
  | CallQemuPost string "(string \<times> pval) list"
  | CallStartPost string int
  | CallStopPost string int
  | CallDelete string int "(string \<times> pval) list"
  | CallTaskStatusGet string string
  | CallConfigPut string int "(string \<times> pval) list"
  | CallAgentNetworkGet string int
  | CallCloudinit string int
  | CallCheckPortOpen string int int
  | Sleep int
  | SleepFailed int
  | AuditVmCreation string "string option"
  | AuditTemplateClone string "string option"
  | AuditBatch string int int int

text \<open>
  The state threaded through every operation: the fake clock (seconds; only a sleep
  advances it), whether the ProxmoxService object holds a connection
  (\<^verbatim>\<open>self._proxmox is not None\<close>), and the events so far.
\<close>

record state =
  now :: int
  cached :: bool
  trace :: "event list"

text \<open>
  A computation takes the state and returns either the exception it raised (\<open>Inl\<close>) or
  its value (\<open>Inr\<close>), with the new state.
\<close>

type_synonym 'a prog = "state \<Rightarrow> (exn + 'a) \<times> state"

definition ret :: "'a \<Rightarrow> 'a prog" where
  "ret a = (\<lambda>s. (Inr a, s))"

definition throw :: "exn \<Rightarrow> 'a prog" where
  "throw e = (\<lambda>s. (Inl e, s))"

definition bnd :: "'a prog \<Rightarrow> ('a \<Rightarrow> 'b prog) \<Rightarrow> 'b prog" where
  "bnd m f = (\<lambda>s. case m s of (Inl e, s') \<Rightarrow> (Inl e, s') | (Inr a, s') \<Rightarrow> f a s')"

text \<open>\<^verbatim>\<open>try: m  except Exception as e: h(e)\<close>.\<close>

definition try_except :: "'a prog \<Rightarrow> (exn \<Rightarrow> 'a prog) \<Rightarrow> 'a prog" where
  "try_except m h = (\<lambda>s. case m s of (Inl e, s') \<Rightarrow> h e s' | (Inr a, s') \<Rightarrow> (Inr a, s'))"

text \<open>
  A call into the environment: the answer \<open>f s\<close> may depend on the time of the call and
  on everything that happened before it; the call is appended to the trace.
\<close>

definition perform :: "event \<Rightarrow> (state \<Rightarrow> exn + 'a) \<Rightarrow> 'a prog" where
  "perform ev f = (\<lambda>s. (f s, s\<lparr>trace := trace s @ [ev]\<rparr>))"

text \<open>\<^verbatim>\<open>time.time()\<close> and \<^verbatim>\<open>time.sleep(d)\<close> under the fake clock.\<close>

definition time_time :: "int prog" where
  "time_time = (\<lambda>s. (Inr (now s), s))"

definition time_sleep :: "int \<Rightarrow> unit prog" where
  "time_sleep d = (\<lambda>s. (Inr (), s\<lparr>now := now s + d, trace := trace s @ [Sleep d]\<rparr>))"

section \<open>The environment: the proxmoxer API object, the event loop, the port prober\<close>

text \<open>The dictionaries the remote API returns, with a missing key as \<open>None\<close>.\<close>

record node_info =
  ni_node :: "string option"

record vm_entry =
  ve_vmid :: "int option"
  ve_node :: "string option"
  ve_name :: "string option"
  ve_template :: "int option"

record vm_config =
  cfg_template :: "int option"
  cfg_name :: "string option"
  cfg_cores :: "int option"
  cfg_cpus :: "int option"
  cfg_memory :: "int option"

record vm_status =
  st_status :: "string option"
  st_uptime :: "int option"

record task_status =
  ts_status :: "string option"
  ts_exitstatus :: "string option"

record ip_info =
  ii_ip_address :: "string option"
  ii_ip_address_type :: "string option"

record iface =
  if_ip_addresses :: "ip_info list option"

record port_result =
  pr_passed :: "bool option"
  pr_message :: "string option"
  pr_details :: "(string \<times> pval) list"

text \<open>
  The behaviour of everything outside the repository. Each field answers one call of the
  proxmoxer object (\<^verbatim>\<open>ProxmoxAPI(...)\<close>, \<^verbatim>\<open>version.get()\<close>, \<^verbatim>\<open>nodes.get()\<close>,
  \<^verbatim>\<open>nodes(n).qemu.get()\<close>, ...), \<open>Inl\<close> when the call raises. \<open>nextid_get\<close> stands for
  \<^verbatim>\<open>int(cluster.nextid.get())\<close>, the conversion included. \<open>cloudinit\<close> is
  \<^verbatim>\<open>apply_custom_cloudinit\<close> (an SSH upload and a configuration update),
  \<open>check_port_open\<close> the port prober of \<^verbatim>\<open>utils/port_checker.py\<close>, and
  \<open>asyncio_sleep\<close> says whether awaiting \<^verbatim>\<open>asyncio.sleep\<close> raises.
\<close>

record remote =
  ProxmoxAPI :: "state \<Rightarrow> exn + unit"
  version_get :: "state \<Rightarrow> exn + unit"
  nodes_get :: "state \<Rightarrow> exn + node_info list"
  qemu_get :: "string \<Rightarrow> state \<Rightarrow> exn + vm_entry list"
  config_get :: "string \<Rightarrow> int \<Rightarrow> state \<Rightarrow> exn + vm_config"
  status_current_get :: "string \<Rightarrow> int \<Rightarrow> state \<Rightarrow> exn + vm_status"
  nextid_get :: "state \<Rightarrow> exn + int"
  clone_post :: "string \<Rightarrow> int \<Rightarrow> (string \<times> pval) list \<Rightarrow> state \<Rightarrow> exn + string"
  qemu_post :: "string \<Rightarrow> (string \<times> pval) list \<Rightarrow> state \<Rightarrow> exn + string"
  start_post :: "string \<Rightarrow> int \<Rightarrow> state \<Rightarrow> exn + string"
  stop_post :: "string \<Rightarrow> int \<Rightarrow> state \<Rightarrow> exn + string"
  delete :: "string \<Rightarrow> int \<Rightarrow> (string \<times> pval) list \<Rightarrow> state \<Rightarrow> exn + string"
  task_status_get :: "string \<Rightarrow> string \<Rightarrow> state \<Rightarrow> exn + task_status"
  config_put :: "string \<Rightarrow> int \<Rightarrow> (string \<times> pval) list \<Rightarrow> state \<Rightarrow> exn + unit"
  agent_network_get :: "string \<Rightarrow> int \<Rightarrow> state \<Rightarrow> exn + iface list option"
  cloudinit :: "string \<Rightarrow> int \<Rightarrow> CloudInitConfig \<Rightarrow> string \<Rightarrow> state \<Rightarrow> exn + unit"
  check_port_open :: "string \<Rightarrow> int \<Rightarrow> int \<Rightarrow> state \<Rightarrow> exn + port_result"
  asyncio_sleep :: "int \<Rightarrow> state \<Rightarrow> exn + unit"

text \<open>
  \<^verbatim>\<open>await asyncio.sleep(d)\<close>: when the event loop lets it complete the fake clock
  advances by \<open>d\<close>; when it raises the clock stands still and the failed attempt is
  recorded.
\<close>

definition await_sleep :: "remote \<Rightarrow> int \<Rightarrow> unit prog" where
  "await_sleep R d = (\<lambda>s. case asyncio_sleep R d s of
      Inl e \<Rightarrow> (Inl e, s\<lparr>trace := trace s @ [SleepFailed d]\<rparr>)
    | Inr u \<Rightarrow> (Inr (), s\<lparr>now := now s + d, trace := trace s @ [Sleep d]\<rparr>))"

section \<open>ProxmoxService (\<^verbatim>\<open>app/services/proxmox_service.py\<close>)\<close>

text \<open>Method connect.\<close>

definition connect :: "remote \<Rightarrow> unit prog" where
  "connect R =
    try_except
      (bnd (perform CallProxmoxAPI (ProxmoxAPI R)) (\<lambda>_.
       perform CallVersionGet (version_get R)))
      (\<lambda>e. case e of
          AuthenticationError m \<Rightarrow> throw (ProxmoxConnectionError (''Authentication failed: '' @ m))
        | _ \<Rightarrow> throw (ProxmoxConnectionError (''Failed to connect to Proxmox: '' @ str e)))"

text \<open>
  Property proxmox: connect on first use; otherwise probe the held connection with
  \<^verbatim>\<open>version.get()\<close> and reconnect when the probe raises.
\<close>

definition set_cached :: "unit prog" where
  "set_cached = (\<lambda>s. (Inr (), s\<lparr>cached := True\<rparr>))"

definition proxmox :: "remote \<Rightarrow> unit prog" where
  "proxmox R = (\<lambda>s.
     if \<not> cached s then bnd (connect R) (\<lambda>_. set_cached) s
     else try_except (perform CallVersionGet (version_get R))
            (\<lambda>_. bnd (connect R) (\<lambda>_. set_cached)) s)"

text \<open>Method list\_nodes.\<close>

definition list_nodes :: "remote \<Rightarrow> node_info list prog" where
  "list_nodes R =
    try_except
      (bnd (proxmox R) (\<lambda>_. perform CallNodesGet (nodes_get R)))
      (\<lambda>e. throw (ProxmoxConnectionError (''Failed to list nodes: '' @ str e)))"

text \<open>Method list\_vms. The loop over the nodes of the branch \<^verbatim>\<open>node is None\<close>:\<close>

fun list_vms_loop :: "remote \<Rightarrow> node_info list \<Rightarrow> vm_entry list \<Rightarrow> vm_entry list prog" where
  "list_vms_loop R [] all_vms = ret all_vms"
| "list_vms_loop R (ninfo # rest) all_vms =
     (case ni_node ninfo of
        None \<Rightarrow> throw (KeyError ''node'')
      | Some node_name \<Rightarrow>
          bnd (proxmox R) (\<lambda>_.
          bnd (perform (CallQemuGet node_name) (qemu_get R node_name)) (\<lambda>vms.
          list_vms_loop R rest (all_vms @ map (\<lambda>vm. vm\<lparr>ve_node := Some node_name\<rparr>) vms))))"

definition list_vms :: "remote \<Rightarrow> string option \<Rightarrow> vm_entry list prog" where
  "list_vms R node =
    try_except
      (if truthy_str node
       then bnd (proxmox R) (\<lambda>_. perform (CallQemuGet (the node)) (qemu_get R (the node)))
       else bnd (list_nodes R) (\<lambda>nodes. list_vms_loop R nodes []))
      (\<lambda>e. throw (ProxmoxConnectionError (''Failed to list VMs: '' @ str e)))"

text \<open>Method get\_vm\_config.\<close>

definition get_vm_config :: "remote \<Rightarrow> string \<Rightarrow> int \<Rightarrow> vm_config prog" where
  "get_vm_config R node vmid =
    try_except
      (bnd (proxmox R) (\<lambda>_. perform (CallConfigGet node vmid) (config_get R node vmid)))
      (\<lambda>e. case e of
          ResourceException _ \<Rightarrow>
            throw (VMNotFoundError (''VM '' @ str_int vmid @ '' not found on node '' @ node))
        | _ \<Rightarrow> throw (ProxmoxConnectionError (''Failed to get VM config: '' @ str e)))"

text \<open>Method get\_vm\_status.\<close>

definition get_vm_status :: "remote \<Rightarrow> string \<Rightarrow> int \<Rightarrow> vm_status prog" where
  "get_vm_status R node vmid =
    try_except
      (bnd (proxmox R) (\<lambda>_.
       perform (CallStatusCurrentGet node vmid) (status_current_get R node vmid)))
      (\<lambda>e. case e of
          ResourceException _ \<Rightarrow>
            throw (VMNotFoundError (''VM '' @ str_int vmid @ '' not found on node '' @ node))
        | _ \<Rightarrow> throw (ProxmoxConnectionError (''Failed to get VM status: '' @ str e)))"

text \<open>
  Method find\_vm\_node. The loop looks for the first entry whose \<^verbatim>\<open>vmid\<close> equals the
  one asked for; an entry without the key raises KeyError.
\<close>

fun find_vm_node_loop :: "vm_entry list \<Rightarrow> int \<Rightarrow> string option prog" where
  "find_vm_node_loop [] vmid = ret None"
| "find_vm_node_loop (vm # rest) vmid =
     (case ve_vmid vm of
        None \<Rightarrow> throw (KeyError ''vmid'')
      | Some v \<Rightarrow> if v = vmid then ret (ve_node vm) else find_vm_node_loop rest vmid)"

definition find_vm_node :: "remote \<Rightarrow> int \<Rightarrow> string option prog" where
  "find_vm_node R vmid =
    try_except
      (bnd (list_vms R None) (\<lambda>all_vms. find_vm_node_loop all_vms vmid))
      (\<lambda>e. ret None)"

text \<open>Method get\_next\_vmid.\<close>

definition get_next_vmid :: "remote \<Rightarrow> int prog" where
  "get_next_vmid R =
    try_except
      (bnd (proxmox R) (\<lambda>_. perform CallNextidGet (nextid_get R)))
      (\<lambda>e. throw (ProxmoxConnectionError (''Failed to get next VMID: '' @ str e)))"

text \<open>\<^verbatim>\<open>"already exists" in str(e).lower()\<close>.\<close>

definition lower_char :: "char \<Rightarrow> char" where
  "lower_char c =
     (case map_of (zip ''ABCDEFGHIJKLMNOPQRSTUVWXYZ'' ''abcdefghijklmnopqrstuvwxyz'') c of
        Some l \<Rightarrow> l
      | None \<Rightarrow> c)"

definition lower :: "string \<Rightarrow> string" where
  "lower s = map lower_char s"

text \<open>
  Method clone\_vm. The keyword arguments: \<^verbatim>\<open>newid\<close> and \<^verbatim>\<open>full\<close>, then \<^verbatim>\<open>name\<close> and
  \<^verbatim>\<open>storage\<close> when truthy, then the caller's extra arguments.
\<close>

definition clone_vm ::
  "remote \<Rightarrow> string \<Rightarrow> int \<Rightarrow> int \<Rightarrow> string option \<Rightarrow> string option \<Rightarrow> int \<Rightarrow>
   (string \<times> pval) list \<Rightarrow> string prog" where
  "clone_vm R node source_vmid new_vmid name storage full kwargs =
    try_except
      (let clone_params =
             [(''newid'', PInt new_vmid), (''full'', PInt full)]
             @ (if truthy_str name then [(''name'', PStr (the name))] else [])
             @ (if truthy_str storage then [(''storage'', PStr (the storage))] else [])
             @ kwargs
       in bnd (proxmox R) (\<lambda>_.
          perform (CallClonePost node source_vmid clone_params)
                  (clone_post R node source_vmid clone_params)))
      (\<lambda>e. case e of
          ResourceException m \<Rightarrow>
            if sublist ''already exists'' (lower m)
            then throw (InvalidVMIDError (''VM ID '' @ str_int new_vmid @ '' already exists''))
            else throw (VMCloneError (''Failed to clone VM: '' @ m))
        | _ \<Rightarrow> throw (VMCloneError (''Failed to clone VM: '' @ str e)))"

text \<open>
  Method create\_vm of ProxmoxService, here \<open>create_vm_px\<close>: the name \<open>create_vm\<close>
  is kept for the method of VMService that calls it.
\<close>

definition create_vm_px :: "remote \<Rightarrow> string \<Rightarrow> int \<Rightarrow> (string \<times> pval) list \<Rightarrow> string prog" where
  "create_vm_px R node vmid kwargs =
    try_except
      (let vm_params = [(''vmid'', PInt vmid)] @ kwargs
       in bnd (proxmox R) (\<lambda>_.
          perform (CallQemuPost node vm_params) (qemu_post R node vm_params)))
      (\<lambda>e. case e of
          ResourceException m \<Rightarrow>
            if sublist ''already exists'' (lower m)
            then throw (InvalidVMIDError (''VM ID '' @ str_int vmid @ '' already exists''))
            else throw (VMCreationError (''Failed to create VM: '' @ m))
        | _ \<Rightarrow> throw (VMCreationError (''Failed to create VM: '' @ str e)))"

text \<open>Methods start\_vm, stop\_vm and delete\_vm.\<close>

definition start_vm :: "remote \<Rightarrow> string \<Rightarrow> int \<Rightarrow> string prog" where
  "start_vm R node vmid =
    try_except
      (bnd (proxmox R) (\<lambda>_. perform (CallStartPost node vmid) (start_post R node vmid)))
      (\<lambda>e. case e of
          ResourceException _ \<Rightarrow>
            throw (VMNotFoundError (''VM '' @ str_int vmid @ '' not found on node '' @ node))
        | _ \<Rightarrow> throw (ProxmoxConnectionError (''Failed to start VM: '' @ str e)))"

definition stop_vm :: "remote \<Rightarrow> string \<Rightarrow> int \<Rightarrow> string prog" where
  "stop_vm R node vmid =
    try_except
      (bnd (proxmox R) (\<lambda>_. perform (CallStopPost node vmid) (stop_post R node vmid)))
      (\<lambda>e. case e of
          ResourceException _ \<Rightarrow>
            throw (VMNotFoundError (''VM '' @ str_int vmid @ '' not found on node '' @ node))
        | _ \<Rightarrow> throw (ProxmoxConnectionError (''Failed to stop VM: '' @ str e)))"

definition delete_vm :: "remote \<Rightarrow> string \<Rightarrow> int \<Rightarrow> bool \<Rightarrow> string prog" where
  "delete_vm R node vmid purge =
    try_except
      (let kw = [(''purge'', PInt (if purge then 1 else 0))]
       in bnd (proxmox R) (\<lambda>_. perform (CallDelete node vmid kw) (delete R node vmid kw)))
      (\<lambda>e. case e of
          ResourceException _ \<Rightarrow>
            throw (VMNotFoundError (''VM '' @ str_int vmid @ '' not found on node '' @ node))
        | _ \<Rightarrow> throw (ProxmoxConnectionError (''Failed to delete VM: '' @ str e)))"

text \<open>Method get\_task\_status.\<close>

definition get_task_status :: "remote \<Rightarrow> string \<Rightarrow> string \<Rightarrow> task_status prog" where
  "get_task_status R node upid =
    try_except
      (bnd (proxmox R) (\<lambda>_.
       perform (CallTaskStatusGet node upid) (task_status_get R node upid)))
      (\<lambda>e. throw (ProxmoxConnectionError (''Failed to get task status: '' @ str e)))"

text \<open>Method update\_vm\_config.\<close>

definition update_vm_config ::
  "remote \<Rightarrow> string \<Rightarrow> int \<Rightarrow> (string \<times> pval) list \<Rightarrow> unit prog" where
  "update_vm_config R node vmid kwargs =
    try_except
      (bnd (proxmox R) (\<lambda>_.
       perform (CallConfigPut node vmid kwargs) (config_put R node vmid kwargs)))
      (\<lambda>e. case e of
          ResourceException _ \<Rightarrow>
            throw (VMNotFoundError (''VM '' @ str_int vmid @ '' not found on node '' @ node))
        | _ \<Rightarrow> throw (ProxmoxConnectionError (''Failed to update VM config: '' @ str e)))"

text \<open>
  Method get\_vm\_network\_interfaces: \<^verbatim>\<open>result.get('result', [])\<close>, or \<^verbatim>\<open>None\<close> when
  anything raises.
\<close>

definition get_vm_network_interfaces :: "remote \<Rightarrow> string \<Rightarrow> int \<Rightarrow> iface list option prog" where
  "get_vm_network_interfaces R node vmid =
    try_except
      (bnd (proxmox R) (\<lambda>_.
       bnd (perform (CallAgentNetworkGet node vmid) (agent_network_get R node vmid)) (\<lambda>result.
       ret (Some (case result of None \<Rightarrow> [] | Some ifs \<Rightarrow> ifs)))))
      (\<lambda>e. ret None)"

section \<open>ProxmoxService.wait\_for\_task\<close>

text \<open>
  The loop of wait\_for\_task needs, for its termination, the fact that no call into the
  environment moves the fake clock: only a sleep does.
\<close>

definition keeps_now :: "'a prog \<Rightarrow> bool" where
  "keeps_now m = (\<forall>s. now (snd (m s)) = now s)"

lemma keeps_nowD: "keeps_now m \<Longrightarrow> m s = (r, s') \<Longrightarrow> now s' = now s"
  by (metis keeps_now_def snd_conv)

lemma keeps_now_ret [intro!, simp]: "keeps_now (ret a)"
  by (simp add: keeps_now_def ret_def)

lemma keeps_now_throw [intro!, simp]: "keeps_now (throw e)"
  by (simp add: keeps_now_def throw_def)

lemma keeps_now_perform [intro!, simp]: "keeps_now (perform ev f)"
  by (simp add: keeps_now_def perform_def)

lemma keeps_now_set_cached [intro!, simp]: "keeps_now set_cached"
  by (simp add: keeps_now_def set_cached_def)

lemma keeps_now_bnd [intro!]:
  assumes "keeps_now m" and "\<And>a. keeps_now (f a)"
  shows "keeps_now (bnd m f)"
  unfolding keeps_now_def
proof
  fix s
  obtain r s' where ms: "m s = (r, s')" by (cases "m s")
  have n1: "now s' = now s" using assms(1) ms by (rule keeps_nowD)
  show "now (snd (bnd m f s)) = now s"
  proof (cases r)
    case (Inl e)
    then show ?thesis using ms n1 by (simp add: bnd_def)
  next
    case (Inr a)
    have "now (snd (f a s')) = now s'" using assms(2) by (simp add: keeps_now_def)
    then show ?thesis using ms n1 Inr by (simp add: bnd_def)
  qed
qed

lemma keeps_now_try_except [intro!]:
  assumes "keeps_now m" and "\<And>e. keeps_now (h e)"
  shows "keeps_now (try_except m h)"
  unfolding keeps_now_def
proof
  fix s
  obtain r s' where ms: "m s = (r, s')" by (cases "m s")
  have n1: "now s' = now s" using assms(1) ms by (rule keeps_nowD)
  show "now (snd (try_except m h s)) = now s"
  proof (cases r)
    case (Inr a)
    then show ?thesis using ms n1 by (simp add: try_except_def)
  next
    case (Inl e)
    have "now (snd (h e s')) = now s'" using assms(2) by (simp add: keeps_now_def)
    then show ?thesis using ms n1 Inl by (simp add: try_except_def)
  qed
qed

lemma keeps_now_connect [intro!, simp]: "keeps_now (connect R)"
  unfolding connect_def by (auto split: exn.splits)

lemma keeps_now_proxmox [intro!, simp]: "keeps_now (proxmox R)"
proof -
  have a: "keeps_now (bnd (connect R) (\<lambda>_. set_cached))" by auto
  have b: "keeps_now (try_except (perform CallVersionGet (version_get R)) (\<lambda>_. bnd (connect R) (\<lambda>_. set_cached)))"
    by auto
  show ?thesis
    using a b by (simp add: keeps_now_def proxmox_def)
qed

lemma keeps_now_get_task_status [intro!, simp]: "keeps_now (get_task_status R node upid)"
  unfolding get_task_status_def by auto

text \<open>
  One pass through the body of the \<^verbatim>\<open>while\<close> loop: \<open>Some b\<close> when the body returns
  \<open>b\<close>, \<open>None\<close> when it falls through to the next test of the loop condition.
  \<^verbatim>\<open>status['status']\<close> raises KeyError when the key is missing, and the handler catches
  it like any other exception.
\<close>

definition wait_for_task_iter :: "remote \<Rightarrow> string \<Rightarrow> string \<Rightarrow> bool option prog" where
  "wait_for_task_iter R node upid =
    try_except
      (bnd (get_task_status R node upid) (\<lambda>status.
         case ts_status status of
           None \<Rightarrow> throw (KeyError ''status'')
         | Some v \<Rightarrow>
             if v = ''stopped'' then ret (Some (ts_exitstatus status = Some ''OK''))
             else bnd (time_sleep 2) (\<lambda>_. ret None)))
      (\<lambda>e. bnd (time_sleep 2) (\<lambda>_. ret None))"

lemma wait_for_task_iter_cases:
  "(\<exists>b. fst (wait_for_task_iter R node upid s) = Inr (Some b) \<and>
        now (snd (wait_for_task_iter R node upid s)) = now s)
   \<or> (fst (wait_for_task_iter R node upid s) = Inr None \<and>
        now (snd (wait_for_task_iter R node upid s)) = now s + 2)"
proof -
  obtain r s' where g: "get_task_status R node upid s = (r, s')"
    by (cases "get_task_status R node upid s")
  have "now s' = now s"
    using keeps_now_get_task_status g by (rule keeps_nowD)
  then show ?thesis
    using g
    by (auto simp: wait_for_task_iter_def try_except_def bnd_def throw_def ret_def time_sleep_def
        split: sum.splits option.splits)
qed

function wait_for_task_loop :: "remote \<Rightarrow> string \<Rightarrow> string \<Rightarrow> int \<Rightarrow> int \<Rightarrow> bool prog" where
  "wait_for_task_loop R node upid timeout start_time s =
     (if now s - start_time < timeout then
        (let r = wait_for_task_iter R node upid s in
         case fst r of
           Inl e \<Rightarrow> (Inl e, snd r)
         | Inr (Some b) \<Rightarrow> (Inr b, snd r)
         | Inr None \<Rightarrow> wait_for_task_loop R node upid timeout start_time (snd r))
      else (Inr False, s))"
  by pat_completeness auto
termination
proof (relation "measure (\<lambda>(R, node, upid, timeout, start_time, s). nat (timeout - (now s - start_time)))")
  show "wf (measure (\<lambda>(R, node, upid, timeout, start_time, s). nat (timeout - (now s - start_time))))"
    by simp
next
  fix R node upid timeout start_time s r x2
  assume a: "now s - start_time < timeout" "r = wait_for_task_iter R node upid s"
    "fst r = Inr x2" "x2 = None"
  have "now (snd r) = now s + 2"
    using wait_for_task_iter_cases[of R node upid s] a by auto
  then show "((R, node, upid, timeout, start_time, snd r), (R, node, upid, timeout, start_time, s))
       \<in> measure (\<lambda>(R, node, upid, timeout, start_time, s). nat (timeout - (now s - start_time)))"
    using a by simp
qed

declare wait_for_task_loop.simps [simp del]

definition wait_for_task :: "remote \<Rightarrow> string \<Rightarrow> string \<Rightarrow> int \<Rightarrow> bool prog" where
  "wait_for_task R node upid timeout =
     bnd time_time (\<lambda>start_time. wait_for_task_loop R node upid timeout start_time)"

text \<open>
  What one poll of the task says: it is terminal when the call returned a status whose
  \<^verbatim>\<open>status\<close> is \<^verbatim>\<open>stopped\<close> (the test of the loop body), and a success when moreover
  \<^verbatim>\<open>exitstatus\<close> is \<^verbatim>\<open>OK\<close>. A poll that raised is neither.
\<close>

definition poll_terminal :: "exn + task_status \<Rightarrow> bool" where
  "poll_terminal p = (case p of Inl e \<Rightarrow> False | Inr status \<Rightarrow> ts_status status = Some ''stopped'')"

definition poll_success :: "exn + task_status \<Rightarrow> bool" where
  "poll_success p =
     (case p of Inl e \<Rightarrow> False
      | Inr status \<Rightarrow> ts_status status = Some ''stopped'' \<and> ts_exitstatus status = Some ''OK'')"

section \<open>The audit logger (\<^verbatim>\<open>app/services/audit_service.py\<close>)\<close>

text \<open>
  An audit call appends one record to the log and returns (the entries are plain JSON
  values, and Python's logging keeps the errors of its handlers to itself); the model keeps
  the operation, the VM name and the error text (\<open>None\<close> for a success record).
\<close>

definition audit :: "event \<Rightarrow> unit prog" where
  "audit ev = (\<lambda>s. (Inr (), s\<lparr>trace := trace s @ [ev]\<rparr>))"

section \<open>VMService (\<^verbatim>\<open>app/services/vm_service.py\<close>)\<close>

text \<open>The \<^verbatim>\<open>vm_config\<close> dictionary of create\_vm, in insertion order.\<close>

definition vm_config_of :: "VMCreateRequest \<Rightarrow> string \<Rightarrow> string \<Rightarrow> (string \<times> pval) list" where
  "vm_config_of request storage network_bridge =
     [(''name'', PStr (rq_name request)),
      (''cores'', PInt (rq_cores request)),
      (''sockets'', PInt (rq_sockets request)),
      (''cpu'', PStr (rq_cpu_type request)),
      (''memory'', PInt (rq_memory request)),
      (''net0'', PStr (rq_network_model request @ '',bridge='' @ network_bridge)),
      (''ostype'', PStr (if rq_os_type request = ''linux'' then ''l26'' else ''win11'')),
      (''bios'', PStr (rq_bios request)),
      (''machine'', PStr (rq_machine request))]
     @ (if rq_bios request = ''ovmf''
        then [(''efidisk0'', PStr (storage @ '':1,efitype=4m,pre-enrolled-keys=1''))] else [])
     @ [(''scsi0'', PStr (storage @ '':'' @ str_int (rq_disk_size request))),
        (''scsihw'', PStr ''virtio-scsi-pci'')]
     @ (if rq_enable_guest_agent request then [(''agent'', PStr ''1'')] else [])
     @ (if truthy_str (rq_iso request)
        then [(''ide2'', PStr (the (rq_iso request) @ '',media=cdrom''))] else [])
     @ (if truthy_str (rq_virtio_iso request)
        then [(''ide0'', PStr (the (rq_virtio_iso request) @ '',media=cdrom''))] else [])
     @ [(''boot'', PStr ''order=ide2;scsi0'')]
     @ (if truthy_str (rq_description request)
        then [(''description'', PStr (the (rq_description request)))] else [])
     @ (if truthy_list (rq_tags request)
        then [(''tags'', PStr (join '';'' (the (rq_tags request))))] else [])"

text \<open>
  Method create\_vm. The body of the \<^verbatim>\<open>try\<close> and then its two \<^verbatim>\<open>except\<close> clauses:
  InvalidVMIDError and VMCreationError are logged and raised again, anything else is logged
  and raised as VMCreationError.
\<close>

definition create_vm_try :: "remote \<Rightarrow> settings \<Rightarrow> VMCreateRequest \<Rightarrow> VMCreateResponse prog" where
  "create_vm_try R st request =
    (let node = str_or (rq_node request) (default_node st) in
     bnd (if truthy_int (rq_vmid request) then ret (the (rq_vmid request))
          else get_next_vmid R) (\<lambda>vmid.
     if vmid < vmid_min st \<or> vmid > vmid_max st then
       throw (InvalidVMIDError (''VM ID '' @ str_int vmid @ '' is outside allowed range ('' @
                str_int (vmid_min st) @ ''-'' @ str_int (vmid_max st) @ '')''))
     else
       (let storage = str_or (rq_storage request) (default_storage st);
            network_bridge = str_or (rq_network_bridge request) (default_network_bridge st);
            vm_config = vm_config_of request storage network_bridge
        in
        bnd (create_vm_px R node vmid vm_config) (\<lambda>task_id.
        bnd (wait_for_task R node task_id 120) (\<lambda>creation_success.
        if \<not> creation_success then
          throw (VMCreationError ''VM creation timed out or failed'')
        else
          bnd (if rq_start_on_creation request \<and> enable_auto_start st then
                 try_except
                   (bnd (start_vm R node vmid) (\<lambda>_.
                    ret (''started'', ''VM '' @ str_int vmid @ '' created and started successfully'')))
                   (\<lambda>e. ret (''created'',
                              ''VM '' @ str_int vmid @ '' created but failed to start: '' @ str e))
               else ret (''created'', ''VM '' @ str_int vmid @ '' created successfully''))
          (\<lambda>(status, message).
          (let response = \<lparr> rs_vmid = vmid, rs_name = rq_name request, rs_node = node,
                             rs_status = status, rs_message = message,
                             rs_task_id = Some task_id \<rparr>
           in bnd (audit (AuditVmCreation (rq_name request) None)) (\<lambda>_. ret response))))))))"

definition create_vm :: "remote \<Rightarrow> settings \<Rightarrow> VMCreateRequest \<Rightarrow> VMCreateResponse prog" where
  "create_vm R st request =
    try_except (create_vm_try R st request)
      (\<lambda>e. case e of
          InvalidVMIDError _ \<Rightarrow>
            bnd (audit (AuditVmCreation (rq_name request) (Some (str e)))) (\<lambda>_. throw e)
        | VMCreationError _ \<Rightarrow>
            bnd (audit (AuditVmCreation (rq_name request) (Some (str e)))) (\<lambda>_. throw e)
        | _ \<Rightarrow>
            bnd (audit (AuditVmCreation (rq_name request) (Some (''Unexpected error: '' @ str e))))
              (\<lambda>_. throw (VMCreationError (''Failed to create VM: '' @ str e))))"

text \<open>Method get\_vm\_info.\<close>

definition get_vm_info :: "remote \<Rightarrow> int \<Rightarrow> VMInfo prog" where
  "get_vm_info R vmid =
    try_except
      (bnd (find_vm_node R vmid) (\<lambda>node.
       if \<not> truthy_str node then throw (VMNotFoundError (''VM '' @ str_int vmid @ '' not found''))
       else
         bnd (get_vm_status R (the node) vmid) (\<lambda>status.
         bnd (get_vm_config R (the node) vmid) (\<lambda>config.
         ret \<lparr> vi_vmid = vmid,
               vi_name = (case cfg_name config of Some n \<Rightarrow> n | None \<Rightarrow> ''vm-'' @ str_int vmid),
               vi_node = the node,
               vi_status = (case st_status status of Some x \<Rightarrow> x | None \<Rightarrow> ''unknown''),
               vi_cores = (case cfg_cores config of Some c \<Rightarrow> Some c | None \<Rightarrow> cfg_cpus config),
               vi_memory = cfg_memory config,
               vi_uptime = st_uptime status \<rparr>))))
      (\<lambda>e. case e of
          VMNotFoundError _ \<Rightarrow> throw e
        | _ \<Rightarrow> throw (ProxmoxConnectionError (''Failed to get VM info: '' @ str e)))"

section \<open>The batch endpoint (\<^verbatim>\<open>app/api/v1/vms.py\<close>, batch\_create\_vms)\<close>

text \<open>The synthesized response of a failed item.\<close>

definition error_result :: "VMCreateRequest \<Rightarrow> string \<Rightarrow> VMCreateResponse" where
  "error_result request msg =
     \<lparr> rs_vmid = 0, rs_name = rq_name request, rs_node = [], rs_status = ''failed'',
       rs_message = msg, rs_task_id = None \<rparr>"

text \<open>
  The body of the \<^verbatim>\<open>for\<close> loop for one request: the response appended to \<^verbatim>\<open>results\<close>
  and whether \<^verbatim>\<open>successful\<close> (\<open>True\<close>) or \<^verbatim>\<open>failed\<close> (\<open>False\<close>) is incremented.
\<close>

definition batch_item :: "remote \<Rightarrow> settings \<Rightarrow> VMCreateRequest \<Rightarrow> (VMCreateResponse \<times> bool) prog" where
  "batch_item R st request =
    try_except
      (let validation = validate_vm_config request in
       if \<not> valid validation then
         ret (error_result request
                (''Invalid configuration: '' @ join '', '' (issues validation)), False)
       else bnd (create_vm R st request) (\<lambda>result. ret (result, True)))
      (\<lambda>e. case e of
          InvalidVMIDError _ \<Rightarrow> ret (error_result request (''Failed: '' @ str e), False)
        | VMCreationError _ \<Rightarrow> ret (error_result request (''Failed: '' @ str e), False)
        | ProxmoxConnectionError _ \<Rightarrow> ret (error_result request (''Failed: '' @ str e), False)
        | _ \<Rightarrow> ret (error_result request (''Unexpected error: '' @ str e), False))"

fun batch_loop ::
  "remote \<Rightarrow> settings \<Rightarrow> VMCreateRequest list \<Rightarrow> VMCreateResponse list \<times> int \<times> int \<Rightarrow>
   (VMCreateResponse list \<times> int \<times> int) prog" where
  "batch_loop R st [] acc = ret acc"
| "batch_loop R st (request # rest) (results, successful, failed) =
     bnd (batch_item R st request) (\<lambda>(result, ok).
     batch_loop R st rest
       (results @ [result],
        if ok then successful + 1 else successful,
        if ok then failed else failed + 1))"

definition batch_create_vms ::
  "remote \<Rightarrow> settings \<Rightarrow> VMCreateRequest list \<Rightarrow> BatchVMCreateResponse prog" where
  "batch_create_vms R st requests =
     bnd (batch_loop R st requests ([], 0, 0)) (\<lambda>(results, successful, failed).
     (let response = \<lparr> b_results = results, b_total = int (length requests),
                        b_successful = successful, b_failed = failed \<rparr>
      in bnd (audit (AuditBatch ''batch_create'' (int (length requests)) successful failed))
           (\<lambda>_. ret response)))"

section \<open>TemplateService (\<^verbatim>\<open>app/services/template_service.py\<close>)\<close>

text \<open>Method \_apply\_customizations; first the \<^verbatim>\<open>update_params\<close> dictionary it builds.\<close>

definition update_params_of :: "CloneRequest \<Rightarrow> (string \<times> pval) list" where
  "update_params_of request =
     (if truthy_int (cl_cores request) then [(''cores'', PInt (the (cl_cores request)))] else [])
     @ (if truthy_int (cl_memory request) then [(''memory'', PInt (the (cl_memory request)))] else [])
     @ (if truthy_list (cl_tags request)
        then [(''tags'', PStr (join '';'' (the (cl_tags request))))] else [])"

definition apply_customizations :: "remote \<Rightarrow> string \<Rightarrow> int \<Rightarrow> CloneRequest \<Rightarrow> unit prog" where
  "apply_customizations R node vmid request =
    try_except
      (let update_params = update_params_of request
       in if update_params \<noteq> [] then update_vm_config R node vmid update_params else ret ())
      (\<lambda>e. throw (VMCloneError (''VM cloned but customization failed: '' @ str e)))"

text \<open>Method \_apply\_cloudinit.\<close>

definition apply_cloudinit :: "remote \<Rightarrow> string \<Rightarrow> int \<Rightarrow> CloneRequest \<Rightarrow> unit prog" where
  "apply_cloudinit R node vmid request =
    try_except
      (case cl_cloudinit request of
         None \<Rightarrow> ret ()
       | Some config \<Rightarrow>
           (let hostname = cl_name request
            in perform (CallCloudinit node vmid) (cloudinit R node vmid config hostname)))
      (\<lambda>e. throw (VMCloneError (''VM cloned but cloud-init configuration failed: '' @ str e)))"

text \<open>Method wait\_for\_clone\_completion.\<close>

definition wait_for_clone_completion :: "remote \<Rightarrow> string \<Rightarrow> string \<Rightarrow> int \<Rightarrow> bool prog" where
  "wait_for_clone_completion R node task_id timeout = wait_for_task R node task_id timeout"

text \<open>Method clone\_from\_template: the body of the \<^verbatim>\<open>try\<close>, then the \<^verbatim>\<open>except\<close> clauses.\<close>

definition clone_from_template_try :: "remote \<Rightarrow> settings \<Rightarrow> CloneRequest \<Rightarrow> VMCreateResponse prog" where
  "clone_from_template_try R st request =
    bnd (find_vm_node R (cl_source_vmid request)) (\<lambda>source_node.
    if \<not> truthy_str source_node then
      throw (TemplateNotFoundError (''Template '' @ str_int (cl_source_vmid request) @ '' not found''))
    else
      bnd (get_vm_config R (the source_node) (cl_source_vmid request)) (\<lambda>config.
      if \<not> truthy_int (cfg_template config) then
        throw (TemplateNotFoundError (''VM '' @ str_int (cl_source_vmid request) @ '' is not a template''))
      else
        (let target_node = str_or (cl_node request) (default_node st) in
         bnd (if truthy_int (cl_new_vmid request) then ret (the (cl_new_vmid request))
              else get_next_vmid R) (\<lambda>new_vmid.
         if new_vmid < vmid_min st \<or> new_vmid > vmid_max st then
           throw (InvalidVMIDError (''VM ID '' @ str_int new_vmid @ '' is outside allowed range ('' @
                    str_int (vmid_min st) @ ''-'' @ str_int (vmid_max st) @ '')''))
         else
           (let storage = str_or (cl_storage request) (default_storage st) in
            bnd (clone_vm R (the source_node) (cl_source_vmid request) new_vmid
                   (Some (cl_name request)) (Some storage)
                   (if cl_full_clone request then 1 else 0)
                   [(''description'',
                     (case cl_description request of None \<Rightarrow> PNone | Some d \<Rightarrow> PStr d))])
            (\<lambda>task_id.
            bnd (wait_for_clone_completion R (the source_node) task_id (validation_timeout st))
            (\<lambda>clone_success.
            if \<not> clone_success then
              throw (VMCloneError ''Clone operation timed out or failed'')
            else
              bnd (if truthy_int (cl_cores request) \<or> truthy_int (cl_memory request) \<or>
                      truthy_list (cl_tags request)
                   then apply_customizations R target_node new_vmid request else ret ()) (\<lambda>_.
              bnd (if cl_cloudinit request \<noteq> None
                   then apply_cloudinit R target_node new_vmid request else ret ()) (\<lambda>_.
              bnd (if cl_start_after_clone request \<and> enable_auto_start st then
                     try_except
                       (bnd (start_vm R target_node new_vmid) (\<lambda>_.
                        ret (''started'',
                             ''VM '' @ str_int new_vmid @ '' cloned and started successfully'')))
                       (\<lambda>e. ret (''created'',
                                  ''VM '' @ str_int new_vmid @
                                  '' cloned successfully but failed to start: '' @ str e))
                   else ret (''created'', ''VM '' @ str_int new_vmid @ '' cloned successfully''))
              (\<lambda>(status, message).
              (let response = \<lparr> rs_vmid = new_vmid, rs_name = cl_name request,
                                 rs_node = target_node, rs_status = status,
                                 rs_message = message, rs_task_id = Some task_id \<rparr>
               in bnd (audit (AuditTemplateClone (cl_name request) None))
                    (\<lambda>_. ret response))))))))))))"

definition clone_from_template :: "remote \<Rightarrow> settings \<Rightarrow> CloneRequest \<Rightarrow> VMCreateResponse prog" where
  "clone_from_template R st request =
    try_except (clone_from_template_try R st request)
      (\<lambda>e. case e of
          TemplateNotFoundError _ \<Rightarrow>
            bnd (audit (AuditTemplateClone (cl_name request) (Some (str e)))) (\<lambda>_. throw e)
        | InvalidVMIDError _ \<Rightarrow>
            bnd (audit (AuditTemplateClone (cl_name request) (Some (str e)))) (\<lambda>_. throw e)
        | VMCloneError _ \<Rightarrow>
            bnd (audit (AuditTemplateClone (cl_name request) (Some (str e)))) (\<lambda>_. throw e)
        | _ \<Rightarrow>
            bnd (audit (AuditTemplateClone (cl_name request)
                         (Some (''Unexpected error: '' @ str e))))
              (\<lambda>_. throw (VMCloneError (''Failed to clone template: '' @ str e))))"

section \<open>ValidationService (\<^verbatim>\<open>app/services/validation_service.py\<close>)\<close>

text \<open>Method \_check\_proxmox\_status.\<close>

definition check_proxmox_status :: "remote \<Rightarrow> int \<Rightarrow> ValidationCheck prog" where
  "check_proxmox_status R vmid =
    try_except
      (bnd (find_vm_node R vmid) (\<lambda>node.
       if \<not> truthy_str node then
         ret \<lparr> vc_passed = False, vc_message = Some (''VM '' @ str_int vmid @ '' not found''),
               vc_details = None, vc_required = True \<rparr>
       else
         bnd (get_vm_status R (the node) vmid) (\<lambda>status.
         (let vm_status = (case st_status status of Some x \<Rightarrow> x | None \<Rightarrow> ''unknown'');
              uptime = (case st_uptime status of Some u \<Rightarrow> u | None \<Rightarrow> 0)
          in if vm_status = ''running'' then
               ret \<lparr> vc_passed = True,
                     vc_message = Some (''VM is running (uptime: '' @ str_int uptime @ ''s)''),
                     vc_details = Some [(''status'', PStr vm_status), (''uptime'', PInt uptime),
                                        (''node'', PStr (the node))],
                     vc_required = True \<rparr>
             else
               ret \<lparr> vc_passed = False,
                     vc_message = Some (''VM is not running (status: '' @ vm_status @ '')''),
                     vc_details = Some [(''status'', PStr vm_status), (''node'', PStr (the node))],
                     vc_required = True \<rparr>))))
      (\<lambda>e. case e of
          VMNotFoundError _ \<Rightarrow>
            ret \<lparr> vc_passed = False, vc_message = Some (''VM '' @ str_int vmid @ '' not found''),
                  vc_details = None, vc_required = True \<rparr>
        | _ \<Rightarrow>
            ret \<lparr> vc_passed = False,
                  vc_message = Some (''Failed to check Proxmox status: '' @ str e),
                  vc_details = Some [(''error'', PStr (str e))], vc_required = True \<rparr>)"

text \<open>
  Method \_get\_vm\_ip\_address: the first address of type ipv4 (compared in lower case) that
  does not start with \<^verbatim>\<open>127.\<close>, scanning the interfaces and their addresses in order.
\<close>

fun scan_ip_infos :: "ip_info list \<Rightarrow> string option" where
  "scan_ip_infos [] = None"
| "scan_ip_infos (info # rest) =
     (let ip = ii_ip_address info;
          ip_type = lower (case ii_ip_address_type info of Some ty \<Rightarrow> ty | None \<Rightarrow> [])
      in if truthy_str ip \<and> ip_type = ''ipv4'' \<and> \<not> prefix ''127.'' (the ip) then ip
         else scan_ip_infos rest)"

fun scan_ifaces :: "iface list \<Rightarrow> string option" where
  "scan_ifaces [] = None"
| "scan_ifaces (ifc # rest) =
     (case if_ip_addresses ifc of
        None \<Rightarrow> scan_ifaces rest
      | Some infos \<Rightarrow>
          (case scan_ip_infos infos of Some ip \<Rightarrow> Some ip | None \<Rightarrow> scan_ifaces rest))"

definition get_vm_ip_address :: "remote \<Rightarrow> int \<Rightarrow> string option prog" where
  "get_vm_ip_address R vmid =
    try_except
      (bnd (find_vm_node R vmid) (\<lambda>node.
       if \<not> truthy_str node then ret None
       else
         bnd (get_vm_network_interfaces R (the node) vmid) (\<lambda>interfaces.
         if \<not> truthy_list interfaces then ret None
         else ret (scan_ifaces (the interfaces)))))
      (\<lambda>e. ret None)"

lemma keeps_now_list_nodes [intro!, simp]: "keeps_now (list_nodes R)"
  unfolding list_nodes_def by auto

lemma keeps_now_list_vms_loop [intro!, simp]: "keeps_now (list_vms_loop R nodes acc)"
  by (induction nodes arbitrary: acc) (auto split: option.splits)

lemma keeps_now_list_vms [intro!, simp]: "keeps_now (list_vms R node)"
  unfolding list_vms_def by auto

lemma keeps_now_find_vm_node_loop [intro!, simp]: "keeps_now (find_vm_node_loop vms vmid)"
  by (induction vms) (auto split: option.splits)

lemma keeps_now_find_vm_node [intro!, simp]: "keeps_now (find_vm_node R vmid)"
  unfolding find_vm_node_def by auto

lemma keeps_now_get_vm_network_interfaces [intro!, simp]:
  "keeps_now (get_vm_network_interfaces R node vmid)"
  unfolding get_vm_network_interfaces_def by auto

lemma keeps_now_get_vm_ip_address [intro!, simp]: "keeps_now (get_vm_ip_address R vmid)"
  unfolding get_vm_ip_address_def by auto

text \<open>
  Method \_wait\_for\_ip. One pass through the loop body: \<open>Some ip\<close> when it returns
  \<open>ip\<close>, \<open>None\<close> when it falls through to the next test of the loop condition. A
  sleep that raises inside the \<^verbatim>\<open>try\<close> is caught by the handler, which sleeps again; a
  sleep that raises inside the handler leaves the method. The parameter
  \<^verbatim>\<open>retry_interval\<close> is passed by no caller and stands at its default.
\<close>

definition retry_interval :: int where
  "retry_interval = 10"

definition wait_for_ip_iter :: "remote \<Rightarrow> int \<Rightarrow> string option prog" where
  "wait_for_ip_iter R vmid =
    try_except
      (bnd (get_vm_ip_address R vmid) (\<lambda>ip.
       if truthy_str ip then ret ip
       else bnd (await_sleep R retry_interval) (\<lambda>_. ret None)))
      (\<lambda>e. bnd (await_sleep R retry_interval) (\<lambda>_. ret None))"

lemma truthy_str_iff: "truthy_str x = (\<exists>v. x = Some v \<and> v \<noteq> [])"
  by (cases x) auto

lemma wait_for_ip_iter_cases:
  "(\<exists>e. fst (wait_for_ip_iter R vmid s) = Inl e \<and> now (snd (wait_for_ip_iter R vmid s)) = now s)
   \<or> (\<exists>ip. fst (wait_for_ip_iter R vmid s) = Inr (Some ip) \<and> ip \<noteq> [] \<and>
        now (snd (wait_for_ip_iter R vmid s)) = now s)
   \<or> (fst (wait_for_ip_iter R vmid s) = Inr None \<and>
        now (snd (wait_for_ip_iter R vmid s)) = now s + 10)"
proof -
  obtain r s' where g: "get_vm_ip_address R vmid s = (r, s')"
    by (cases "get_vm_ip_address R vmid s")
  have "now s' = now s"
    using keeps_now_get_vm_ip_address g by (rule keeps_nowD)
  then show ?thesis
    using g
    by (cases r; cases "asyncio_sleep R 10 s'"; cases "asyncio_sleep R 10 (s'\<lparr>trace := trace s' @ [SleepFailed 10]\<rparr>)")
       (auto simp: wait_for_ip_iter_def try_except_def bnd_def throw_def ret_def await_sleep_def
          retry_interval_def truthy_str_iff split: sum.splits option.splits)
qed

function wait_for_ip_loop :: "remote \<Rightarrow> int \<Rightarrow> int \<Rightarrow> int \<Rightarrow> string option prog" where
  "wait_for_ip_loop R vmid timeout start_time s =
     (if now s - start_time < timeout then
        (let r = wait_for_ip_iter R vmid s in
         case fst r of
           Inl e \<Rightarrow> (Inl e, snd r)
         | Inr (Some ip) \<Rightarrow> (Inr (Some ip), snd r)
         | Inr None \<Rightarrow> wait_for_ip_loop R vmid timeout start_time (snd r))
      else (Inr None, s))"
  by pat_completeness auto
termination
proof (relation "measure (\<lambda>(R, vmid, timeout, start_time, s). nat (timeout - (now s - start_time)))")
  show "wf (measure (\<lambda>(R, vmid, timeout, start_time, s). nat (timeout - (now s - start_time))))"
    by simp
next
  fix R vmid timeout start_time s r x2
  assume a: "now s - start_time < timeout" "r = wait_for_ip_iter R vmid s"
    "fst r = Inr x2" "x2 = None"
  have "now (snd r) = now s + 10"
    using wait_for_ip_iter_cases[of R vmid s] a by auto
  then show "((R, vmid, timeout, start_time, snd r), (R, vmid, timeout, start_time, s))
       \<in> measure (\<lambda>(R, vmid, timeout, start_time, s). nat (timeout - (now s - start_time)))"
    using a by simp
qed

declare wait_for_ip_loop.simps [simp del]

definition wait_for_ip :: "remote \<Rightarrow> int \<Rightarrow> int \<Rightarrow> string option prog" where
  "wait_for_ip R vmid timeout =
     bnd time_time (\<lambda>start_time. wait_for_ip_loop R vmid timeout start_time)"

text \<open>Method \_check\_port.\<close>

definition check_port :: "remote \<Rightarrow> settings \<Rightarrow> string \<Rightarrow> int \<Rightarrow> string \<Rightarrow> ValidationCheck prog" where
  "check_port R st ip port port_name =
    try_except
      (bnd (perform (CallCheckPortOpen ip port (validation_retry_interval st))
              (check_port_open R ip port (validation_retry_interval st))) (\<lambda>result.
       case pr_passed result of
         None \<Rightarrow> throw (KeyError ''passed'')
       | Some p \<Rightarrow>
           ret \<lparr> vc_passed = p,
                 vc_message = Some (case pr_message result of Some m \<Rightarrow> m
                                    | None \<Rightarrow> port_name @ '' port check''),
                 vc_details = Some (pr_details result), vc_required = True \<rparr>))
      (\<lambda>e. ret \<lparr> vc_passed = False,
                 vc_message = Some (''Failed to check '' @ port_name @ '' port: '' @ str e),
                 vc_details = Some [(''error'', PStr (str e))], vc_required = True \<rparr>)"

text \<open>
  Method validate\_vm. The body of the \<^verbatim>\<open>try\<close> returns, with its outcome, the \<^verbatim>\<open>checks\<close>
  dictionary as it stands when the body ends or raises, since the handler adds to it.
\<close>

definition validate_vm_try ::
  "remote \<Rightarrow> settings \<Rightarrow> int \<Rightarrow> string \<Rightarrow> (string \<times> ValidationCheck) list \<Rightarrow>
   state \<Rightarrow> ((string \<times> ValidationCheck) list \<times> (exn + ValidationResult)) \<times> state" where
  "validate_vm_try R st vmid os_type checks0 s0 =
    (case check_proxmox_status R vmid s0 of
       (Inl e, s1) \<Rightarrow> ((checks0, Inl e), s1)
     | (Inr c1, s1) \<Rightarrow>
        (let checks1 = dict_set checks0 ''proxmox_status'' c1 in
         case wait_for_ip R vmid 120 s1 of
           (Inl e, s2) \<Rightarrow> ((checks1, Inl e), s2)
         | (Inr ip_address, s2) \<Rightarrow>
             if \<not> truthy_str ip_address then
               ((checks1, Inr \<lparr> vr_vmid = vmid, vr_status = ''degraded'', vr_ip_address = None,
                                vr_checks = checks1,
                                vr_message = Some ''VM is running but no IP address assigned'' \<rparr>),
                s2)
             else
               (let port = (if os_type = ''linux'' then validation_ssh_port st
                            else validation_rdp_port st);
                    port_name = (if os_type = ''linux'' then ''SSH'' else ''RDP'')
                in case check_port R st (the ip_address) port port_name s2 of
                     (Inl e, s3) \<Rightarrow> ((checks1, Inl e), s3)
                   | (Inr c2, s3) \<Rightarrow>
                       (let checks2 = dict_set checks1 (lower port_name @ ''_port'') c2;
                            required_checks = filter vc_required (map snd checks2);
                            all_passed = list_all vc_passed required_checks;
                            status = (if all_passed then ''healthy'' else ''degraded'');
                            message = (if all_passed then ''All validation checks passed''
                                       else ''Some validation checks failed'')
                        in ((checks2, Inr \<lparr> vr_vmid = vmid, vr_status = status,
                                             vr_ip_address = ip_address, vr_checks = checks2,
                                             vr_message = Some message \<rparr>), s3)))))"

definition validate_vm_except ::
  "int \<Rightarrow> (string \<times> ValidationCheck) list \<Rightarrow> exn \<Rightarrow> ValidationResult prog" where
  "validate_vm_except vmid checks e =
    (let checks' = dict_set checks ''error''
           \<lparr> vc_passed = False, vc_message = Some (''Validation failed: '' @ str e),
             vc_details = Some [(''error'', PStr (str e))], vc_required = True \<rparr>
     in ret \<lparr> vr_vmid = vmid, vr_status = ''unhealthy'', vr_ip_address = None,
              vr_checks = checks', vr_message = Some (''Validation failed: '' @ str e) \<rparr>)"

definition validate_vm ::
  "remote \<Rightarrow> settings \<Rightarrow> int \<Rightarrow> string \<Rightarrow> int option \<Rightarrow> ValidationResult prog" where
  "validate_vm R st vmid os_type timeout = (\<lambda>s.
    (let timeout = (if truthy_int timeout then the timeout else validation_timeout st);
         checks = []
     in case validate_vm_try R st vmid os_type checks s of
          ((checks', Inr result), s') \<Rightarrow> (Inr result, s')
        | ((checks', Inl e), s') \<Rightarrow> validate_vm_except vmid checks' e s'))"

text \<open>Method quick\_health\_check.\<close>

definition quick_health_check :: "remote \<Rightarrow> int \<Rightarrow> bool prog" where
  "quick_health_check R vmid =
    try_except (bnd (check_proxmox_status R vmid) (\<lambda>check. ret (vc_passed check)))
      (\<lambda>e. ret False)"

section \<open>Observations on the call trace\<close>

text \<open>
  \<open>emits P m\<close>: whatever the state, the events that \<open>m\<close> adds to the trace all
  satisfy \<open>P\<close>, and it removes none.
\<close>

definition emits :: "(event \<Rightarrow> bool) \<Rightarrow> 'a prog \<Rightarrow> bool" where
  "emits P m = (\<forall>s. \<exists>evs. trace (snd (m s)) = trace s @ evs \<and> list_all P evs)"

text \<open>The events of a lookup: opening or probing the connection and reading the cluster.\<close>

fun is_lookup :: "event \<Rightarrow> bool" where
  "is_lookup CallProxmoxAPI = True"
| "is_lookup CallVersionGet = True"
| "is_lookup CallNodesGet = True"
| "is_lookup (CallQemuGet node) = True"
| "is_lookup (CallConfigGet node vmid) = True"
| "is_lookup _ = False"

text \<open>The message of the range check of create\_vm and clone\_from\_template.\<close>

definition range_message :: "settings \<Rightarrow> int \<Rightarrow> string" where
  "range_message st v =
     ''VM ID '' @ str_int v @ '' is outside allowed range ('' @
     str_int (vmid_min st) @ ''-'' @ str_int (vmid_max st) @ '')''"

text \<open>The calls that would take a VM back: stopping it or deleting it.\<close>

fun is_rollback :: "event \<Rightarrow> bool" where
  "is_rollback (CallDelete node vmid kw) = True"
| "is_rollback (CallStopPost node vmid) = True"
| "is_rollback _ = False"

text \<open>\<open>returns Q m\<close>: whenever \<open>m\<close> returns a value, the value satisfies \<open>Q\<close>.\<close>

definition returns :: "('a \<Rightarrow> bool) \<Rightarrow> 'a prog \<Rightarrow> bool" where
  "returns Q m = (\<forall>s a s'. m s = (Inr a, s') \<longrightarrow> Q a)"

text \<open>
  The state after the requests \<open>rqs\<close> have been handled one after the other: a request
  with a valid configuration has gone through create\_vm, whether it returned or raised, and
  a request with an invalid one has left the state as it was.
\<close>

fun processed :: "remote \<Rightarrow> settings \<Rightarrow> VMCreateRequest list \<Rightarrow> state \<Rightarrow> state" where
  "processed R st [] s = s"
| "processed R st (rq # rest) s =
     processed R st rest
       (if valid (validate_vm_config rq) then snd (create_vm R st rq s) else s)"

text \<open>
  Request \<open>i\<close> of the list is created: its configuration is valid and create\_vm, run in
  the state left by the requests before it, returns a response.
\<close>

definition created :: "remote \<Rightarrow> settings \<Rightarrow> VMCreateRequest list \<Rightarrow> state \<Rightarrow> nat \<Rightarrow> bool" where
  "created R st requests s i =
     (valid (validate_vm_config (requests ! i)) \<and>
      (case fst (create_vm R st (requests ! i) (processed R st (take i requests) s)) of
         Inr r \<Rightarrow> True | Inl e \<Rightarrow> False))"


section \<open>Concrete environments\<close>

text \<open>
  The state before anything has happened, and a remote side on which every call succeeds:
  no nodes, no VMs, every task still running, every port closed.
\<close>

definition initial_state :: state where
  "initial_state = \<lparr> now = 0, cached = False, trace = [] \<rparr>"

definition quiet_remote :: remote where
  "quiet_remote =
     \<lparr> ProxmoxAPI = (\<lambda>s. Inr ()),
       version_get = (\<lambda>s. Inr ()),
       nodes_get = (\<lambda>s. Inr []),
       qemu_get = (\<lambda>node s. Inr []),
       config_get = (\<lambda>node vmid s. Inr \<lparr> cfg_template = None, cfg_name = None, cfg_cores = None,
                                         cfg_cpus = None, cfg_memory = None \<rparr>),
       status_current_get = (\<lambda>node vmid s. Inr \<lparr> st_status = Some ''stopped'', st_uptime = None \<rparr>),
       nextid_get = (\<lambda>s. Inr 150),
       clone_post = (\<lambda>node vmid kw s. Inr ''UPID:clone''),
       qemu_post = (\<lambda>node kw s. Inr ''UPID:create''),
       start_post = (\<lambda>node vmid s. Inr ''UPID:start''),
       stop_post = (\<lambda>node vmid s. Inr ''UPID:stop''),
       delete = (\<lambda>node vmid kw s. Inr ''UPID:delete''),
       task_status_get = (\<lambda>node upid s. Inr \<lparr> ts_status = Some ''running'', ts_exitstatus = None \<rparr>),
       config_put = (\<lambda>node vmid kw s. Inr ()),
       agent_network_get = (\<lambda>node vmid s. Inr None),
       cloudinit = (\<lambda>node vmid config hostname s. Inr ()),
       check_port_open = (\<lambda>host port tmo s. Inr \<lparr> pr_passed = Some False, pr_message = None,
                                                    pr_details = [] \<rparr>),
       asyncio_sleep = (\<lambda>d s. Inr ()) \<rparr>"

text \<open>
  A remote side whose task-status call raises before time 2 and reports success from then
  on, and one whose task completes successfully at time 3.
\<close>

definition flaky_remote :: remote where
  "flaky_remote = quiet_remote
     \<lparr> task_status_get := (\<lambda>node upid s.
          if now s < 2 then Inl (PyException ''connection reset'')
          else Inr \<lparr> ts_status = Some ''stopped'', ts_exitstatus = Some ''OK'' \<rparr>) \<rparr>"

definition late_remote :: remote where
  "late_remote = quiet_remote
     \<lparr> task_status_get := (\<lambda>node upid s.
          if 3 \<le> now s then Inr \<lparr> ts_status = Some ''stopped'', ts_exitstatus = Some ''OK'' \<rparr>
          else Inr \<lparr> ts_status = Some ''running'', ts_exitstatus = None \<rparr>) \<rparr>"

text \<open>
  A control plane that refuses the connection, and one that rejects the credentials.
\<close>

definition down_remote :: remote where
  "down_remote = quiet_remote \<lparr> ProxmoxAPI := (\<lambda>s. Inl (PyException ''connection refused'')) \<rparr>"

definition denied_remote :: remote where
  "denied_remote = quiet_remote \<lparr> ProxmoxAPI := (\<lambda>s. Inl (AuthenticationError ''bad password'')) \<rparr>"

text \<open>
  The default settings of \<^verbatim>\<open>app/config.py\<close>, a cluster with one node holding the template
  9000 on which every task completes at once, a clone request and a create request for it,
  and the same cluster with a start call and a configuration update that raise.
\<close>

definition default_settings :: settings where
  "default_settings =
     \<lparr> proxmox_user = ''root@pam'', default_node = ''pve'', default_storage = ''local-lvm'',
       default_network_bridge = ''vmbr0'', vmid_min = 150, vmid_max = 999,
       validation_timeout = 300, validation_ssh_port = 22, validation_rdp_port = 3389,
       validation_retry_interval = 15, enable_auto_start = True \<rparr>"

definition template_remote :: remote where
  "template_remote = quiet_remote
     \<lparr> nodes_get := (\<lambda>s. Inr [\<lparr> ni_node = Some ''pve'' \<rparr>]),
       qemu_get := (\<lambda>node s. Inr [\<lparr> ve_vmid = Some 9000, ve_node = None,
                                      ve_name = Some ''ubuntu-template'', ve_template = Some 1 \<rparr>]),
       config_get := (\<lambda>node vmid s. Inr \<lparr> cfg_template = Some 1, cfg_name = Some ''ubuntu-template'',
                                          cfg_cores = Some 2, cfg_cpus = None, cfg_memory = Some 2048 \<rparr>),
       task_status_get := (\<lambda>node upid s.
          Inr \<lparr> ts_status = Some ''stopped'', ts_exitstatus = Some ''OK'' \<rparr>) \<rparr>"

definition clone_request :: CloneRequest where
  "clone_request =
     \<lparr> cl_source_vmid = 9000, cl_new_vmid = None, cl_name = ''srv-01'', cl_node = None,
       cl_storage = None, cl_full_clone = True, cl_cores = None, cl_memory = None,
       cl_start_after_clone = True, cl_description = None, cl_tags = None,
       cl_cloudinit = None \<rparr>"

definition create_request :: VMCreateRequest where
  "create_request =
     \<lparr> rq_vmid = None, rq_name = ''srv-01'', rq_node = None, rq_cores = 2, rq_sockets = 1,
       rq_cpu_type = ''host'', rq_memory = 2048, rq_disk_size = 20, rq_storage = None,
       rq_network_bridge = None, rq_network_model = ''virtio'', rq_os_type = ''linux'',
       rq_bios = ''seabios'', rq_machine = ''q35'', rq_iso = None, rq_virtio_iso = None,
       rq_start_on_creation = True, rq_enable_guest_agent = False, rq_description = None,
       rq_tags = None \<rparr>"

definition faulty_remote :: remote where
  "faulty_remote = template_remote
     \<lparr> start_post := (\<lambda>node vmid s. Inl (PyException ''boot failed'')),
       config_put := (\<lambda>node vmid kw s. Inl (PyException ''VM is locked'')) \<rparr>"

text \<open>An event loop on which every \<^verbatim>\<open>asyncio.sleep\<close> raises.\<close>

definition nosleep_remote :: remote where
  "nosleep_remote = quiet_remote
     \<lparr> asyncio_sleep := (\<lambda>d s. Inl (PyException ''event loop closed'')) \<rparr>"

text \<open>
  A create request that violates all four bounds of the configuration validation.
\<close>

definition bad_request :: VMCreateRequest where
  "bad_request =
     \<lparr> rq_vmid = None, rq_name = ''srv-01'', rq_node = None, rq_cores = 0, rq_sockets = 1,
       rq_cpu_type = ''host'', rq_memory = 256, rq_disk_size = 4, rq_storage = None,
       rq_network_bridge = None, rq_network_model = ''virtio'', rq_os_type = ''bsd'',
       rq_bios = ''seabios'', rq_machine = ''q35'', rq_iso = None, rq_virtio_iso = None,
       rq_start_on_creation = False, rq_enable_guest_agent = False, rq_description = None,
       rq_tags = None \<rparr>"

section \<open>Configuration validation (claim C8)\<close>

text \<open>
  Claim C8. For every create request, configuration validation accepts it exactly when
  cores is in [1,256], memory is at least 512, disk\_size is at least 8 and os\_type is
  "linux" or "windows"; and for each field that violates its bound the result is marked
  invalid and its list of issues holds a reason that names the field (a string that
  starts with the field's name).
\<close>

theorem validate_vm_config_spec:
  "(valid (validate_vm_config r) =
      (1 \<le> rq_cores r \<and> rq_cores r \<le> 256 \<and> rq_memory r \<ge> 512 \<and> rq_disk_size r \<ge> 8 \<and>
       (rq_os_type r = ''linux'' \<or> rq_os_type r = ''windows''))) \<and>
   ((rq_cores r < 1 \<or> rq_cores r > 256) \<longrightarrow>
      \<not> valid (validate_vm_config r) \<and>
      (\<exists>m \<in> set (issues (validate_vm_config r)). prefix ''cores'' m)) \<and>
   (rq_memory r < 512 \<longrightarrow>
      \<not> valid (validate_vm_config r) \<and>
      (\<exists>m \<in> set (issues (validate_vm_config r)). prefix ''memory'' m)) \<and>
   (rq_disk_size r < 8 \<longrightarrow>
      \<not> valid (validate_vm_config r) \<and>
      (\<exists>m \<in> set (issues (validate_vm_config r)). prefix ''disk_size'' m)) \<and>
   ((rq_os_type r \<noteq> ''linux'' \<and> rq_os_type r \<noteq> ''windows'') \<longrightarrow>
      \<not> valid (validate_vm_config r) \<and>
      (\<exists>m \<in> set (issues (validate_vm_config r)). prefix ''os_type'' m))"
  by (auto simp: validate_vm_config_def Let_def)

theorem validate_vm_config_spec_witness:
  "\<not> valid (validate_vm_config bad_request) \<and>
   (\<exists>m \<in> set (issues (validate_vm_config bad_request)). prefix ''cores'' m) \<and>
   (\<exists>m \<in> set (issues (validate_vm_config bad_request)). prefix ''memory'' m) \<and>
   (\<exists>m \<in> set (issues (validate_vm_config bad_request)). prefix ''disk_size'' m) \<and>
   (\<exists>m \<in> set (issues (validate_vm_config bad_request)). prefix ''os_type'' m) \<and>
   valid (validate_vm_config (bad_request\<lparr> rq_cores := 2, rq_memory := 2048, rq_disk_size := 20,
                                             rq_os_type := ''linux'' \<rparr>))"
  using validate_vm_config_spec [of bad_request]
        validate_vm_config_spec [of "bad_request\<lparr> rq_cores := 2, rq_memory := 2048,
                                        rq_disk_size := 20, rq_os_type := ''linux'' \<rparr>"]
  by (simp add: bad_request_def)

section \<open>The task waiter under the fake clock (claim C4)\<close>

lemma wait_for_task_iter_nonterminal:
  assumes "\<not> poll_terminal (fst (get_task_status R node upid s))"
  shows "fst (wait_for_task_iter R node upid s) = Inr None \<and>
         now (snd (wait_for_task_iter R node upid s)) = now s + 2"
proof -
  obtain r s' where g: "get_task_status R node upid s = (r, s')"
    by (cases "get_task_status R node upid s")
  have "now s' = now s"
    using keeps_now_get_task_status g by (rule keeps_nowD)
  then show ?thesis
    using g assms
    by (auto simp: wait_for_task_iter_def try_except_def bnd_def throw_def ret_def time_sleep_def
        poll_terminal_def split: sum.splits option.splits)
qed

lemma wait_for_task_iter_terminal:
  assumes "poll_terminal (fst (get_task_status R node upid s))"
  shows "fst (wait_for_task_iter R node upid s) =
           Inr (Some (poll_success (fst (get_task_status R node upid s)))) \<and>
         now (snd (wait_for_task_iter R node upid s)) = now s"
proof -
  obtain r s' where g: "get_task_status R node upid s = (r, s')"
    by (cases "get_task_status R node upid s")
  have "now s' = now s"
    using keeps_now_get_task_status g by (rule keeps_nowD)
  then show ?thesis
    using g assms
    by (auto simp: wait_for_task_iter_def try_except_def bnd_def throw_def ret_def time_sleep_def
        poll_terminal_def poll_success_def split: sum.splits option.splits)
qed

lemma wait_for_task_loop_success:
  assumes H: "\<forall>s. fst (get_task_status R node upid s) = poll (now s)"
  shows "(\<forall>j<k. \<not> poll_terminal (poll (now s + 2 * int j))) \<Longrightarrow>
         poll_terminal (poll (now s + 2 * int k)) \<Longrightarrow>
         now s + 2 * int k - start < timeout \<Longrightarrow>
         fst (wait_for_task_loop R node upid timeout start s) = Inr (poll_success (poll (now s + 2 * int k))) \<and>
         now (snd (wait_for_task_loop R node upid timeout start s)) = now s + 2 * int k"
proof (induction k arbitrary: s)
  case 0
  have t: "poll_terminal (fst (get_task_status R node upid s))"
    using 0 H by simp
  have c: "now s - start < timeout" using 0 by simp
  show ?case
    using wait_for_task_iter_terminal[OF t] c H
    by (subst wait_for_task_loop.simps, subst (2) wait_for_task_loop.simps) (simp add: Let_def)
next
  case (Suc k)
  let ?s' = "snd (wait_for_task_iter R node upid s)"
  have nt: "\<not> poll_terminal (fst (get_task_status R node upid s))"
    using Suc.prems(1) H by (metis add.right_neutral int_ops(1) mult_zero_right zero_less_Suc)
  have c: "now s - start < timeout" using Suc.prems(3) by simp
  have it: "fst (wait_for_task_iter R node upid s) = Inr None" "now ?s' = now s + 2"
    using wait_for_task_iter_nonterminal[OF nt] by auto
  have step: "wait_for_task_loop R node upid timeout start s =
              wait_for_task_loop R node upid timeout start ?s'"
    using c it by (subst wait_for_task_loop.simps) (simp add: Let_def)
  have p1: "\<forall>j<k. \<not> poll_terminal (poll (now ?s' + 2 * int j))"
  proof (intro allI impI)
    fix j assume "j < k"
    then have "Suc j < Suc k" by simp
    then have "\<not> poll_terminal (poll (now s + 2 * int (Suc j)))"
      using Suc.prems(1) by blast
    then show "\<not> poll_terminal (poll (now ?s' + 2 * int j))"
      using it(2) by (simp add: algebra_simps)
  qed
  have p2: "poll_terminal (poll (now ?s' + 2 * int k))"
    using Suc.prems(2) it(2) by (simp add: algebra_simps)
  have p3: "now ?s' + 2 * int k - start < timeout"
    using Suc.prems(3) it(2) by simp
  show ?case
    using Suc.IH[OF p1 p2 p3] step it(2) by (simp add: algebra_simps)
qed

lemma wait_for_task_loop_timeout:
  "\<forall>s. fst (get_task_status R node upid s) = poll (now s) \<Longrightarrow>
   (\<forall>j. now s + 2 * int j - start < timeout \<longrightarrow> \<not> poll_terminal (poll (now s + 2 * int j))) \<Longrightarrow>
   fst (wait_for_task_loop R node upid timeout start s) = Inr False \<and>
   now (snd (wait_for_task_loop R node upid timeout start s)) =
     (if now s - start < timeout then now s + 2 * ((timeout - (now s - start) + 1) div 2)
      else now s)"
proof (induction R node upid timeout start s rule: wait_for_task_loop.induct)
  case (1 R node upid timeout start_time s)
  note H = "1.prems"(1)
  show ?case
  proof (cases "now s - start_time < timeout")
    case False
    then show ?thesis
      by (subst wait_for_task_loop.simps, subst (2) wait_for_task_loop.simps) simp
  next
    case True
    let ?r = "wait_for_task_iter R node upid s"
    let ?s' = "snd ?r"
    have "now s + 2 * int 0 - start_time < timeout \<longrightarrow>
          \<not> poll_terminal (poll (now s + 2 * int 0))"
      using "1.prems"(2) by blast
    then have "\<not> poll_terminal (poll (now s + 2 * int 0))"
      using True by simp
    then have nt: "\<not> poll_terminal (fst (get_task_status R node upid s))"
      using H by simp
    have it: "fst ?r = Inr None" "now ?s' = now s + 2"
      using wait_for_task_iter_nonterminal[OF nt] by auto
    have step: "wait_for_task_loop R node upid timeout start_time s =
                wait_for_task_loop R node upid timeout start_time ?s'"
      using True it by (subst wait_for_task_loop.simps) (simp add: Let_def)
    have p: "\<forall>j. now ?s' + 2 * int j - start_time < timeout \<longrightarrow>
                 \<not> poll_terminal (poll (now ?s' + 2 * int j))"
    proof (intro allI impI)
      fix j assume a: "now ?s' + 2 * int j - start_time < timeout"
      then have "now s + 2 * int (Suc j) - start_time < timeout"
        using it(2) by simp
      then have "\<not> poll_terminal (poll (now s + 2 * int (Suc j)))"
        using "1.prems"(2) by blast
      then show "\<not> poll_terminal (poll (now ?s' + 2 * int j))"
        using it(2) by (simp add: algebra_simps)
    qed
    have ih: "fst (wait_for_task_loop R node upid timeout start_time ?s') = Inr False \<and>
          now (snd (wait_for_task_loop R node upid timeout start_time ?s')) =
            (if now ?s' - start_time < timeout
             then now ?s' + 2 * ((timeout - (now ?s' - start_time) + 1) div 2) else now ?s')"
      using "1.IH"[OF True refl it(1) refl H p] .
    have ar: "(if now s + 2 - start_time < timeout
               then now s + 2 + 2 * ((timeout - (now s + 2 - start_time) + 1) div 2) else now s + 2)
              = now s + 2 * ((timeout - (now s - start_time) + 1) div 2)"
      using True by (simp; presburger)
    have e1: "fst (wait_for_task_loop R node upid timeout start_time ?s') = Inr False"
      using ih by blast
    have e2: "now (snd (wait_for_task_loop R node upid timeout start_time ?s')) =
            (if now s + 2 - start_time < timeout
             then now s + 2 + 2 * ((timeout - (now s + 2 - start_time) + 1) div 2) else now s + 2)"
      using ih unfolding it(2) by blast
    have e3: "now (snd (wait_for_task_loop R node upid timeout start_time ?s')) =
            now s + 2 * ((timeout - (now s - start_time) + 1) div 2)"
      by (rule trans[OF e2 ar])
    show ?thesis
      unfolding step using e1 e3 True by simp
  qed
qed

lemma get_task_status_quiet:
  "fst (get_task_status quiet_remote node upid s) =
     Inr \<lparr> ts_status = Some ''running'', ts_exitstatus = None \<rparr>"
  by (simp add: get_task_status_def try_except_def bnd_def proxmox_def connect_def perform_def
      set_cached_def quiet_remote_def)

lemma get_task_status_late:
  "fst (get_task_status late_remote node upid s) =
     (if 3 \<le> now s then Inr \<lparr> ts_status = Some ''stopped'', ts_exitstatus = Some ''OK'' \<rparr>
      else Inr \<lparr> ts_status = Some ''running'', ts_exitstatus = None \<rparr>)"
  by (simp add: get_task_status_def try_except_def bnd_def proxmox_def connect_def perform_def
      set_cached_def quiet_remote_def late_remote_def)


lemma get_task_status_flaky:
  "fst (get_task_status flaky_remote node upid s) =
     (if now s < 2 then Inl (ProxmoxConnectionError ''Failed to get task status: connection reset'')
      else Inr \<lparr> ts_status = Some ''stopped'', ts_exitstatus = Some ''OK'' \<rparr>)"
  by (simp add: get_task_status_def try_except_def bnd_def proxmox_def connect_def perform_def
      set_cached_def quiet_remote_def flaky_remote_def throw_def)

lemma wait_for_task_start:
  "wait_for_task R node upid timeout s = wait_for_task_loop R node upid timeout (now s) s"
  by (simp add: wait_for_task_def bnd_def time_time_def)

text \<open>
  The waiter returns False although the task of \<open>late_remote\<close> has completed successfully
  at time 3, before the timeout 4: the polls are at times 0 and 2 only. And with a timeout
  of 5 and a task that never completes it returns at time 6, not at the deadline.
\<close>

theorem wait_for_task_deadline_counterexample:
  "poll_success (fst (get_task_status late_remote ''pve'' ''UPID:1'' (initial_state\<lparr>now := 3\<rparr>))) \<and>
   fst (wait_for_task late_remote ''pve'' ''UPID:1'' 4 initial_state) = Inr False \<and>
   now (snd (wait_for_task quiet_remote ''pve'' ''UPID:1'' 5 initial_state)) = 6"
proof -
  let ?late = "\<lambda>t::int. if 3 \<le> t
      then Inr \<lparr> ts_status = Some ''stopped'', ts_exitstatus = Some ''OK'' \<rparr>
      else (Inr \<lparr> ts_status = Some ''running'', ts_exitstatus = None \<rparr> :: exn + task_status)"
  let ?quiet = "\<lambda>t::int. (Inr \<lparr> ts_status = Some ''running'', ts_exitstatus = None \<rparr> :: exn + task_status)"
  have h1: "\<forall>s. fst (get_task_status late_remote ''pve'' ''UPID:1'' s) = ?late (now s)"
    by (simp add: get_task_status_late)
  have h2: "\<forall>s. fst (get_task_status quiet_remote ''pve'' ''UPID:1'' s) = ?quiet (now s)"
    by (simp add: get_task_status_quiet)
  have ar: "\<And>j. 2 * int j < 4 \<Longrightarrow> \<not> 3 \<le> 2 * int j"
    by presburger
  have n1: "\<forall>j. now initial_state + 2 * int j - now initial_state < 4 \<longrightarrow>
              \<not> poll_terminal (?late (now initial_state + 2 * int j))"
    using ar by (simp add: poll_terminal_def initial_state_def)
  have n2: "\<forall>j. now initial_state + 2 * int j - now initial_state < 5 \<longrightarrow>
              \<not> poll_terminal (?quiet (now initial_state + 2 * int j))"
    by (simp add: poll_terminal_def)
  have a: "poll_success (fst (get_task_status late_remote ''pve'' ''UPID:1'' (initial_state\<lparr>now := 3\<rparr>)))"
    by (simp add: get_task_status_late poll_success_def)
  have b: "fst (wait_for_task late_remote ''pve'' ''UPID:1'' 4 initial_state) = Inr False"
    using wait_for_task_loop_timeout[OF h1 n1] by (simp add: wait_for_task_start)
  have c: "now (snd (wait_for_task quiet_remote ''pve'' ''UPID:1'' 5 initial_state)) = 6"
    using wait_for_task_loop_timeout[OF h2 n2] by (simp add: wait_for_task_start initial_state_def)
  show ?thesis using a b c by blast
qed

text \<open>
  Claim C4, as the code has it. Let the answer of a poll depend on the fake time only.
  The polls are made at the start and every 2 seconds after it, as long as less than
  \<open>timeout\<close> seconds have passed. If the first terminal answer among them comes at the
  \<open>k\<close>-th poll, wait\_for\_task returns then, with True exactly when that answer is a
  success. If none of them is terminal it returns False at the first poll time at or after
  the timeout: the deadline itself when the timeout is even and positive, one second after
  it when the timeout is odd, and at once when the timeout is not positive. A poll that
  raises is not terminal: the loop body sleeps 2 seconds and the wait goes on.
\<close>

theorem wait_for_task_fake_clock:
  assumes H: "\<forall>s. fst (get_task_status R node upid s) = poll (now s)"
  shows
   "((\<forall>j<k. \<not> poll_terminal (poll (now s + 2 * int j))) \<and>
       poll_terminal (poll (now s + 2 * int k)) \<and> 2 * int k < timeout \<longrightarrow>
       fst (wait_for_task R node upid timeout s) = Inr (poll_success (poll (now s + 2 * int k))) \<and>
       now (snd (wait_for_task R node upid timeout s)) = now s + 2 * int k) \<and>
    ((\<forall>j. 2 * int j < timeout \<longrightarrow> \<not> poll_terminal (poll (now s + 2 * int j))) \<longrightarrow>
       fst (wait_for_task R node upid timeout s) = Inr False \<and>
       now (snd (wait_for_task R node upid timeout s)) =
         now s + (if 0 < timeout then 2 * ((timeout + 1) div 2) else 0)) \<and>
    (\<forall>e. poll (now s) = Inl e \<longrightarrow>
       fst (wait_for_task_iter R node upid s) = Inr None \<and>
       now (snd (wait_for_task_iter R node upid s)) = now s + 2)"
proof (intro conjI impI allI)
  assume a: "(\<forall>j<k. \<not> poll_terminal (poll (now s + 2 * int j))) \<and>
       poll_terminal (poll (now s + 2 * int k)) \<and> 2 * int k < timeout"
  then have b: "now s + 2 * int k - now s < timeout" by simp
  have r: "fst (wait_for_task_loop R node upid timeout (now s) s) =
             Inr (poll_success (poll (now s + 2 * int k))) \<and>
           now (snd (wait_for_task_loop R node upid timeout (now s) s)) = now s + 2 * int k"
    using wait_for_task_loop_success[OF H, of k s "now s" timeout] a b by blast
  show "fst (wait_for_task R node upid timeout s) = Inr (poll_success (poll (now s + 2 * int k)))"
    using r by (simp add: wait_for_task_start)
  show "now (snd (wait_for_task R node upid timeout s)) = now s + 2 * int k"
    using r by (simp add: wait_for_task_start)
next
  assume a: "\<forall>j. 2 * int j < timeout \<longrightarrow> \<not> poll_terminal (poll (now s + 2 * int j))"
  then have b: "\<forall>j. now s + 2 * int j - now s < timeout \<longrightarrow>
                    \<not> poll_terminal (poll (now s + 2 * int j))"
    by simp
  have r: "fst (wait_for_task_loop R node upid timeout (now s) s) = Inr False \<and>
           now (snd (wait_for_task_loop R node upid timeout (now s) s)) =
             (if now s - now s < timeout
              then now s + 2 * ((timeout - (now s - now s) + 1) div 2) else now s)"
    using wait_for_task_loop_timeout[OF H b] .
  show "fst (wait_for_task R node upid timeout s) = Inr False"
    using r by (simp add: wait_for_task_start)
  show "now (snd (wait_for_task R node upid timeout s)) =
          now s + (if 0 < timeout then 2 * ((timeout + 1) div 2) else 0)"
    using r by (simp add: wait_for_task_start)
next
  fix e assume "poll (now s) = Inl e"
  then have nt: "\<not> poll_terminal (fst (get_task_status R node upid s))"
    using H by (simp add: poll_terminal_def)
  show "fst (wait_for_task_iter R node upid s) = Inr None"
    using wait_for_task_iter_nonterminal[OF nt] by blast
  show "now (snd (wait_for_task_iter R node upid s)) = now s + 2"
    using wait_for_task_iter_nonterminal[OF nt] by blast
qed

theorem wait_for_task_fake_clock_witness:
  "fst (wait_for_task late_remote ''pve'' ''UPID:1'' 10 initial_state) = Inr True \<and>
   now (snd (wait_for_task late_remote ''pve'' ''UPID:1'' 10 initial_state)) = 4 \<and>
   fst (wait_for_task quiet_remote ''pve'' ''UPID:1'' 6 initial_state) = Inr False \<and>
   now (snd (wait_for_task quiet_remote ''pve'' ''UPID:1'' 6 initial_state)) = 6 \<and>
   fst (wait_for_task_iter flaky_remote ''pve'' ''UPID:1'' initial_state) = Inr None \<and>
   now (snd (wait_for_task_iter flaky_remote ''pve'' ''UPID:1'' initial_state)) = 2 \<and>
   fst (wait_for_task flaky_remote ''pve'' ''UPID:1'' 10 initial_state) = Inr True"
proof -
  let ?late = "\<lambda>t::int. if 3 \<le> t
      then Inr \<lparr> ts_status = Some ''stopped'', ts_exitstatus = Some ''OK'' \<rparr>
      else (Inr \<lparr> ts_status = Some ''running'', ts_exitstatus = None \<rparr> :: exn + task_status)"
  let ?quiet = "\<lambda>t::int. (Inr \<lparr> ts_status = Some ''running'', ts_exitstatus = None \<rparr> :: exn + task_status)"
  let ?flaky = "\<lambda>t::int. if t < 2
      then Inl (ProxmoxConnectionError ''Failed to get task status: connection reset'')
      else (Inr \<lparr> ts_status = Some ''stopped'', ts_exitstatus = Some ''OK'' \<rparr> :: exn + task_status)"
  have h1: "\<forall>s. fst (get_task_status late_remote ''pve'' ''UPID:1'' s) = ?late (now s)"
    by (simp add: get_task_status_late)
  have h2: "\<forall>s. fst (get_task_status quiet_remote ''pve'' ''UPID:1'' s) = ?quiet (now s)"
    by (simp add: get_task_status_quiet)
  have h3: "\<forall>s. fst (get_task_status flaky_remote ''pve'' ''UPID:1'' s) = ?flaky (now s)"
    by (simp add: get_task_status_flaky)
  have j2: "\<And>P. (\<forall>j<(2::nat). P j) = (P 0 \<and> P 1)"
    by (auto simp: less_Suc_eq numeral_2_eq_2)
  have j1: "\<And>P. (\<forall>j<(1::nat). P j) = P 0"
    by auto
  show ?thesis
    using wait_for_task_fake_clock [OF h1, where k = 2 and s = initial_state and timeout = 10]
          wait_for_task_fake_clock [OF h2, where k = 0 and s = initial_state and timeout = 6]
          wait_for_task_fake_clock [OF h3, where k = 1 and s = initial_state and timeout = 10]
    by (simp add: j2 j1 poll_terminal_def poll_success_def initial_state_def)
qed

section \<open>What the operations add to the trace\<close>

lemma emitsD:
  "emits P m \<Longrightarrow> m s = (r, s') \<Longrightarrow> \<exists>evs. trace s' = trace s @ evs \<and> list_all P evs"
  by (metis emits_def snd_conv)

lemma emits_mono: "emits P m \<Longrightarrow> (\<And>ev. P ev \<Longrightarrow> Q ev) \<Longrightarrow> emits Q m"
  unfolding emits_def list_all_iff by blast

lemma emits_ret [intro!, simp]: "emits P (ret a)"
  by (simp add: emits_def ret_def)

lemma emits_throw [intro!, simp]: "emits P (throw e)"
  by (simp add: emits_def throw_def)

lemma emits_set_cached [intro!, simp]: "emits P set_cached"
  by (simp add: emits_def set_cached_def)

lemma emits_time_time [intro!, simp]: "emits P time_time"
  by (simp add: emits_def time_time_def)

lemma emits_perform [intro!]: "P ev \<Longrightarrow> emits P (perform ev f)"
  by (simp add: emits_def perform_def)

lemma emits_audit [intro!]: "P ev \<Longrightarrow> emits P (audit ev)"
  by (simp add: emits_def audit_def)

lemma emits_time_sleep [intro!]: "P (Sleep d) \<Longrightarrow> emits P (time_sleep d)"
  by (simp add: emits_def time_sleep_def)

lemma emits_bnd [intro!]:
  assumes "emits P m" and "\<And>a. emits P (f a)"
  shows "emits P (bnd m f)"
  unfolding emits_def
proof
  fix s
  obtain r s' where ms: "m s = (r, s')" by (cases "m s")
  obtain evs where e1: "trace s' = trace s @ evs" "list_all P evs"
    using emitsD[OF assms(1) ms] by blast
  show "\<exists>evs. trace (snd (bnd m f s)) = trace s @ evs \<and> list_all P evs"
  proof (cases r)
    case (Inl e)
    then show ?thesis using ms e1 by (auto simp: bnd_def)
  next
    case (Inr a)
    obtain r2 s2 where fs: "f a s' = (r2, s2)" by (cases "f a s'")
    obtain evs2 where e2: "trace s2 = trace s' @ evs2" "list_all P evs2"
      using emitsD[OF assms(2) fs] by blast
    have "trace s2 = trace s @ (evs @ evs2)" "list_all P (evs @ evs2)"
      using e1 e2 by auto
    then show ?thesis using ms Inr fs by (auto simp: bnd_def)
  qed
qed

lemma emits_try_except [intro!]:
  assumes "emits P m" and "\<And>e. emits P (h e)"
  shows "emits P (try_except m h)"
  unfolding emits_def
proof
  fix s
  obtain r s' where ms: "m s = (r, s')" by (cases "m s")
  obtain evs where e1: "trace s' = trace s @ evs" "list_all P evs"
    using emitsD[OF assms(1) ms] by blast
  show "\<exists>evs. trace (snd (try_except m h s)) = trace s @ evs \<and> list_all P evs"
  proof (cases r)
    case (Inr a)
    then show ?thesis using ms e1 by (auto simp: try_except_def)
  next
    case (Inl e)
    obtain r2 s2 where fs: "h e s' = (r2, s2)" by (cases "h e s'")
    obtain evs2 where e2: "trace s2 = trace s' @ evs2" "list_all P evs2"
      using emitsD[OF assms(2) fs] by blast
    have "trace s2 = trace s @ (evs @ evs2)" "list_all P (evs @ evs2)"
      using e1 e2 by auto
    then show ?thesis using ms Inl fs by (auto simp: try_except_def)
  qed
qed

lemma emits_connect [intro!]:
  "P CallProxmoxAPI \<Longrightarrow> P CallVersionGet \<Longrightarrow> emits P (connect R)"
  unfolding connect_def by (auto split: exn.splits)

lemma emits_proxmox [intro!]:
  assumes "P CallProxmoxAPI" "P CallVersionGet"
  shows "emits P (proxmox R)"
proof -
  have a: "emits P (bnd (connect R) (\<lambda>_. set_cached))" using assms by auto
  have b: "emits P (try_except (perform CallVersionGet (version_get R))
                      (\<lambda>_. bnd (connect R) (\<lambda>_. set_cached)))"
    using assms by auto
  show ?thesis
    using a b by (simp add: emits_def proxmox_def)
qed

lemma emits_list_nodes [intro!]:
  "P CallProxmoxAPI \<Longrightarrow> P CallVersionGet \<Longrightarrow> P CallNodesGet \<Longrightarrow> emits P (list_nodes R)"
  unfolding list_nodes_def by auto

lemma emits_list_vms_loop [intro!]:
  "P CallProxmoxAPI \<Longrightarrow> P CallVersionGet \<Longrightarrow> (\<And>n. P (CallQemuGet n)) \<Longrightarrow>
   emits P (list_vms_loop R nodes acc)"
  by (induction nodes arbitrary: acc) (auto split: option.splits)

lemma emits_list_vms [intro!]:
  "P CallProxmoxAPI \<Longrightarrow> P CallVersionGet \<Longrightarrow> P CallNodesGet \<Longrightarrow> (\<And>n. P (CallQemuGet n)) \<Longrightarrow>
   emits P (list_vms R node)"
  unfolding list_vms_def by auto

lemma emits_find_vm_node_loop [intro!, simp]: "emits P (find_vm_node_loop vms vmid)"
  by (induction vms) (auto split: option.splits)

lemma emits_find_vm_node [intro!]:
  "P CallProxmoxAPI \<Longrightarrow> P CallVersionGet \<Longrightarrow> P CallNodesGet \<Longrightarrow> (\<And>n. P (CallQemuGet n)) \<Longrightarrow>
   emits P (find_vm_node R vmid)"
  unfolding find_vm_node_def by auto

lemma emits_get_vm_config [intro!]:
  "P CallProxmoxAPI \<Longrightarrow> P CallVersionGet \<Longrightarrow> P (CallConfigGet node vmid) \<Longrightarrow>
   emits P (get_vm_config R node vmid)"
  unfolding get_vm_config_def by (auto split: exn.splits)

lemma emits_get_next_vmid [intro!]:
  "P CallProxmoxAPI \<Longrightarrow> P CallVersionGet \<Longrightarrow> P CallNextidGet \<Longrightarrow> emits P (get_next_vmid R)"
  unfolding get_next_vmid_def by auto

lemma emits_clone_vm [intro!]:
  "P CallProxmoxAPI \<Longrightarrow> P CallVersionGet \<Longrightarrow> (\<And>kw. P (CallClonePost node src kw)) \<Longrightarrow>
   emits P (clone_vm R node src new name storage full kwargs)"
  unfolding clone_vm_def Let_def by (auto split: exn.splits)

lemma emits_start_vm [intro!]:
  "P CallProxmoxAPI \<Longrightarrow> P CallVersionGet \<Longrightarrow> P (CallStartPost node vmid) \<Longrightarrow>
   emits P (start_vm R node vmid)"
  unfolding start_vm_def by (auto split: exn.splits)

lemma emits_update_vm_config [intro!]:
  "P CallProxmoxAPI \<Longrightarrow> P CallVersionGet \<Longrightarrow> P (CallConfigPut node vmid kw) \<Longrightarrow>
   emits P (update_vm_config R node vmid kw)"
  unfolding update_vm_config_def by (auto split: exn.splits)

lemma emits_get_task_status [intro!]:
  "P CallProxmoxAPI \<Longrightarrow> P CallVersionGet \<Longrightarrow> P (CallTaskStatusGet node upid) \<Longrightarrow>
   emits P (get_task_status R node upid)"
  unfolding get_task_status_def by auto

lemma emits_wait_for_task_iter [intro!]:
  "P CallProxmoxAPI \<Longrightarrow> P CallVersionGet \<Longrightarrow> P (CallTaskStatusGet node upid) \<Longrightarrow> P (Sleep 2) \<Longrightarrow>
   emits P (wait_for_task_iter R node upid)"
  unfolding wait_for_task_iter_def by (auto split: option.splits)

lemma trace_wait_for_task_loop:
  "P CallProxmoxAPI \<Longrightarrow> P CallVersionGet \<Longrightarrow> P (CallTaskStatusGet node upid) \<Longrightarrow> P (Sleep 2) \<Longrightarrow>
   \<exists>evs. trace (snd (wait_for_task_loop R node upid timeout start s)) = trace s @ evs \<and>
         list_all P evs"
proof (induction R node upid timeout start s rule: wait_for_task_loop.induct)
  case (1 R node upid timeout start_time s)
  show ?case
  proof (cases "now s - start_time < timeout")
    case False
    then show ?thesis
      by (subst wait_for_task_loop.simps) simp
  next
    case True
    let ?r = "wait_for_task_iter R node upid s"
    have "emits P (wait_for_task_iter R node upid)"
      using "1.prems" by auto
    then obtain e1 where e1: "trace (snd ?r) = trace s @ e1" "list_all P e1"
      unfolding emits_def by blast
    show ?thesis
    proof (cases "fst ?r")
      case (Inl e)
      then show ?thesis
        using True e1 by (subst wait_for_task_loop.simps) (simp add: Let_def)
    next
      case (Inr x)
      show ?thesis
      proof (cases x)
        case (Some b)
        then show ?thesis
          using True e1 Inr by (subst wait_for_task_loop.simps) (simp add: Let_def)
      next
        case None
        obtain e2 where e2:
          "trace (snd (wait_for_task_loop R node upid timeout start_time (snd ?r))) =
             trace (snd ?r) @ e2" "list_all P e2"
          using "1.IH"[OF True refl Inr None "1.prems"] by blast
        have "trace (snd (wait_for_task_loop R node upid timeout start_time (snd ?r))) =
                trace s @ (e1 @ e2)" "list_all P (e1 @ e2)"
          using e1 e2 by auto
        then show ?thesis
          using True Inr None by (subst wait_for_task_loop.simps) (auto simp: Let_def)
      qed
    qed
  qed
qed

lemma emits_wait_for_task [intro!]:
  assumes "P CallProxmoxAPI" "P CallVersionGet" "P (CallTaskStatusGet node upid)" "P (Sleep 2)"
  shows "emits P (wait_for_task R node upid timeout)"
  unfolding emits_def
proof
  fix s
  show "\<exists>evs. trace (snd (wait_for_task R node upid timeout s)) = trace s @ evs \<and> list_all P evs"
    using trace_wait_for_task_loop[OF assms, of R timeout "now s" s]
    by (simp add: wait_for_task_def bnd_def time_time_def)
qed

lemma emits_apply_customizations [intro!]:
  "P CallProxmoxAPI \<Longrightarrow> P CallVersionGet \<Longrightarrow> (\<And>kw. P (CallConfigPut node vmid kw)) \<Longrightarrow>
   emits P (apply_customizations R node vmid request)"
  unfolding apply_customizations_def Let_def by auto

lemma emits_apply_cloudinit [intro!]:
  "P (CallCloudinit node vmid) \<Longrightarrow> emits P (apply_cloudinit R node vmid request)"
  unfolding apply_cloudinit_def Let_def by (auto split: option.splits)

lemma emits_if [intro!]: "emits P a \<Longrightarrow> emits P b \<Longrightarrow> emits P (if c then a else b)"
  by simp

lemma emits_case_prod [intro!]: "(\<And>a b. emits P (f a b)) \<Longrightarrow> emits P (case p of (a, b) \<Rightarrow> f a b)"
  by (cases p) simp

lemma emits_clone_from_template_try:
  "emits (\<lambda>ev. \<not> is_rollback ev) (clone_from_template_try R st request)"
  unfolding clone_from_template_try_def Let_def wait_for_clone_completion_def
  by (intro emits_bnd emits_if emits_throw emits_ret emits_find_vm_node emits_get_vm_config
        emits_get_next_vmid emits_clone_vm emits_wait_for_task emits_apply_customizations
        emits_apply_cloudinit emits_try_except emits_start_vm emits_case_prod emits_audit)
     simp_all

lemma emits_clone_from_template:
  "emits (\<lambda>ev. \<not> is_rollback ev) (clone_from_template R st request)"
  unfolding clone_from_template_def
  by (intro emits_try_except emits_clone_from_template_try)
     (auto split: exn.splits)

section \<open>What the operations return\<close>

lemma returnsD: "returns Q m \<Longrightarrow> m s = (Inr a, s') \<Longrightarrow> Q a"
  unfolding returns_def by blast

lemma returns_ret [intro!]: "Q a \<Longrightarrow> returns Q (ret a)"
  by (simp add: returns_def ret_def)

lemma returns_throw [intro!, simp]: "returns Q (throw e)"
  by (simp add: returns_def throw_def)

lemma returns_bnd [intro!]: "(\<And>a. returns Q (f a)) \<Longrightarrow> returns Q (bnd m f)"
  unfolding returns_def bnd_def by (auto split: prod.splits sum.splits)

lemma returns_try_except [intro!]:
  "returns Q m \<Longrightarrow> (\<And>e. returns Q (h e)) \<Longrightarrow> returns Q (try_except m h)"
  unfolding returns_def try_except_def by (auto split: prod.splits sum.splits)

lemma returns_if [intro!]: "returns Q a \<Longrightarrow> returns Q b \<Longrightarrow> returns Q (if c then a else b)"
  by simp

lemma returns_case_prod [intro!]:
  "(\<And>a b. returns Q (f a b)) \<Longrightarrow> returns Q (case p of (a, b) \<Rightarrow> f a b)"
  by (cases p) simp

lemma returns_bnd_post:
  "returns P m \<Longrightarrow> (\<And>a. P a \<Longrightarrow> returns Q (f a)) \<Longrightarrow> returns Q (bnd m f)"
proof -
  assume p: "returns P m" and q: "\<And>a. P a \<Longrightarrow> returns Q (f a)"
  show "returns Q (bnd m f)"
    unfolding returns_def
  proof (intro allI impI)
    fix s a s'
    assume r: "bnd m f s = (Inr a, s')"
    obtain x s1 where m: "m s = (x, s1)" by (cases "m s")
    show "Q a"
    proof (cases x)
      case (Inl e)
      then show ?thesis using r m by (simp add: bnd_def)
    next
      case (Inr b)
      have mb: "m s = (Inr b, s1)" using m Inr by simp
      have "P b" by (rule returnsD[OF p mb])
      then have qb: "returns Q (f b)" by (rule q)
      have fb: "f b s1 = (Inr a, s')" using r mb by (simp add: bnd_def)
      show ?thesis by (rule returnsD[OF qb fb])
    qed
  qed
qed

section \<open>Running the operations on the concrete environments\<close>

lemmas run_defs =
  try_except_def bnd_def ret_def throw_def perform_def audit_def set_cached_def
  time_time_def time_sleep_def proxmox_def connect_def list_nodes_def list_vms_def
  find_vm_node_def get_vm_config_def get_vm_status_def get_next_vmid_def
  clone_vm_def create_vm_px_def start_vm_def update_vm_config_def get_task_status_def

lemmas remote_defs = faulty_remote_def template_remote_def quiet_remote_def

lemma pair_fst: "fst p = a \<Longrightarrow> p = (a, snd p)"
  by (cases p) simp

lemma list_vms_quiet: "fst (list_vms quiet_remote None s) = Inr []"
  by (simp add: list_vms_def list_nodes_def try_except_def bnd_def proxmox_def connect_def
      perform_def set_cached_def quiet_remote_def ret_def)

lemma find_vm_node_template:
  "find_vm_node template_remote 9000 initial_state =
     (Inr (Some ''pve''),
      \<lparr> now = 0, cached = True,
        trace = [CallProxmoxAPI, CallVersionGet, CallNodesGet, CallVersionGet, CallQemuGet ''pve''] \<rparr>)"
  by (simp add: run_defs template_remote_def quiet_remote_def initial_state_def)

lemma get_vm_config_template:
  "cached s \<Longrightarrow> get_vm_config template_remote ''pve'' 9000 s =
     (Inr \<lparr> cfg_template = Some 1, cfg_name = Some ''ubuntu-template'',
            cfg_cores = Some 2, cfg_cpus = None, cfg_memory = Some 2048 \<rparr>,
      s\<lparr> trace := trace s @ [CallVersionGet, CallConfigGet ''pve'' 9000] \<rparr>)"
  by (simp add: run_defs template_remote_def quiet_remote_def)

lemma faulty_get_next_vmid: "fst (get_next_vmid faulty_remote s) = Inr 150"
  by (simp add: run_defs remote_defs)

lemma faulty_create_vm_px: "fst (create_vm_px faulty_remote node vmid kw s) = Inr ''UPID:create''"
  by (simp add: run_defs remote_defs)

lemma faulty_get_task_status:
  "fst (get_task_status faulty_remote node upid s) =
     Inr \<lparr> ts_status = Some ''stopped'', ts_exitstatus = Some ''OK'' \<rparr>"
  by (simp add: run_defs remote_defs)

lemma faulty_wait_for_task:
  assumes "0 < timeout"
  shows "fst (wait_for_task faulty_remote node upid timeout s) = Inr True"
proof -
  let ?poll = "\<lambda>t::int. (Inr \<lparr> ts_status = Some ''stopped'', ts_exitstatus = Some ''OK'' \<rparr>
                          :: exn + task_status)"
  have H: "\<forall>s. fst (get_task_status faulty_remote node upid s) = ?poll (now s)"
    by (simp add: faulty_get_task_status)
  have "fst (wait_for_task_loop faulty_remote node upid timeout (now s) s) =
          Inr (poll_success (?poll (now s + 2 * int 0)))"
    using wait_for_task_loop_success[OF H, of 0 s "now s" timeout] assms
    by (simp add: poll_terminal_def)
  then show ?thesis
    by (simp add: wait_for_task_start poll_success_def)
qed

lemma faulty_start_vm:
  "fst (start_vm faulty_remote node vmid s) =
     Inl (ProxmoxConnectionError ''Failed to start VM: boot failed'')"
  by (simp add: run_defs remote_defs)

lemma faulty_find_vm_node: "fst (find_vm_node faulty_remote 9000 s) = Inr (Some ''pve'')"
  by (simp add: run_defs remote_defs)

lemma faulty_get_vm_config:
  "fst (get_vm_config faulty_remote node vmid s) =
     Inr \<lparr> cfg_template = Some 1, cfg_name = Some ''ubuntu-template'',
            cfg_cores = Some 2, cfg_cpus = None, cfg_memory = Some 2048 \<rparr>"
  by (simp add: run_defs remote_defs)

lemma faulty_clone_vm:
  "fst (clone_vm faulty_remote node src new name storage full kw s) = Inr ''UPID:clone''"
  by (simp add: run_defs remote_defs Let_def)

lemma faulty_update_vm_config:
  "fst (update_vm_config faulty_remote node vmid kw s) =
     Inl (ProxmoxConnectionError ''Failed to update VM config: VM is locked'')"
  by (simp add: run_defs remote_defs)

lemma template_get_next_vmid: "fst (get_next_vmid template_remote s) = Inr 150"
  by (simp add: run_defs remote_defs)

lemma template_create_vm_px: "fst (create_vm_px template_remote node vmid kw s) = Inr ''UPID:create''"
  by (simp add: run_defs remote_defs)

lemma template_get_task_status:
  "fst (get_task_status template_remote node upid s) =
     Inr \<lparr> ts_status = Some ''stopped'', ts_exitstatus = Some ''OK'' \<rparr>"
  by (simp add: run_defs remote_defs)

lemma template_wait_for_task:
  assumes "0 < timeout"
  shows "fst (wait_for_task template_remote node upid timeout s) = Inr True"
proof -
  let ?poll = "\<lambda>t::int. (Inr \<lparr> ts_status = Some ''stopped'', ts_exitstatus = Some ''OK'' \<rparr>
                          :: exn + task_status)"
  have H: "\<forall>s. fst (get_task_status template_remote node upid s) = ?poll (now s)"
    by (simp add: template_get_task_status)
  have "fst (wait_for_task_loop template_remote node upid timeout (now s) s) =
          Inr (poll_success (?poll (now s + 2 * int 0)))"
    using wait_for_task_loop_success[OF H, of 0 s "now s" timeout] assms
    by (simp add: poll_terminal_def)
  then show ?thesis
    by (simp add: wait_for_task_start poll_success_def)
qed

lemma template_start_vm: "fst (start_vm template_remote node vmid s) = Inr ''UPID:start''"
  by (simp add: run_defs remote_defs)

section \<open>find\_vm\_node never raises (claim C10)\<close>

lemma find_vm_node_loop_absent:
  "\<forall>vm \<in> set vms. ve_vmid vm \<noteq> Some vmid \<Longrightarrow>
   find_vm_node_loop vms vmid s = (Inr None, s) \<or>
   find_vm_node_loop vms vmid s = (Inl (KeyError ''vmid''), s)"
  by (induction vms) (auto simp: ret_def throw_def split: option.splits)

lemma find_vm_node_total: "\<exists>r. fst (find_vm_node R vmid s) = Inr r"
  by (auto simp: find_vm_node_def try_except_def ret_def split: prod.splits sum.splits)

lemma find_vm_node_list_fails:
  "fst (list_vms R None s) = Inl e \<Longrightarrow> fst (find_vm_node R vmid s) = Inr None"
  by (cases "list_vms R None s")
     (auto simp: find_vm_node_def try_except_def bnd_def ret_def split: prod.splits sum.splits)

lemma find_vm_node_absent:
  assumes "fst (list_vms R None s) = Inr vms" "\<forall>vm \<in> set vms. ve_vmid vm \<noteq> Some vmid"
  shows "fst (find_vm_node R vmid s) = Inr None"
proof -
  obtain s' where l: "list_vms R None s = (Inr vms, s')"
    using assms(1) by (cases "list_vms R None s") auto
  show ?thesis
    using find_vm_node_loop_absent[OF assms(2), of s'] l
    by (auto simp: find_vm_node_def try_except_def bnd_def ret_def)
qed

lemma connect_fails:
  "ProxmoxAPI R s = Inl e \<Longrightarrow> \<exists>m. fst (connect R s) = Inl (ProxmoxConnectionError m)"
  by (auto simp: connect_def try_except_def bnd_def perform_def throw_def split: exn.splits)

lemma list_vms_unreachable:
  assumes "\<not> cached s" "ProxmoxAPI R s = Inl e"
  shows "\<exists>m. fst (list_vms R None s) = Inl (ProxmoxConnectionError m)"
proof -
  obtain m where c: "fst (connect R s) = Inl (ProxmoxConnectionError m)"
    using connect_fails[OF assms(2)] by blast
  then obtain s' where c': "connect R s = (Inl (ProxmoxConnectionError m), s')"
    by (cases "connect R s") auto
  have p: "proxmox R s = (Inl (ProxmoxConnectionError m), s')"
    using assms(1) c' by (simp add: proxmox_def bnd_def)
  show ?thesis
    using p by (simp add: list_vms_def list_nodes_def try_except_def bnd_def throw_def)
qed

lemma get_vm_info_not_found:
  assumes "fst (find_vm_node R vmid s) = Inr None"
  shows "fst (get_vm_info R vmid s) = Inl (VMNotFoundError (''VM '' @ str_int vmid @ '' not found''))"
proof -
  obtain s' where f: "find_vm_node R vmid s = (Inr None, s')"
    using assms by (cases "find_vm_node R vmid s") auto
  show ?thesis
    using f by (simp add: get_vm_info_def try_except_def bnd_def throw_def)
qed

lemma check_proxmox_status_not_found:
  assumes "fst (find_vm_node R vmid s) = Inr None"
  shows "fst (check_proxmox_status R vmid s) =
           Inr \<lparr> vc_passed = False, vc_message = Some (''VM '' @ str_int vmid @ '' not found''),
                 vc_details = None, vc_required = True \<rparr>"
proof -
  obtain s' where f: "find_vm_node R vmid s = (Inr None, s')"
    using assms by (cases "find_vm_node R vmid s") auto
  show ?thesis
    using f by (simp add: check_proxmox_status_def try_except_def bnd_def ret_def)
qed

text \<open>
  Claim C10. find\_vm\_node never raises: it always returns a value. It returns None when
  no entry of the cluster listing has the vmid, when listing the VMs raises for whatever
  reason, and in particular when the connection cannot be opened (refused, or the
  credentials rejected). Whenever it returns None, get\_vm\_info raises
  VMNotFoundError "VM <vmid> not found" and the liveness check of the validation reports
  the failing check "VM <vmid> not found": the same outcome for an unreachable control plane
  as for an absent VM.
\<close>

theorem find_vm_node_never_raises:
  "(\<exists>r. fst (find_vm_node R vmid s) = Inr r) \<and>
   (\<forall>vms. fst (list_vms R None s) = Inr vms \<and> (\<forall>vm \<in> set vms. ve_vmid vm \<noteq> Some vmid) \<longrightarrow>
      fst (find_vm_node R vmid s) = Inr None) \<and>
   (\<forall>e. fst (list_vms R None s) = Inl e \<longrightarrow> fst (find_vm_node R vmid s) = Inr None) \<and>
   (\<forall>e. \<not> cached s \<and> ProxmoxAPI R s = Inl e \<longrightarrow> fst (find_vm_node R vmid s) = Inr None) \<and>
   (fst (find_vm_node R vmid s) = Inr None \<longrightarrow>
      fst (get_vm_info R vmid s) =
        Inl (VMNotFoundError (''VM '' @ str_int vmid @ '' not found'')) \<and>
      fst (check_proxmox_status R vmid s) =
        Inr \<lparr> vc_passed = False, vc_message = Some (''VM '' @ str_int vmid @ '' not found''),
              vc_details = None, vc_required = True \<rparr>)"
proof (intro conjI allI impI)
  show "\<exists>r. fst (find_vm_node R vmid s) = Inr r" by (rule find_vm_node_total)
next
  fix vms
  assume "fst (list_vms R None s) = Inr vms \<and> (\<forall>vm \<in> set vms. ve_vmid vm \<noteq> Some vmid)"
  then show "fst (find_vm_node R vmid s) = Inr None"
    using find_vm_node_absent by blast
next
  fix e assume "fst (list_vms R None s) = Inl e"
  then show "fst (find_vm_node R vmid s) = Inr None" by (rule find_vm_node_list_fails)
next
  fix e assume "\<not> cached s \<and> ProxmoxAPI R s = Inl e"
  then obtain m where "fst (list_vms R None s) = Inl (ProxmoxConnectionError m)"
    using list_vms_unreachable by blast
  then show "fst (find_vm_node R vmid s) = Inr None" by (rule find_vm_node_list_fails)
next
  assume a: "fst (find_vm_node R vmid s) = Inr None"
  show "fst (get_vm_info R vmid s) = Inl (VMNotFoundError (''VM '' @ str_int vmid @ '' not found''))"
    using a by (rule get_vm_info_not_found)
  show "fst (check_proxmox_status R vmid s) =
        Inr \<lparr> vc_passed = False, vc_message = Some (''VM '' @ str_int vmid @ '' not found''),
              vc_details = None, vc_required = True \<rparr>"
    using a by (rule check_proxmox_status_not_found)
qed

theorem find_vm_node_never_raises_witness:
  "fst (find_vm_node quiet_remote 100 initial_state) = Inr None \<and>
   fst (find_vm_node down_remote 100 initial_state) = Inr None \<and>
   fst (find_vm_node denied_remote 100 initial_state) = Inr None \<and>
   fst (get_vm_info quiet_remote 100 initial_state) = Inl (VMNotFoundError ''VM 100 not found'') \<and>
   fst (get_vm_info down_remote 100 initial_state) = Inl (VMNotFoundError ''VM 100 not found'') \<and>
   fst (get_vm_info denied_remote 100 initial_state) = Inl (VMNotFoundError ''VM 100 not found'') \<and>
   fst (check_proxmox_status down_remote 100 initial_state) =
     fst (check_proxmox_status quiet_remote 100 initial_state)"
  using find_vm_node_never_raises [of quiet_remote 100 initial_state]
        find_vm_node_never_raises [of down_remote 100 initial_state]
        find_vm_node_never_raises [of denied_remote 100 initial_state]
        list_vms_quiet [of initial_state]
  by (simp add: initial_state_def down_remote_def denied_remote_def quiet_remote_def
      str_int_def str_nat.simps digit_char_def)

section \<open>The range check of the VM id (claim C3)\<close>

lemma create_vm_out_of_range:
  assumes "rq_vmid rq = Some v" "v \<noteq> 0" "v < vmid_min st \<or> v > vmid_max st"
  shows "create_vm R st rq s =
           (Inl (InvalidVMIDError (range_message st v)),
            s\<lparr>trace := trace s @ [AuditVmCreation (rq_name rq) (Some (range_message st v))]\<rparr>)"
  using assms
  by (auto simp: create_vm_def create_vm_try_def try_except_def bnd_def ret_def throw_def audit_def
      range_message_def Let_def)

lemma clone_out_of_range:
  assumes "cl_new_vmid rq = Some v" "v \<noteq> 0" "v < vmid_min st \<or> v > vmid_max st"
    and f: "find_vm_node R (cl_source_vmid rq) s = (Inr (Some node), s1)" and "node \<noteq> []"
    and g: "get_vm_config R node (cl_source_vmid rq) s1 = (Inr cfg, s2)"
    and "truthy_int (cfg_template cfg)"
  shows "clone_from_template R st rq s =
           (Inl (InvalidVMIDError (range_message st v)),
            s2\<lparr>trace := trace s2 @ [AuditTemplateClone (cl_name rq) (Some (range_message st v))]\<rparr>)"
  using assms
  by (auto simp: clone_from_template_def clone_from_template_try_def try_except_def bnd_def ret_def
      throw_def audit_def range_message_def Let_def)

lemma lookups_only:
  assumes f: "find_vm_node R src s = (r1, s1)" and g: "get_vm_config R node src s1 = (r2, s2)"
  shows "\<exists>evs. trace s2 = trace s @ evs \<and> list_all is_lookup evs"
proof -
  have "emits is_lookup (find_vm_node R src)" by auto
  then obtain e1 where e1: "trace s1 = trace s @ e1" "list_all is_lookup e1"
    using emitsD f by blast
  have "emits is_lookup (get_vm_config R node src)" by auto
  then obtain e2 where e2: "trace s2 = trace s1 @ e2" "list_all is_lookup e2"
    using emitsD g by blast
  have "trace s2 = trace s @ (e1 @ e2)" "list_all is_lookup (e1 @ e2)"
    using e1 e2 by auto
  then show ?thesis by blast
qed

text \<open>
  A clone request for the id 1000 (the maximum 999 plus one) against a cluster that holds
  the template: InvalidVMIDError is raised only after the connection was opened and the
  cluster and the template's configuration were read. Against a cluster without the
  template the same request raises TemplateNotFoundError instead.
\<close>

theorem out_of_range_clone_counterexample:
  "fst (clone_from_template template_remote default_settings
          (clone_request\<lparr> cl_new_vmid := Some 1000 \<rparr>) initial_state) =
     Inl (InvalidVMIDError ''VM ID 1000 is outside allowed range (150-999)'') \<and>
   trace (snd (clone_from_template template_remote default_settings
          (clone_request\<lparr> cl_new_vmid := Some 1000 \<rparr>) initial_state)) =
     [CallProxmoxAPI, CallVersionGet, CallNodesGet, CallVersionGet, CallQemuGet ''pve'',
      CallVersionGet, CallConfigGet ''pve'' 9000,
      AuditTemplateClone ''srv-01'' (Some ''VM ID 1000 is outside allowed range (150-999)'')] \<and>
   fst (clone_from_template quiet_remote default_settings
          (clone_request\<lparr> cl_new_vmid := Some 1000 \<rparr>) initial_state) =
     Inl (TemplateNotFoundError ''Template 9000 not found'')"
proof -
  have m: "range_message default_settings 1000 = ''VM ID 1000 is outside allowed range (150-999)''"
    by (simp add: range_message_def default_settings_def str_int_def str_nat.simps digit_char_def)
  have n: "str_int 9000 = ''9000''"
    by (simp add: str_int_def str_nat.simps digit_char_def)
  let ?rq = "clone_request\<lparr> cl_new_vmid := Some 1000 \<rparr>"
  let ?s1 = "\<lparr> now = 0, cached = True,
        trace = [CallProxmoxAPI, CallVersionGet, CallNodesGet, CallVersionGet, CallQemuGet ''pve''] \<rparr>"
  let ?cfg = "\<lparr> cfg_template = Some 1, cfg_name = Some ''ubuntu-template'',
            cfg_cores = Some 2, cfg_cpus = None, cfg_memory = Some 2048 \<rparr>"
  let ?s2 = "?s1\<lparr> trace := trace ?s1 @ [CallVersionGet, CallConfigGet ''pve'' 9000] \<rparr>"
  have a1: "cl_new_vmid ?rq = Some 1000" by simp
  have a2: "(1000::int) \<noteq> 0" by simp
  have a3: "1000 < vmid_min default_settings \<or> 1000 > vmid_max default_settings"
    by (simp add: default_settings_def)
  have a4: "find_vm_node template_remote (cl_source_vmid ?rq) initial_state = (Inr (Some ''pve''), ?s1)"
    using find_vm_node_template by (simp add: clone_request_def)
  have a5: "''pve'' \<noteq> []" by simp
  have a6: "get_vm_config template_remote ''pve'' (cl_source_vmid ?rq) ?s1 = (Inr ?cfg, ?s2)"
    using get_vm_config_template[of ?s1] by (simp add: clone_request_def)
  have a7: "truthy_int (cfg_template ?cfg)" by simp
  have c: "clone_from_template template_remote default_settings ?rq initial_state =
        (Inl (InvalidVMIDError (range_message default_settings 1000)),
         ?s2\<lparr>trace := trace ?s2 @
            [AuditTemplateClone (cl_name ?rq) (Some (range_message default_settings 1000))]\<rparr>)"
    by (rule clone_out_of_range[OF a1 a2 a3 a4 a5 a6 a7])
  have q: "fst (find_vm_node quiet_remote 9000 initial_state) = Inr None"
    by (simp add: run_defs quiet_remote_def initial_state_def)
  then obtain s' where q': "find_vm_node quiet_remote 9000 initial_state = (Inr None, s')"
    by (cases "find_vm_node quiet_remote 9000 initial_state") auto
  have d: "fst (clone_from_template quiet_remote default_settings
          (clone_request\<lparr> cl_new_vmid := Some 1000 \<rparr>) initial_state) =
     Inl (TemplateNotFoundError ''Template 9000 not found'')"
    using q' n
    by (simp add: clone_from_template_def clone_from_template_try_def try_except_def bnd_def
        throw_def audit_def clone_request_def)
  show ?thesis using c d m by (simp add: clone_request_def)
qed

text \<open>
  Claim C3, as the code has it. A create request with an explicit id (never 0: the schema
  requires it positive) equal to min-1 or max+1 raises InvalidVMIDError and the only event
  of the run is its audit record: no call reaches the control plane. A clone request with
  an explicit non-zero id equal to min-1 or max+1 first resolves the source template; when
  that succeeds it raises InvalidVMIDError, and the calls made before it are lookups only
  (opening or probing the connection, listing nodes and VMs, reading the configuration):
  no id is requested and nothing is cloned, changed or started.
\<close>

theorem out_of_range_id_rejected:
  "(rq_vmid rq = Some v \<and> v \<noteq> 0 \<and> (v = vmid_min st - 1 \<or> v = vmid_max st + 1) \<longrightarrow>
      create_vm R st rq s =
        (Inl (InvalidVMIDError (range_message st v)),
         s\<lparr>trace := trace s @ [AuditVmCreation (rq_name rq) (Some (range_message st v))]\<rparr>)) \<and>
   (cl_new_vmid cq = Some w \<and> w \<noteq> 0 \<and> (w = vmid_min st - 1 \<or> w = vmid_max st + 1) \<and>
    find_vm_node R (cl_source_vmid cq) s = (Inr (Some node), s1) \<and> node \<noteq> [] \<and>
    get_vm_config R node (cl_source_vmid cq) s1 = (Inr cfg, s2) \<and> truthy_int (cfg_template cfg) \<longrightarrow>
      clone_from_template R st cq s =
        (Inl (InvalidVMIDError (range_message st w)),
         s2\<lparr>trace := trace s2 @ [AuditTemplateClone (cl_name cq) (Some (range_message st w))]\<rparr>) \<and>
      (\<exists>evs. trace s2 = trace s @ evs \<and> list_all is_lookup evs))"
proof (intro conjI impI)
  assume a: "rq_vmid rq = Some v \<and> v \<noteq> 0 \<and> (v = vmid_min st - 1 \<or> v = vmid_max st + 1)"
  then have "v < vmid_min st \<or> v > vmid_max st" by auto
  then show "create_vm R st rq s =
        (Inl (InvalidVMIDError (range_message st v)),
         s\<lparr>trace := trace s @ [AuditVmCreation (rq_name rq) (Some (range_message st v))]\<rparr>)"
    using a create_vm_out_of_range by blast
next
  assume a: "cl_new_vmid cq = Some w \<and> w \<noteq> 0 \<and> (w = vmid_min st - 1 \<or> w = vmid_max st + 1) \<and>
    find_vm_node R (cl_source_vmid cq) s = (Inr (Some node), s1) \<and> node \<noteq> [] \<and>
    get_vm_config R node (cl_source_vmid cq) s1 = (Inr cfg, s2) \<and> truthy_int (cfg_template cfg)"
  then have r: "w < vmid_min st \<or> w > vmid_max st" by auto
  show "clone_from_template R st cq s =
        (Inl (InvalidVMIDError (range_message st w)),
         s2\<lparr>trace := trace s2 @ [AuditTemplateClone (cl_name cq) (Some (range_message st w))]\<rparr>)"
    using a r clone_out_of_range by blast
  show "\<exists>evs. trace s2 = trace s @ evs \<and> list_all is_lookup evs"
    using a lookups_only by blast
qed

theorem out_of_range_id_rejected_witness:
  "create_vm quiet_remote default_settings (create_request\<lparr> rq_vmid := Some 149 \<rparr>) initial_state =
     (Inl (InvalidVMIDError ''VM ID 149 is outside allowed range (150-999)''),
      \<lparr> now = 0, cached = False,
        trace = [AuditVmCreation ''srv-01''
                   (Some ''VM ID 149 is outside allowed range (150-999)'')] \<rparr>) \<and>
   fst (clone_from_template template_remote default_settings
          (clone_request\<lparr> cl_new_vmid := Some 1000 \<rparr>) initial_state) =
     Inl (InvalidVMIDError ''VM ID 1000 is outside allowed range (150-999)'')"
proof -
  let ?rq = "clone_request\<lparr> cl_new_vmid := Some 1000 \<rparr>"
  let ?s1 = "\<lparr> now = 0, cached = True,
        trace = [CallProxmoxAPI, CallVersionGet, CallNodesGet, CallVersionGet, CallQemuGet ''pve''] \<rparr>"
  let ?cfg = "\<lparr> cfg_template = Some 1, cfg_name = Some ''ubuntu-template'',
            cfg_cores = Some 2, cfg_cpus = None, cfg_memory = Some 2048 \<rparr>"
  let ?s2 = "?s1\<lparr> trace := trace ?s1 @ [CallVersionGet, CallConfigGet ''pve'' 9000] \<rparr>"
  have m1: "range_message default_settings 149 = ''VM ID 149 is outside allowed range (150-999)''"
    by (simp add: range_message_def default_settings_def str_int_def str_nat.simps digit_char_def)
  have m2: "range_message default_settings 1000 = ''VM ID 1000 is outside allowed range (150-999)''"
    by (simp add: range_message_def default_settings_def str_int_def str_nat.simps digit_char_def)
  have a4: "find_vm_node template_remote (cl_source_vmid ?rq) initial_state = (Inr (Some ''pve''), ?s1)"
    using find_vm_node_template by (simp add: clone_request_def)
  have a6: "get_vm_config template_remote ''pve'' (cl_source_vmid ?rq) ?s1 = (Inr ?cfg, ?s2)"
    using get_vm_config_template[of ?s1] by (simp add: clone_request_def)
  have c1: "create_vm quiet_remote default_settings (create_request\<lparr> rq_vmid := Some 149 \<rparr>)
              initial_state =
            (Inl (InvalidVMIDError (range_message default_settings 149)),
             initial_state\<lparr>trace := trace initial_state @
               [AuditVmCreation (rq_name (create_request\<lparr> rq_vmid := Some 149 \<rparr>))
                  (Some (range_message default_settings 149))]\<rparr>)"
    using out_of_range_id_rejected [where rq = "create_request\<lparr> rq_vmid := Some 149 \<rparr>"
        and v = 149 and st = default_settings and R = quiet_remote and s = initial_state]
    by (simp add: default_settings_def)
  have c2: "clone_from_template template_remote default_settings ?rq initial_state =
        (Inl (InvalidVMIDError (range_message default_settings 1000)),
         ?s2\<lparr>trace := trace ?s2 @
            [AuditTemplateClone (cl_name ?rq) (Some (range_message default_settings 1000))]\<rparr>)"
    using out_of_range_id_rejected [where cq = ?rq and w = 1000 and st = default_settings
        and R = template_remote and s = initial_state and node = "''pve''" and ?s1.0 = ?s1
        and cfg = ?cfg and ?s2.0 = ?s2] a4 a6
    by (simp add: default_settings_def)
  show ?thesis
    using c1 c2 m1 m2 by (simp add: create_request_def initial_state_def)
qed

section \<open>A start failure degrades the result (claim C5)\<close>

text \<open>The message of a start failure contains the words the callers look for.\<close>

lemma failed_to_start_create:
  "sublist ''failed to start'' (''VM '' @ n @ '' created but failed to start: '' @ m)"
proof -
  have "''VM '' @ n @ '' created but failed to start: '' @ m =
        (''VM '' @ n @ '' created but '') @ ''failed to start'' @ ('': '' @ m)"
    by simp
  then show ?thesis
    unfolding sublist_def by blast
qed

lemma failed_to_start_clone:
  "sublist ''failed to start'' (''VM '' @ n @ '' cloned successfully but failed to start: '' @ m)"
proof -
  have "''VM '' @ n @ '' cloned successfully but failed to start: '' @ m =
        (''VM '' @ n @ '' cloned successfully but '') @ ''failed to start'' @ ('': '' @ m)"
    by simp
  then show ?thesis
    unfolding sublist_def by blast
qed

lemma create_vm_start_fails:
  assumes id: "(if truthy_int (rq_vmid rq) then ret (the (rq_vmid rq)) else get_next_vmid R) s
                 = (Inr vmid, s0)"
    and rg: "vmid_min st \<le> vmid" "vmid \<le> vmid_max st"
    and cr: "create_vm_px R (str_or (rq_node rq) (default_node st)) vmid
               (vm_config_of rq (str_or (rq_storage rq) (default_storage st))
                  (str_or (rq_network_bridge rq) (default_network_bridge st))) s0
             = (Inr task_id, s1)"
    and wt: "wait_for_task R (str_or (rq_node rq) (default_node st)) task_id 120 s1 = (Inr True, s2)"
    and rqd: "rq_start_on_creation rq" "enable_auto_start st"
    and sf: "start_vm R (str_or (rq_node rq) (default_node st)) vmid s2 = (Inl e, s3)"
  shows "create_vm R st rq s =
           (Inr \<lparr> rs_vmid = vmid, rs_name = rq_name rq,
                  rs_node = str_or (rq_node rq) (default_node st), rs_status = ''created'',
                  rs_message = ''VM '' @ str_int vmid @ '' created but failed to start: '' @ str e,
                  rs_task_id = Some task_id \<rparr>,
            s3\<lparr>trace := trace s3 @ [AuditVmCreation (rq_name rq) None]\<rparr>)"
proof -
  have t: "create_vm_try R st rq s =
           (Inr \<lparr> rs_vmid = vmid, rs_name = rq_name rq,
                  rs_node = str_or (rq_node rq) (default_node st), rs_status = ''created'',
                  rs_message = ''VM '' @ str_int vmid @ '' created but failed to start: '' @ str e,
                  rs_task_id = Some task_id \<rparr>,
            s3\<lparr>trace := trace s3 @ [AuditVmCreation (rq_name rq) None]\<rparr>)"
    unfolding create_vm_try_def Let_def
    apply (subst bnd_def)
    apply (simp only: id prod.case sum.case)
    using rg cr wt rqd sf
    by (simp add: bnd_def try_except_def ret_def audit_def)
  show ?thesis
    using t by (simp add: create_vm_def try_except_def)
qed

lemma clone_start_fails:
  assumes f: "find_vm_node R (cl_source_vmid rq) s = (Inr (Some source_node), s1)"
    and ne: "source_node \<noteq> []"
    and g: "get_vm_config R source_node (cl_source_vmid rq) s1 = (Inr cfg, s2)"
    and tp: "truthy_int (cfg_template cfg)"
    and id: "(if truthy_int (cl_new_vmid rq) then ret (the (cl_new_vmid rq)) else get_next_vmid R) s2
                 = (Inr new_vmid, s3)"
    and rg: "vmid_min st \<le> new_vmid" "new_vmid \<le> vmid_max st"
    and cl: "clone_vm R source_node (cl_source_vmid rq) new_vmid (Some (cl_name rq))
               (Some (str_or (cl_storage rq) (default_storage st)))
               (if cl_full_clone rq then 1 else 0)
               [(''description'', (case cl_description rq of None \<Rightarrow> PNone | Some d \<Rightarrow> PStr d))] s3
             = (Inr task_id, s4)"
    and wt: "wait_for_clone_completion R source_node task_id (validation_timeout st) s4 = (Inr True, s5)"
    and cu: "(if truthy_int (cl_cores rq) \<or> truthy_int (cl_memory rq) \<or> truthy_list (cl_tags rq)
              then apply_customizations R (str_or (cl_node rq) (default_node st)) new_vmid rq
              else ret ()) s5 = (Inr (), s6)"
    and ci: "(if cl_cloudinit rq \<noteq> None
              then apply_cloudinit R (str_or (cl_node rq) (default_node st)) new_vmid rq
              else ret ()) s6 = (Inr (), s7)"
    and rqd: "cl_start_after_clone rq" "enable_auto_start st"
    and sf: "start_vm R (str_or (cl_node rq) (default_node st)) new_vmid s7 = (Inl e, s8)"
  shows "clone_from_template R st rq s =
           (Inr \<lparr> rs_vmid = new_vmid, rs_name = cl_name rq,
                  rs_node = str_or (cl_node rq) (default_node st), rs_status = ''created'',
                  rs_message = ''VM '' @ str_int new_vmid @
                               '' cloned successfully but failed to start: '' @ str e,
                  rs_task_id = Some task_id \<rparr>,
            s8\<lparr>trace := trace s8 @ [AuditTemplateClone (cl_name rq) None]\<rparr>)"
  using assms
  by (cases "truthy_int (cl_new_vmid rq)"; cases "cl_full_clone rq";
      cases "truthy_int (cl_cores rq) \<or> truthy_int (cl_memory rq) \<or> truthy_list (cl_tags rq)";
      cases "cl_cloudinit rq")
     (simp_all add: clone_from_template_def clone_from_template_try_def Let_def bnd_def
        try_except_def ret_def audit_def)

text \<open>
  Claim C5. In a create run in which the id is in range, the create call returned a task,
  the wait for it succeeded, start is requested and enabled, and the start call raises
  \<open>e\<close>: create\_vm returns (it does not raise) a response with status "created" whose
  message contains "failed to start". The same holds for a clone run in which the template
  was resolved, the id is in range, the clone task succeeded and the customization and
  guest-init steps went through.
\<close>

theorem start_failure_degrades:
  "((if truthy_int (rq_vmid rq) then ret (the (rq_vmid rq)) else get_next_vmid R) s = (Inr vmid, s0) \<and>
    vmid_min st \<le> vmid \<and> vmid \<le> vmid_max st \<and>
    create_vm_px R (str_or (rq_node rq) (default_node st)) vmid
      (vm_config_of rq (str_or (rq_storage rq) (default_storage st))
         (str_or (rq_network_bridge rq) (default_network_bridge st))) s0 = (Inr task_id, s1) \<and>
    wait_for_task R (str_or (rq_node rq) (default_node st)) task_id 120 s1 = (Inr True, s2) \<and>
    rq_start_on_creation rq \<and> enable_auto_start st \<and>
    start_vm R (str_or (rq_node rq) (default_node st)) vmid s2 = (Inl e, s3)
    \<longrightarrow>
    (\<exists>resp s'. create_vm R st rq s = (Inr resp, s') \<and> rs_vmid resp = vmid \<and>
       rs_status resp = ''created'' \<and>
       rs_message resp = ''VM '' @ str_int vmid @ '' created but failed to start: '' @ str e \<and>
       sublist ''failed to start'' (rs_message resp))) \<and>
   (find_vm_node R (cl_source_vmid cq) u = (Inr (Some source_node), u1) \<and> source_node \<noteq> [] \<and>
    get_vm_config R source_node (cl_source_vmid cq) u1 = (Inr cfg, u2) \<and>
    truthy_int (cfg_template cfg) \<and>
    (if truthy_int (cl_new_vmid cq) then ret (the (cl_new_vmid cq)) else get_next_vmid R) u2
      = (Inr new_vmid, u3) \<and>
    vmid_min st \<le> new_vmid \<and> new_vmid \<le> vmid_max st \<and>
    clone_vm R source_node (cl_source_vmid cq) new_vmid (Some (cl_name cq))
      (Some (str_or (cl_storage cq) (default_storage st)))
      (if cl_full_clone cq then 1 else 0)
      [(''description'', (case cl_description cq of None \<Rightarrow> PNone | Some d \<Rightarrow> PStr d))] u3
      = (Inr clone_task, u4) \<and>
    wait_for_clone_completion R source_node clone_task (validation_timeout st) u4 = (Inr True, u5) \<and>
    (if truthy_int (cl_cores cq) \<or> truthy_int (cl_memory cq) \<or> truthy_list (cl_tags cq)
     then apply_customizations R (str_or (cl_node cq) (default_node st)) new_vmid cq
     else ret ()) u5 = (Inr (), u6) \<and>
    (if cl_cloudinit cq \<noteq> None
     then apply_cloudinit R (str_or (cl_node cq) (default_node st)) new_vmid cq
     else ret ()) u6 = (Inr (), u7) \<and>
    cl_start_after_clone cq \<and> enable_auto_start st \<and>
    start_vm R (str_or (cl_node cq) (default_node st)) new_vmid u7 = (Inl e', u8)
    \<longrightarrow>
    (\<exists>resp s'. clone_from_template R st cq u = (Inr resp, s') \<and> rs_vmid resp = new_vmid \<and>
       rs_status resp = ''created'' \<and>
       rs_message resp = ''VM '' @ str_int new_vmid @
                         '' cloned successfully but failed to start: '' @ str e' \<and>
       sublist ''failed to start'' (rs_message resp)))"
proof (intro conjI impI)
  assume a: "(if truthy_int (rq_vmid rq) then ret (the (rq_vmid rq)) else get_next_vmid R) s = (Inr vmid, s0) \<and>
    vmid_min st \<le> vmid \<and> vmid \<le> vmid_max st \<and>
    create_vm_px R (str_or (rq_node rq) (default_node st)) vmid
      (vm_config_of rq (str_or (rq_storage rq) (default_storage st))
         (str_or (rq_network_bridge rq) (default_network_bridge st))) s0 = (Inr task_id, s1) \<and>
    wait_for_task R (str_or (rq_node rq) (default_node st)) task_id 120 s1 = (Inr True, s2) \<and>
    rq_start_on_creation rq \<and> enable_auto_start st \<and>
    start_vm R (str_or (rq_node rq) (default_node st)) vmid s2 = (Inl e, s3)"
  show "\<exists>resp s'. create_vm R st rq s = (Inr resp, s') \<and> rs_vmid resp = vmid \<and>
       rs_status resp = ''created'' \<and>
       rs_message resp = ''VM '' @ str_int vmid @ '' created but failed to start: '' @ str e \<and>
       sublist ''failed to start'' (rs_message resp)"
    using create_vm_start_fails[of rq R s vmid s0 st task_id s1 s2 e s3] a
      failed_to_start_create[of "str_int vmid" "str e"]
    by simp
next
  assume a: "find_vm_node R (cl_source_vmid cq) u = (Inr (Some source_node), u1) \<and> source_node \<noteq> [] \<and>
    get_vm_config R source_node (cl_source_vmid cq) u1 = (Inr cfg, u2) \<and>
    truthy_int (cfg_template cfg) \<and>
    (if truthy_int (cl_new_vmid cq) then ret (the (cl_new_vmid cq)) else get_next_vmid R) u2
      = (Inr new_vmid, u3) \<and>
    vmid_min st \<le> new_vmid \<and> new_vmid \<le> vmid_max st \<and>
    clone_vm R source_node (cl_source_vmid cq) new_vmid (Some (cl_name cq))
      (Some (str_or (cl_storage cq) (default_storage st)))
      (if cl_full_clone cq then 1 else 0)
      [(''description'', (case cl_description cq of None \<Rightarrow> PNone | Some d \<Rightarrow> PStr d))] u3
      = (Inr clone_task, u4) \<and>
    wait_for_clone_completion R source_node clone_task (validation_timeout st) u4 = (Inr True, u5) \<and>
    (if truthy_int (cl_cores cq) \<or> truthy_int (cl_memory cq) \<or> truthy_list (cl_tags cq)
     then apply_customizations R (str_or (cl_node cq) (default_node st)) new_vmid cq
     else ret ()) u5 = (Inr (), u6) \<and>
    (if cl_cloudinit cq \<noteq> None
     then apply_cloudinit R (str_or (cl_node cq) (default_node st)) new_vmid cq
     else ret ()) u6 = (Inr (), u7) \<and>
    cl_start_after_clone cq \<and> enable_auto_start st \<and>
    start_vm R (str_or (cl_node cq) (default_node st)) new_vmid u7 = (Inl e', u8)"
  have "clone_from_template R st cq u =
           (Inr \<lparr> rs_vmid = new_vmid, rs_name = cl_name cq,
                  rs_node = str_or (cl_node cq) (default_node st), rs_status = ''created'',
                  rs_message = ''VM '' @ str_int new_vmid @
                               '' cloned successfully but failed to start: '' @ str e',
                  rs_task_id = Some clone_task \<rparr>,
            u8\<lparr>trace := trace u8 @ [AuditTemplateClone (cl_name cq) None]\<rparr>)"
    using a by (intro clone_start_fails) blast+
  then show "\<exists>resp s'. clone_from_template R st cq u = (Inr resp, s') \<and> rs_vmid resp = new_vmid \<and>
       rs_status resp = ''created'' \<and>
       rs_message resp = ''VM '' @ str_int new_vmid @
                         '' cloned successfully but failed to start: '' @ str e' \<and>
       sublist ''failed to start'' (rs_message resp)"
    using failed_to_start_clone[of "str_int new_vmid" "str e'"] by simp
qed

theorem start_failure_degrades_witness:
  "(\<exists>resp s'. create_vm faulty_remote default_settings create_request initial_state = (Inr resp, s') \<and>
      rs_vmid resp = 150 \<and> rs_status resp = ''created'' \<and>
      rs_message resp = ''VM 150 created but failed to start: Failed to start VM: boot failed'') \<and>
   (\<exists>resp s'. clone_from_template faulty_remote default_settings clone_request initial_state
        = (Inr resp, s') \<and>
      rs_vmid resp = 150 \<and> rs_status resp = ''created'' \<and>
      rs_message resp =
        ''VM 150 cloned successfully but failed to start: Failed to start VM: boot failed'')"
proof -
  let ?R = faulty_remote
  let ?st = default_settings
  define s0 where "s0 = snd (get_next_vmid ?R initial_state)"
  define s1 where "s1 = snd (create_vm_px ?R ''pve'' 150
     (vm_config_of create_request ''local-lvm'' ''vmbr0'') s0)"
  define s2 where "s2 = snd (wait_for_task ?R ''pve'' ''UPID:create'' 120 s1)"
  define s3 where "s3 = snd (start_vm ?R ''pve'' 150 s2)"
  define u1 where "u1 = snd (find_vm_node ?R 9000 initial_state)"
  define u2 where "u2 = snd (get_vm_config ?R ''pve'' 9000 u1)"
  define u3 where "u3 = snd (get_next_vmid ?R u2)"
  define u4 where "u4 = snd (clone_vm ?R ''pve'' 9000 150 (Some ''srv-01'') (Some ''local-lvm'') 1
                               [(''description'', PNone)] u3)"
  define u5 where "u5 = snd (wait_for_clone_completion ?R ''pve'' ''UPID:clone'' 300 u4)"
  define u8 where "u8 = snd (start_vm ?R ''pve'' 150 u5)"
  have n: "str_int 150 = ''150''"
    by (simp add: str_int_def str_nat.simps digit_char_def)
  have c1: "get_next_vmid ?R initial_state = (Inr 150, s0)"
    unfolding s0_def by (rule pair_fst) (rule faulty_get_next_vmid)
  have c2: "create_vm_px ?R ''pve'' 150 (vm_config_of create_request ''local-lvm'' ''vmbr0'') s0
              = (Inr ''UPID:create'', s1)"
    unfolding s1_def by (rule pair_fst) (rule faulty_create_vm_px)
  have c3: "wait_for_task ?R ''pve'' ''UPID:create'' 120 s1 = (Inr True, s2)"
    unfolding s2_def by (rule pair_fst) (simp add: faulty_wait_for_task)
  have c4: "start_vm ?R ''pve'' 150 s2
              = (Inl (ProxmoxConnectionError ''Failed to start VM: boot failed''), s3)"
    unfolding s3_def by (rule pair_fst) (rule faulty_start_vm)
  have d1: "find_vm_node ?R 9000 initial_state = (Inr (Some ''pve''), u1)"
    unfolding u1_def by (rule pair_fst) (rule faulty_find_vm_node)
  have d2: "get_vm_config ?R ''pve'' 9000 u1 =
     (Inr \<lparr> cfg_template = Some 1, cfg_name = Some ''ubuntu-template'',
            cfg_cores = Some 2, cfg_cpus = None, cfg_memory = Some 2048 \<rparr>, u2)"
    unfolding u2_def by (rule pair_fst) (rule faulty_get_vm_config)
  have d3: "get_next_vmid ?R u2 = (Inr 150, u3)"
    unfolding u3_def by (rule pair_fst) (rule faulty_get_next_vmid)
  have d4: "clone_vm ?R ''pve'' 9000 150 (Some ''srv-01'') (Some ''local-lvm'') 1
              [(''description'', PNone)] u3 = (Inr ''UPID:clone'', u4)"
    unfolding u4_def by (rule pair_fst) (rule faulty_clone_vm)
  have d5: "wait_for_clone_completion ?R ''pve'' ''UPID:clone'' 300 u4 = (Inr True, u5)"
    unfolding u5_def
    by (rule pair_fst) (simp add: wait_for_clone_completion_def faulty_wait_for_task)
  have d8: "start_vm ?R ''pve'' 150 u5
              = (Inl (ProxmoxConnectionError ''Failed to start VM: boot failed''), u8)"
    unfolding u8_def by (rule pair_fst) (rule faulty_start_vm)
  show ?thesis
    using start_failure_degrades [where R = ?R and st = ?st
        and rq = create_request and s = initial_state and vmid = 150 and ?s0.0 = s0
        and task_id = "''UPID:create''" and ?s1.0 = s1 and ?s2.0 = s2 and ?s3.0 = s3
        and e = "ProxmoxConnectionError ''Failed to start VM: boot failed''"
        and cq = clone_request and u = initial_state and source_node = "''pve''" and ?u1.0 = u1
        and cfg = "\<lparr> cfg_template = Some 1, cfg_name = Some ''ubuntu-template'',
            cfg_cores = Some 2, cfg_cpus = None, cfg_memory = Some 2048 \<rparr>"
        and ?u2.0 = u2 and new_vmid = 150 and ?u3.0 = u3 and clone_task = "''UPID:clone''"
        and ?u4.0 = u4 and ?u5.0 = u5 and ?u6.0 = u5 and ?u7.0 = u5 and ?u8.0 = u8
        and e' = "ProxmoxConnectionError ''Failed to start VM: boot failed''"]
      c1 c2 c3 c4 d1 d2 d3 d4 d5 d8 n
    by (simp add: create_request_def clone_request_def default_settings_def ret_def) blast
qed

section \<open>A customization failure after the clone (claim C7)\<close>

lemma clone_customization_fails:
  assumes f: "find_vm_node R (cl_source_vmid rq) s = (Inr (Some source_node), s1)"
    and ne: "source_node \<noteq> []"
    and g: "get_vm_config R source_node (cl_source_vmid rq) s1 = (Inr cfg, s2)"
    and tp: "truthy_int (cfg_template cfg)"
    and id: "(if truthy_int (cl_new_vmid rq) then ret (the (cl_new_vmid rq)) else get_next_vmid R) s2
                 = (Inr new_vmid, s3)"
    and rg: "vmid_min st \<le> new_vmid" "new_vmid \<le> vmid_max st"
    and cl: "clone_vm R source_node (cl_source_vmid rq) new_vmid (Some (cl_name rq))
               (Some (str_or (cl_storage rq) (default_storage st)))
               (if cl_full_clone rq then 1 else 0)
               [(''description'', (case cl_description rq of None \<Rightarrow> PNone | Some d \<Rightarrow> PStr d))] s3
             = (Inr task_id, s4)"
    and wt: "wait_for_clone_completion R source_node task_id (validation_timeout st) s4 = (Inr True, s5)"
    and cu: "truthy_int (cl_cores rq) \<or> truthy_int (cl_memory rq) \<or> truthy_list (cl_tags rq)"
    and uf: "update_vm_config R (str_or (cl_node rq) (default_node st)) new_vmid
               (update_params_of rq) s5 = (Inl e, s6)"
  shows "clone_from_template R st rq s =
           (Inl (VMCloneError (''VM cloned but customization failed: '' @ str e)),
            s6\<lparr>trace := trace s6 @
               [AuditTemplateClone (cl_name rq)
                  (Some (''VM cloned but customization failed: '' @ str e))]\<rparr>)"
proof -
  have ne': "update_params_of rq \<noteq> []"
    using cu by (auto simp: update_params_of_def)
  have ac: "apply_customizations R (str_or (cl_node rq) (default_node st)) new_vmid rq s5 =
              (Inl (VMCloneError (''VM cloned but customization failed: '' @ str e)), s6)"
    using ne' uf by (simp add: apply_customizations_def Let_def try_except_def throw_def)
  show ?thesis
    using f ne g tp id rg cl wt cu ac
    by (cases "truthy_int (cl_new_vmid rq)"; cases "cl_full_clone rq")
       (simp_all add: clone_from_template_def clone_from_template_try_def Let_def bnd_def
          try_except_def ret_def audit_def throw_def)
qed

text \<open>
  Claim C7. In a clone run in which the template was resolved, the id is in range and the
  clone task has completed successfully, and in which a customization (cores, memory or
  tags) is requested and the configuration update raises \<open>e\<close>: clone\_from\_template
  raises VMCloneError with the message "VM cloned but customization failed: " followed by
  the text of \<open>e\<close> (the messages of a clone failure start differently), the audit record
  of the failure is the last event, and no event of the whole run is a stop or a delete of
  a VM.
\<close>

theorem customization_failure_surfaces:
  "find_vm_node R (cl_source_vmid cq) u = (Inr (Some source_node), u1) \<and> source_node \<noteq> [] \<and>
   get_vm_config R source_node (cl_source_vmid cq) u1 = (Inr cfg, u2) \<and>
   truthy_int (cfg_template cfg) \<and>
   (if truthy_int (cl_new_vmid cq) then ret (the (cl_new_vmid cq)) else get_next_vmid R) u2
     = (Inr new_vmid, u3) \<and>
   vmid_min st \<le> new_vmid \<and> new_vmid \<le> vmid_max st \<and>
   clone_vm R source_node (cl_source_vmid cq) new_vmid (Some (cl_name cq))
     (Some (str_or (cl_storage cq) (default_storage st)))
     (if cl_full_clone cq then 1 else 0)
     [(''description'', (case cl_description cq of None \<Rightarrow> PNone | Some d \<Rightarrow> PStr d))] u3
     = (Inr clone_task, u4) \<and>
   wait_for_clone_completion R source_node clone_task (validation_timeout st) u4 = (Inr True, u5) \<and>
   (truthy_int (cl_cores cq) \<or> truthy_int (cl_memory cq) \<or> truthy_list (cl_tags cq)) \<and>
   update_vm_config R (str_or (cl_node cq) (default_node st)) new_vmid (update_params_of cq) u5
     = (Inl e, u6)
   \<longrightarrow>
   clone_from_template R st cq u =
     (Inl (VMCloneError (''VM cloned but customization failed: '' @ str e)),
      u6\<lparr>trace := trace u6 @
         [AuditTemplateClone (cl_name cq)
            (Some (''VM cloned but customization failed: '' @ str e))]\<rparr>) \<and>
   (\<exists>evs. trace (snd (clone_from_template R st cq u)) = trace u @ evs \<and>
          list_all (\<lambda>ev. \<not> is_rollback ev) evs)"
proof (intro impI conjI)
  assume a: "find_vm_node R (cl_source_vmid cq) u = (Inr (Some source_node), u1) \<and> source_node \<noteq> [] \<and>
   get_vm_config R source_node (cl_source_vmid cq) u1 = (Inr cfg, u2) \<and>
   truthy_int (cfg_template cfg) \<and>
   (if truthy_int (cl_new_vmid cq) then ret (the (cl_new_vmid cq)) else get_next_vmid R) u2
     = (Inr new_vmid, u3) \<and>
   vmid_min st \<le> new_vmid \<and> new_vmid \<le> vmid_max st \<and>
   clone_vm R source_node (cl_source_vmid cq) new_vmid (Some (cl_name cq))
     (Some (str_or (cl_storage cq) (default_storage st)))
     (if cl_full_clone cq then 1 else 0)
     [(''description'', (case cl_description cq of None \<Rightarrow> PNone | Some d \<Rightarrow> PStr d))] u3
     = (Inr clone_task, u4) \<and>
   wait_for_clone_completion R source_node clone_task (validation_timeout st) u4 = (Inr True, u5) \<and>
   (truthy_int (cl_cores cq) \<or> truthy_int (cl_memory cq) \<or> truthy_list (cl_tags cq)) \<and>
   update_vm_config R (str_or (cl_node cq) (default_node st)) new_vmid (update_params_of cq) u5
     = (Inl e, u6)"
  show "clone_from_template R st cq u =
     (Inl (VMCloneError (''VM cloned but customization failed: '' @ str e)),
      u6\<lparr>trace := trace u6 @
         [AuditTemplateClone (cl_name cq)
            (Some (''VM cloned but customization failed: '' @ str e))]\<rparr>)"
    using a by (intro clone_customization_fails) blast+
  show "\<exists>evs. trace (snd (clone_from_template R st cq u)) = trace u @ evs \<and>
          list_all (\<lambda>ev. \<not> is_rollback ev) evs"
    using emits_clone_from_template[of R st cq] unfolding emits_def by blast
qed

theorem customization_failure_surfaces_witness:
  "fst (clone_from_template faulty_remote default_settings
          (clone_request\<lparr> cl_cores := Some 4 \<rparr>) initial_state) =
     Inl (VMCloneError
       ''VM cloned but customization failed: Failed to update VM config: VM is locked'') \<and>
   list_all (\<lambda>ev. \<not> is_rollback ev)
     (trace (snd (clone_from_template faulty_remote default_settings
                    (clone_request\<lparr> cl_cores := Some 4 \<rparr>) initial_state)))"
proof -
  let ?R = faulty_remote
  let ?st = default_settings
  let ?rq = "clone_request\<lparr> cl_cores := Some 4 \<rparr>"
  define u1 where "u1 = snd (find_vm_node ?R 9000 initial_state)"
  define u2 where "u2 = snd (get_vm_config ?R ''pve'' 9000 u1)"
  define u3 where "u3 = snd (get_next_vmid ?R u2)"
  define u4 where "u4 = snd (clone_vm ?R ''pve'' 9000 150 (Some ''srv-01'') (Some ''local-lvm'') 1
                               [(''description'', PNone)] u3)"
  define u5 where "u5 = snd (wait_for_clone_completion ?R ''pve'' ''UPID:clone'' 300 u4)"
  define u6 where "u6 = snd (update_vm_config ?R ''pve'' 150 [(''cores'', PInt 4)] u5)"
  have d1: "find_vm_node ?R 9000 initial_state = (Inr (Some ''pve''), u1)"
    unfolding u1_def by (rule pair_fst) (rule faulty_find_vm_node)
  have d2: "get_vm_config ?R ''pve'' 9000 u1 =
     (Inr \<lparr> cfg_template = Some 1, cfg_name = Some ''ubuntu-template'',
            cfg_cores = Some 2, cfg_cpus = None, cfg_memory = Some 2048 \<rparr>, u2)"
    unfolding u2_def by (rule pair_fst) (rule faulty_get_vm_config)
  have d3: "get_next_vmid ?R u2 = (Inr 150, u3)"
    unfolding u3_def by (rule pair_fst) (rule faulty_get_next_vmid)
  have d4: "clone_vm ?R ''pve'' 9000 150 (Some ''srv-01'') (Some ''local-lvm'') 1
              [(''description'', PNone)] u3 = (Inr ''UPID:clone'', u4)"
    unfolding u4_def by (rule pair_fst) (rule faulty_clone_vm)
  have d5: "wait_for_clone_completion ?R ''pve'' ''UPID:clone'' 300 u4 = (Inr True, u5)"
    unfolding u5_def
    by (rule pair_fst) (simp add: wait_for_clone_completion_def faulty_wait_for_task)
  have d6: "update_vm_config ?R ''pve'' 150 [(''cores'', PInt 4)] u5
              = (Inl (ProxmoxConnectionError ''Failed to update VM config: VM is locked''), u6)"
    unfolding u6_def by (rule pair_fst) (rule faulty_update_vm_config)
  show ?thesis
    using customization_failure_surfaces [where R = ?R and st = ?st
        and cq = ?rq and u = initial_state and source_node = "''pve''" and ?u1.0 = u1
        and cfg = "\<lparr> cfg_template = Some 1, cfg_name = Some ''ubuntu-template'',
            cfg_cores = Some 2, cfg_cpus = None, cfg_memory = Some 2048 \<rparr>"
        and ?u2.0 = u2 and new_vmid = 150 and ?u3.0 = u3 and clone_task = "''UPID:clone''"
        and ?u4.0 = u4 and ?u5.0 = u5 and ?u6.0 = u6
        and e = "ProxmoxConnectionError ''Failed to update VM config: VM is locked''"]
      d1 d2 d3 d4 d5 d6
    by (simp add: clone_request_def default_settings_def ret_def update_params_of_def
        initial_state_def) auto
qed

section \<open>The batch executor (claim C1)\<close>

lemma create_vm_raises:
  assumes "create_vm R st rq s = (Inl e, s')"
  shows "(\<exists>m. e = InvalidVMIDError m) \<or> (\<exists>m. e = VMCreationError m)"
proof -
  obtain r s1 where t: "create_vm_try R st rq s = (r, s1)"
    by (cases "create_vm_try R st rq s")
  show ?thesis
  proof (cases r)
    case (Inr a)
    then show ?thesis using assms t by (simp add: create_vm_def try_except_def)
  next
    case (Inl x)
    then show ?thesis
      using assms t
      by (cases x) (auto simp: create_vm_def try_except_def bnd_def audit_def throw_def)
  qed
qed

lemma create_vm_try_name:
  "returns (\<lambda>resp. rs_name resp = rq_name rq) (create_vm_try R st rq)"
  unfolding create_vm_try_def Let_def
  by (intro returns_bnd returns_if returns_throw returns_case_prod returns_ret) simp

lemma create_vm_name:
  assumes "create_vm R st rq s = (Inr resp, s')"
  shows "rs_name resp = rq_name rq"
proof -
  obtain r s1 where t: "create_vm_try R st rq s = (r, s1)"
    by (cases "create_vm_try R st rq s")
  show ?thesis
  proof (cases r)
    case (Inr a)
    then show ?thesis using assms t returnsD[OF create_vm_try_name, of R st rq s a s1]
      by (simp add: create_vm_def try_except_def)
  next
    case (Inl x)
    then show ?thesis
      using assms t
      by (cases x) (auto simp: create_vm_def try_except_def bnd_def audit_def throw_def)
  qed
qed

lemma create_vm_try_status:
  "returns (\<lambda>resp. rs_status resp = ''started'' \<or> rs_status resp = ''created'')
     (create_vm_try R st rq)"
  unfolding create_vm_try_def Let_def
  apply (rule returns_bnd, rule returns_if, rule returns_throw)
  apply (rule returns_bnd, rule returns_bnd, rule returns_if, rule returns_throw)
  apply (rule returns_bnd_post[where P = "\<lambda>p. fst p = ''started'' \<or> fst p = ''created''"])
   apply (intro returns_if returns_try_except returns_bnd returns_ret; simp)
  apply (simp only: split_def)
  apply (rule returns_bnd, rule returns_ret)
  apply simp
  done

lemma create_vm_status:
  assumes "create_vm R st rq s = (Inr resp, s')"
  shows "rs_status resp \<noteq> ''failed''"
proof -
  obtain r s1 where t: "create_vm_try R st rq s = (r, s1)"
    by (cases "create_vm_try R st rq s")
  show ?thesis
  proof (cases r)
    case (Inr a)
    then show ?thesis using assms t returnsD[OF create_vm_try_status, of R st rq s a s1]
      by (auto simp add: create_vm_def try_except_def)
  next
    case (Inl x)
    then show ?thesis
      using assms t
      by (cases x) (auto simp: create_vm_def try_except_def bnd_def audit_def throw_def)
  qed
qed

lemma batch_item_failed:
  assumes "valid (validate_vm_config rq)" "create_vm R st rq s = (Inl e, s')"
  shows "batch_item R st rq s = (Inr (error_result rq (''Failed: '' @ str e), False), s')"
  using assms create_vm_raises[OF assms(2)]
  by (auto simp: batch_item_def Let_def try_except_def bnd_def ret_def)

lemma batch_item_invalid:
  assumes "\<not> valid (validate_vm_config rq)"
  shows "batch_item R st rq s =
           (Inr (error_result rq (''Invalid configuration: '' @
                   join '', '' (issues (validate_vm_config rq))), False), s)"
  using assms by (simp add: batch_item_def Let_def try_except_def ret_def)

lemma batch_item_created:
  assumes "valid (validate_vm_config rq)" "create_vm R st rq s = (Inr r, s')"
  shows "batch_item R st rq s = (Inr (r, True), s')"
  using assms by (simp add: batch_item_def Let_def try_except_def bnd_def ret_def)

lemma count_upt_Suc:
  "length (filter P [0..<Suc n]) = (if P 0 then 1 else 0) + length (filter (\<lambda>i. P (Suc i)) [0..<n])"
proof -
  have "[0..<Suc n] = 0 # [Suc 0..<Suc n]"
    by (rule upt_conv_Cons) simp
  then have "[0..<Suc n] = 0 # map Suc [0..<n]"
    by (simp only: map_Suc_upt)
  then have "length (filter P [0..<Suc n]) = length (filter P (0 # map Suc [0..<n]))"
    by (simp only:)
  also have "\<dots> = (if P 0 then 1 else 0) + length (filter (\<lambda>i. P (Suc i)) [0..<n])"
    by (simp add: filter_map o_def del: upt_Suc)
  finally show ?thesis .
qed

lemma count_nth:
  "length xs = n \<Longrightarrow> (\<And>i. i < n \<Longrightarrow> P (xs ! i) = Q i) \<Longrightarrow>
   length (filter P xs) = length (filter Q [0..<n])"
proof (induction xs arbitrary: n Q)
  case Nil
  then show ?case by simp
next
  case (Cons x xs)
  obtain m where n: "n = Suc m" using Cons.prems(1) by (cases n) auto
  have l: "length xs = m" using Cons.prems(1) n by simp
  have h: "\<And>i. i < m \<Longrightarrow> P (xs ! i) = Q (Suc i)"
    using Cons.prems(2)[of "Suc _"] n by simp
  have ih: "length (filter P xs) = length (filter (\<lambda>i. Q (Suc i)) [0..<m])"
    by (rule Cons.IH[OF l h])
  have x: "P x = Q 0" using Cons.prems(2)[of 0] n by simp
  show ?case
    unfolding n count_upt_Suc using ih x by simp
qed

lemma created_0:
  "created R st (rq # rest) s 0 =
     (valid (validate_vm_config rq) \<and>
      (case fst (create_vm R st rq s) of Inr r \<Rightarrow> True | Inl e \<Rightarrow> False))"
  by (simp add: created_def)

lemma created_Suc:
  "created R st (rq # rest) s (Suc k) =
     created R st rest
       (if valid (validate_vm_config rq) then snd (create_vm R st rq s) else s) k"
  by (simp add: created_def)

lemma batch_item_run:
  "\<exists>res. batch_item R st rq s =
            (Inr (res, created R st (rq # rest) s 0),
             if valid (validate_vm_config rq) then snd (create_vm R st rq s) else s) \<and>
     rs_name res = rq_name rq \<and>
     (rs_status res = ''failed'') = (\<not> created R st (rq # rest) s 0) \<and>
     (\<forall>r. valid (validate_vm_config rq) \<and> fst (create_vm R st rq s) = Inr r \<longrightarrow> res = r) \<and>
     (\<forall>e. valid (validate_vm_config rq) \<and> fst (create_vm R st rq s) = Inl e \<longrightarrow>
          res = error_result rq (''Failed: '' @ str e)) \<and>
     (\<not> valid (validate_vm_config rq) \<longrightarrow>
          res = error_result rq (''Invalid configuration: '' @
                                   join '', '' (issues (validate_vm_config rq))))"
proof (cases "valid (validate_vm_config rq)")
  case False
  then show ?thesis
    using batch_item_invalid[OF False, of R st s]
    by (simp add: created_0 error_result_def)
next
  case True
  obtain x s1 where c: "create_vm R st rq s = (x, s1)" by (cases "create_vm R st rq s")
  show ?thesis
  proof (cases x)
    case (Inr r)
    have "batch_item R st rq s = (Inr (r, True), s1)"
      using batch_item_created[OF True] c Inr by simp
    moreover have "rs_name r = rq_name rq" "rs_status r \<noteq> ''failed''"
      using create_vm_name[of R st rq s r s1] create_vm_status[of R st rq s r s1] c Inr
      by simp_all
    ultimately show ?thesis
      using True c Inr by (simp add: created_0)
  next
    case (Inl e)
    have "batch_item R st rq s = (Inr (error_result rq (''Failed: '' @ str e), False), s1)"
      using batch_item_failed[OF True] c Inl by simp
    then show ?thesis
      using True c Inl by (simp add: created_0 error_result_def)
  qed
qed

lemma batch_loop_run:
  "\<exists>rs. batch_loop R st rqs (res0, a, b) s =
          (Inr (res0 @ rs,
                a + int (length (filter (created R st rqs s) [0..<length rqs])),
                b + int (length (filter (\<lambda>i. \<not> created R st rqs s i) [0..<length rqs]))),
           processed R st rqs s) \<and>
     length rs = length rqs \<and>
     (\<forall>i<length rqs.
        rs_name (rs ! i) = rq_name (rqs ! i) \<and>
        (rs_status (rs ! i) = ''failed'') = (\<not> created R st rqs s i) \<and>
        (\<forall>r. valid (validate_vm_config (rqs ! i)) \<and>
              fst (create_vm R st (rqs ! i) (processed R st (take i rqs) s)) = Inr r \<longrightarrow>
              rs ! i = r) \<and>
        (\<forall>e. valid (validate_vm_config (rqs ! i)) \<and>
              fst (create_vm R st (rqs ! i) (processed R st (take i rqs) s)) = Inl e \<longrightarrow>
              rs ! i = error_result (rqs ! i) (''Failed: '' @ str e)) \<and>
        (\<not> valid (validate_vm_config (rqs ! i)) \<longrightarrow>
              rs ! i = error_result (rqs ! i)
                         (''Invalid configuration: '' @
                          join '', '' (issues (validate_vm_config (rqs ! i))))))"
proof (induction rqs arbitrary: res0 a b s)
  case Nil
  then show ?case by (simp add: ret_def)
next
  case (Cons rq rest)
  let ?c = "created R st (rq # rest) s 0"
  let ?s1 = "if valid (validate_vm_config rq) then snd (create_vm R st rq s) else s"
  obtain res where i:
    "batch_item R st rq s = (Inr (res, ?c), ?s1)"
    "rs_name res = rq_name rq"
    "(rs_status res = ''failed'') = (\<not> ?c)"
    "\<forall>r. valid (validate_vm_config rq) \<and> fst (create_vm R st rq s) = Inr r \<longrightarrow> res = r"
    "\<forall>e. valid (validate_vm_config rq) \<and> fst (create_vm R st rq s) = Inl e \<longrightarrow>
          res = error_result rq (''Failed: '' @ str e)"
    "\<not> valid (validate_vm_config rq) \<longrightarrow>
          res = error_result rq (''Invalid configuration: '' @
                                   join '', '' (issues (validate_vm_config rq)))"
    using batch_item_run[of R st rq s rest] by blast
  let ?a = "if ?c then a + 1 else a"
  let ?b = "if ?c then b else b + 1"
  obtain rs where ih:
    "batch_loop R st rest (res0 @ [res], ?a, ?b) ?s1 =
       (Inr ((res0 @ [res]) @ rs,
             ?a + int (length (filter (created R st rest ?s1) [0..<length rest])),
             ?b + int (length (filter (\<lambda>i. \<not> created R st rest ?s1 i) [0..<length rest]))),
        processed R st rest ?s1)"
    "length rs = length rest"
    "\<forall>i<length rest.
        rs_name (rs ! i) = rq_name (rest ! i) \<and>
        (rs_status (rs ! i) = ''failed'') = (\<not> created R st rest ?s1 i) \<and>
        (\<forall>r. valid (validate_vm_config (rest ! i)) \<and>
              fst (create_vm R st (rest ! i) (processed R st (take i rest) ?s1)) = Inr r \<longrightarrow>
              rs ! i = r) \<and>
        (\<forall>e. valid (validate_vm_config (rest ! i)) \<and>
              fst (create_vm R st (rest ! i) (processed R st (take i rest) ?s1)) = Inl e \<longrightarrow>
              rs ! i = error_result (rest ! i) (''Failed: '' @ str e)) \<and>
        (\<not> valid (validate_vm_config (rest ! i)) \<longrightarrow>
              rs ! i = error_result (rest ! i)
                         (''Invalid configuration: '' @
                          join '', '' (issues (validate_vm_config (rest ! i)))))"
    using Cons.IH[of "res0 @ [res]" ?a ?b ?s1] by blast
  have cs: "\<And>k. created R st (rq # rest) s (Suc k) = created R st rest ?s1 k"
    by (rule created_Suc)
  have n1: "int (length (filter (created R st (rq # rest) s) [0..<length (rq # rest)])) =
            (if ?c then 1 else 0) + int (length (filter (created R st rest ?s1) [0..<length rest]))"
    using count_upt_Suc[of "created R st (rq # rest) s" "length rest"] by (simp add: cs)
  have n2: "int (length (filter (\<lambda>i. \<not> created R st (rq # rest) s i) [0..<length (rq # rest)])) =
            (if ?c then 0 else 1) +
            int (length (filter (\<lambda>i. \<not> created R st rest ?s1 i) [0..<length rest]))"
    using count_upt_Suc[of "\<lambda>i. \<not> created R st (rq # rest) s i" "length rest"] by (simp add: cs)
  have l: "batch_loop R st (rq # rest) (res0, a, b) s =
          (Inr (res0 @ (res # rs),
                a + int (length (filter (created R st (rq # rest) s) [0..<length (rq # rest)])),
                b + int (length (filter (\<lambda>i. \<not> created R st (rq # rest) s i)
                                   [0..<length (rq # rest)]))),
           processed R st (rq # rest) s)"
    unfolding n1 n2 using i(1) ih(1) by (simp add: bnd_def)
  have len: "length (res # rs) = length (rq # rest)" using ih(2) by simp
  have idx: "\<forall>i<length (rq # rest).
        rs_name ((res # rs) ! i) = rq_name ((rq # rest) ! i) \<and>
        (rs_status ((res # rs) ! i) = ''failed'') = (\<not> created R st (rq # rest) s i) \<and>
        (\<forall>r. valid (validate_vm_config ((rq # rest) ! i)) \<and>
              fst (create_vm R st ((rq # rest) ! i) (processed R st (take i (rq # rest)) s)) = Inr r \<longrightarrow>
              (res # rs) ! i = r) \<and>
        (\<forall>e. valid (validate_vm_config ((rq # rest) ! i)) \<and>
              fst (create_vm R st ((rq # rest) ! i) (processed R st (take i (rq # rest)) s)) = Inl e \<longrightarrow>
              (res # rs) ! i = error_result ((rq # rest) ! i) (''Failed: '' @ str e)) \<and>
        (\<not> valid (validate_vm_config ((rq # rest) ! i)) \<longrightarrow>
              (res # rs) ! i = error_result ((rq # rest) ! i)
                         (''Invalid configuration: '' @
                          join '', '' (issues (validate_vm_config ((rq # rest) ! i)))))"
  proof (intro allI impI)
    fix j assume j: "j < length (rq # rest)"
    show "rs_name ((res # rs) ! j) = rq_name ((rq # rest) ! j) \<and>
        (rs_status ((res # rs) ! j) = ''failed'') = (\<not> created R st (rq # rest) s j) \<and>
        (\<forall>r. valid (validate_vm_config ((rq # rest) ! j)) \<and>
              fst (create_vm R st ((rq # rest) ! j) (processed R st (take j (rq # rest)) s)) = Inr r \<longrightarrow>
              (res # rs) ! j = r) \<and>
        (\<forall>e. valid (validate_vm_config ((rq # rest) ! j)) \<and>
              fst (create_vm R st ((rq # rest) ! j) (processed R st (take j (rq # rest)) s)) = Inl e \<longrightarrow>
              (res # rs) ! j = error_result ((rq # rest) ! j) (''Failed: '' @ str e)) \<and>
        (\<not> valid (validate_vm_config ((rq # rest) ! j)) \<longrightarrow>
              (res # rs) ! j = error_result ((rq # rest) ! j)
                         (''Invalid configuration: '' @
                          join '', '' (issues (validate_vm_config ((rq # rest) ! j)))))"
    proof (cases j)
      case 0
      show ?thesis unfolding 0 using i(2-6) by simp
    next
      case (Suc k)
      have k: "k < length rest" using j Suc by simp
      show ?thesis unfolding Suc using ih(3) k by (simp add: cs)
    qed
  qed
  show ?case
    using l len idx by (intro exI[of _ "res # rs"]) (simp only: simp_thms)
qed

lemma create_vm_started:
  assumes id: "(if truthy_int (rq_vmid rq) then ret (the (rq_vmid rq)) else get_next_vmid R) s
                 = (Inr vmid, s0)"
    and rg: "vmid_min st \<le> vmid" "vmid \<le> vmid_max st"
    and cr: "create_vm_px R (str_or (rq_node rq) (default_node st)) vmid
               (vm_config_of rq (str_or (rq_storage rq) (default_storage st))
                  (str_or (rq_network_bridge rq) (default_network_bridge st))) s0
             = (Inr task_id, s1)"
    and wt: "wait_for_task R (str_or (rq_node rq) (default_node st)) task_id 120 s1 = (Inr True, s2)"
    and rqd: "rq_start_on_creation rq" "enable_auto_start st"
    and sf: "start_vm R (str_or (rq_node rq) (default_node st)) vmid s2 = (Inr x, s3)"
  shows "create_vm R st rq s =
           (Inr \<lparr> rs_vmid = vmid, rs_name = rq_name rq,
                  rs_node = str_or (rq_node rq) (default_node st), rs_status = ''started'',
                  rs_message = ''VM '' @ str_int vmid @ '' created and started successfully'',
                  rs_task_id = Some task_id \<rparr>,
            s3\<lparr>trace := trace s3 @ [AuditVmCreation (rq_name rq) None]\<rparr>)"
proof -
  have t: "create_vm_try R st rq s =
           (Inr \<lparr> rs_vmid = vmid, rs_name = rq_name rq,
                  rs_node = str_or (rq_node rq) (default_node st), rs_status = ''started'',
                  rs_message = ''VM '' @ str_int vmid @ '' created and started successfully'',
                  rs_task_id = Some task_id \<rparr>,
            s3\<lparr>trace := trace s3 @ [AuditVmCreation (rq_name rq) None]\<rparr>)"
    unfolding create_vm_try_def Let_def
    apply (subst bnd_def)
    apply (simp only: id prod.case sum.case)
    using rg cr wt rqd sf
    by (simp add: bnd_def try_except_def ret_def audit_def)
  show ?thesis
    using t by (simp add: create_vm_def try_except_def)
qed

lemma template_create_vm:
  "fst (create_vm template_remote default_settings create_request s) =
     Inr \<lparr> rs_vmid = 150, rs_name = ''srv-01'', rs_node = ''pve'', rs_status = ''started'',
            rs_message = ''VM 150 created and started successfully'',
            rs_task_id = Some ''UPID:create'' \<rparr>"
proof -
  let ?R = template_remote
  define s0 where "s0 = snd (get_next_vmid ?R s)"
  define s1 where "s1 = snd (create_vm_px ?R ''pve'' 150
     (vm_config_of create_request ''local-lvm'' ''vmbr0'') s0)"
  define s2 where "s2 = snd (wait_for_task ?R ''pve'' ''UPID:create'' 120 s1)"
  define s3 where "s3 = snd (start_vm ?R ''pve'' 150 s2)"
  have n: "str_int 150 = ''150''"
    by (simp add: str_int_def str_nat.simps digit_char_def)
  have c1: "get_next_vmid ?R s = (Inr 150, s0)"
    unfolding s0_def by (rule pair_fst) (rule template_get_next_vmid)
  have c2: "create_vm_px ?R ''pve'' 150 (vm_config_of create_request ''local-lvm'' ''vmbr0'') s0
              = (Inr ''UPID:create'', s1)"
    unfolding s1_def by (rule pair_fst) (rule template_create_vm_px)
  have c3: "wait_for_task ?R ''pve'' ''UPID:create'' 120 s1 = (Inr True, s2)"
    unfolding s2_def by (rule pair_fst) (simp add: template_wait_for_task)
  have c4: "start_vm ?R ''pve'' 150 s2 = (Inr ''UPID:start'', s3)"
    unfolding s3_def by (rule pair_fst) (rule template_start_vm)
  show ?thesis
    using create_vm_started [where R = ?R and st = default_settings
        and rq = create_request and s = s and vmid = 150 and ?s0.0 = s0
        and task_id = "''UPID:create''" and ?s1.0 = s1 and ?s2.0 = s2 and ?s3.0 = s3
        and x = "''UPID:start''"]
      c1 c2 c3 c4 n
    by (simp add: create_request_def default_settings_def ret_def)
qed

lemma list3: "length xs = 3 \<Longrightarrow> xs = [xs ! 0, xs ! 1, xs ! 2]"
  by (cases xs; simp; cases "tl xs"; simp; cases "tl (tl xs)"; simp)

text \<open>
  Claim C1. For every list of requests, every environment and every state,
  batch\_create\_vms returns a report (it does not raise) with exactly one result per
  request, \<open>total\<close> the number of requests and \<open>successful + failed = total\<close>.
  The requests are handled in input order, each in the state left by those before it, and
  all of them are: the final state is the one after the whole list, followed by the one
  audit record of the batch. \<open>successful\<close> is the number of requests that were
  created, \<open>failed\<close> the number of those that were not, which is also the number of
  results with status "failed". Result \<open>i\<close> carries the name of request \<open>i\<close>:
  when create\_vm returns \<open>r\<close> for request \<open>i\<close>, result \<open>i\<close> is \<open>r\<close>; when it
  raises \<open>e\<close>, result \<open>i\<close> is the synthesized one with vmid 0, status "failed" and
  the message "Failed: " followed by the text of \<open>e\<close>; when the configuration of
  request \<open>i\<close> is invalid, it is the synthesized one listing the issues.
\<close>

theorem batch_create_vms_report:
  "\<exists>resp. batch_create_vms R st requests s =
       (Inr resp,
        (processed R st requests s)
          \<lparr>trace := trace (processed R st requests s) @
             [AuditBatch ''batch_create'' (int (length requests))
                (b_successful resp) (b_failed resp)]\<rparr>) \<and>
     length (b_results resp) = length requests \<and>
     b_total resp = int (length requests) \<and>
     b_successful resp + b_failed resp = b_total resp \<and>
     b_successful resp = int (length (filter (created R st requests s) [0..<length requests])) \<and>
     b_failed resp =
       int (length (filter (\<lambda>i. \<not> created R st requests s i) [0..<length requests])) \<and>
     b_failed resp = int (length (filter (\<lambda>r. rs_status r = ''failed'') (b_results resp))) \<and>
     map rs_name (b_results resp) = map rq_name requests \<and>
     (\<forall>i<length requests. \<forall>r.
        valid (validate_vm_config (requests ! i)) \<and>
        fst (create_vm R st (requests ! i) (processed R st (take i requests) s)) = Inr r \<longrightarrow>
        b_results resp ! i = r) \<and>
     (\<forall>i<length requests. \<forall>e.
        valid (validate_vm_config (requests ! i)) \<and>
        fst (create_vm R st (requests ! i) (processed R st (take i requests) s)) = Inl e \<longrightarrow>
        b_results resp ! i =
          \<lparr> rs_vmid = 0, rs_name = rq_name (requests ! i), rs_node = [], rs_status = ''failed'',
            rs_message = ''Failed: '' @ str e, rs_task_id = None \<rparr>) \<and>
     (\<forall>i<length requests.
        \<not> valid (validate_vm_config (requests ! i)) \<longrightarrow>
        b_results resp ! i =
          \<lparr> rs_vmid = 0, rs_name = rq_name (requests ! i), rs_node = [], rs_status = ''failed'',
            rs_message = ''Invalid configuration: '' @
                         join '', '' (issues (validate_vm_config (requests ! i))),
            rs_task_id = None \<rparr>)"
proof -
  let ?n = "length requests"
  let ?x = "int (length (filter (created R st requests s) [0..<?n]))"
  let ?y = "int (length (filter (\<lambda>i. \<not> created R st requests s i) [0..<?n]))"
  obtain rs where l:
    "batch_loop R st requests ([], 0, 0) s =
       (Inr ([] @ rs, 0 + ?x, 0 + ?y), processed R st requests s)"
    "length rs = ?n"
    "\<forall>i<?n.
        rs_name (rs ! i) = rq_name (requests ! i) \<and>
        (rs_status (rs ! i) = ''failed'') = (\<not> created R st requests s i) \<and>
        (\<forall>r. valid (validate_vm_config (requests ! i)) \<and>
              fst (create_vm R st (requests ! i) (processed R st (take i requests) s)) = Inr r \<longrightarrow>
              rs ! i = r) \<and>
        (\<forall>e. valid (validate_vm_config (requests ! i)) \<and>
              fst (create_vm R st (requests ! i) (processed R st (take i requests) s)) = Inl e \<longrightarrow>
              rs ! i = error_result (requests ! i) (''Failed: '' @ str e)) \<and>
        (\<not> valid (validate_vm_config (requests ! i)) \<longrightarrow>
              rs ! i = error_result (requests ! i)
                         (''Invalid configuration: '' @
                          join '', '' (issues (validate_vm_config (requests ! i)))))"
    using batch_loop_run[of R st requests "[]" 0 0 s] by blast
  let ?resp = "\<lparr> b_results = rs, b_total = int ?n, b_successful = ?x, b_failed = ?y \<rparr>"
  have run: "batch_create_vms R st requests s =
       (Inr ?resp,
        (processed R st requests s)
          \<lparr>trace := trace (processed R st requests s) @
             [AuditBatch ''batch_create'' (int ?n) (b_successful ?resp) (b_failed ?resp)]\<rparr>)"
    using l(1) by (simp add: batch_create_vms_def bnd_def Let_def audit_def ret_def)
  have sum: "?x + ?y = int ?n"
    using sum_length_filter_compl[of "created R st requests s" "[0..<?n]"] by simp
  have st: "int (length (filter (\<lambda>r. rs_status r = ''failed'') rs)) = ?y"
    using count_nth[of rs ?n "\<lambda>r. rs_status r = ''failed''" "\<lambda>i. \<not> created R st requests s i"]
      l(2,3) by simp
  have names: "map rs_name rs = map rq_name requests"
    using l(2,3) by (intro nth_equalityI) simp_all
  have ok: "\<forall>i<?n. \<forall>r.
        valid (validate_vm_config (requests ! i)) \<and>
        fst (create_vm R st (requests ! i) (processed R st (take i requests) s)) = Inr r \<longrightarrow>
        rs ! i = r"
    using l(3) by blast
  have failed: "\<forall>i<?n. \<forall>e.
        valid (validate_vm_config (requests ! i)) \<and>
        fst (create_vm R st (requests ! i) (processed R st (take i requests) s)) = Inl e \<longrightarrow>
        rs ! i =
          \<lparr> rs_vmid = 0, rs_name = rq_name (requests ! i), rs_node = [], rs_status = ''failed'',
            rs_message = ''Failed: '' @ str e, rs_task_id = None \<rparr>"
    using l(3) unfolding error_result_def by blast
  have invalid: "\<forall>i<?n.
        \<not> valid (validate_vm_config (requests ! i)) \<longrightarrow>
        rs ! i =
          \<lparr> rs_vmid = 0, rs_name = rq_name (requests ! i), rs_node = [], rs_status = ''failed'',
            rs_message = ''Invalid configuration: '' @
                         join '', '' (issues (validate_vm_config (requests ! i))),
            rs_task_id = None \<rparr>"
    using l(3) unfolding error_result_def by blast
  have f: "length (b_results ?resp) = ?n" "b_total ?resp = int ?n"
    "b_successful ?resp + b_failed ?resp = b_total ?resp"
    "b_successful ?resp = ?x" "b_failed ?resp = ?y"
    "b_failed ?resp = int (length (filter (\<lambda>r. rs_status r = ''failed'') (b_results ?resp)))"
    "map rs_name (b_results ?resp) = map rq_name requests"
    using l(2) sum st names by simp_all
  have r: "b_results ?resp = rs" by simp
  show ?thesis
    apply (rule exI[of _ ?resp])
    apply (intro conjI)
              apply (rule run)
             apply (rule f(1))
            apply (rule f(2))
           apply (rule f(3))
          apply (rule f(4))
         apply (rule f(5))
        apply (rule f(6))
       apply (rule f(7))
      apply (simp only: r, rule ok)
     apply (simp only: r, rule failed)
    apply (simp only: r, rule invalid)
    done
qed

theorem batch_create_vms_report_witness:
  "\<exists>resp s'.
     batch_create_vms template_remote default_settings
       [create_request\<lparr> rq_vmid := Some 149 \<rparr>, bad_request, create_request]
       initial_state = (Inr resp, s') \<and>
     length (b_results resp) = 3 \<and> b_total resp = 3 \<and>
     b_successful resp = 1 \<and> b_failed resp = 2 \<and>
     b_results resp ! 0 =
       \<lparr> rs_vmid = 0, rs_name = ''srv-01'', rs_node = [], rs_status = ''failed'',
         rs_message = ''Failed: VM ID 149 is outside allowed range (150-999)'',
         rs_task_id = None \<rparr> \<and>
     rs_status (b_results resp ! 1) = ''failed'' \<and> rs_vmid (b_results resp ! 1) = 0 \<and>
     b_results resp ! 2 =
       \<lparr> rs_vmid = 150, rs_name = ''srv-01'', rs_node = ''pve'', rs_status = ''started'',
         rs_message = ''VM 150 created and started successfully'',
         rs_task_id = Some ''UPID:create'' \<rparr> \<and>
     last (trace s') = AuditBatch ''batch_create'' 3 1 2"
proof -
  let ?R = template_remote
  let ?st = default_settings
  let ?r0 = "create_request\<lparr> rq_vmid := Some 149 \<rparr>"
  let ?rqs = "[?r0, bad_request, create_request]"
  let ?e = "InvalidVMIDError (range_message default_settings 149)"
  let ?ok = "\<lparr> rs_vmid = 150, rs_name = ''srv-01'', rs_node = ''pve'', rs_status = ''started'',
         rs_message = ''VM 150 created and started successfully'',
         rs_task_id = Some ''UPID:create'' \<rparr>"
  have m: "range_message default_settings 149 = ''VM ID 149 is outside allowed range (150-999)''"
    by (simp add: range_message_def default_settings_def str_int_def str_nat.simps digit_char_def)
  have v0: "valid (validate_vm_config ?r0)"
    by (simp add: validate_vm_config_def create_request_def)
  have v1: "\<not> valid (validate_vm_config bad_request)"
    by (simp add: validate_vm_config_def bad_request_def)
  have v2: "valid (validate_vm_config create_request)"
    by (simp add: validate_vm_config_def create_request_def)
  have c0: "fst (create_vm ?R ?st (?rqs ! 0) (processed ?R ?st (take 0 ?rqs) initial_state)) = Inl ?e"
    using create_vm_out_of_range[of ?r0 149 default_settings ?R initial_state]
    by (simp add: create_request_def default_settings_def)
  have c2: "fst (create_vm ?R ?st (?rqs ! 2) (processed ?R ?st (take 2 ?rqs) initial_state)) = Inr ?ok"
    using template_create_vm[of "processed ?R ?st (take 2 ?rqs) initial_state"] by simp
  obtain resp where r:
    "batch_create_vms ?R ?st ?rqs initial_state =
       (Inr resp,
        (processed ?R ?st ?rqs initial_state)
          \<lparr>trace := trace (processed ?R ?st ?rqs initial_state) @
             [AuditBatch ''batch_create'' (int (length ?rqs))
                (b_successful resp) (b_failed resp)]\<rparr>)"
    "length (b_results resp) = length ?rqs"
    "b_total resp = int (length ?rqs)"
    "b_successful resp + b_failed resp = b_total resp"
    "b_failed resp = int (length (filter (\<lambda>r. rs_status r = ''failed'') (b_results resp)))"
    "\<forall>i<length ?rqs. \<forall>r.
        valid (validate_vm_config (?rqs ! i)) \<and>
        fst (create_vm ?R ?st (?rqs ! i) (processed ?R ?st (take i ?rqs) initial_state)) = Inr r \<longrightarrow>
        b_results resp ! i = r"
    "\<forall>i<length ?rqs. \<forall>e.
        valid (validate_vm_config (?rqs ! i)) \<and>
        fst (create_vm ?R ?st (?rqs ! i) (processed ?R ?st (take i ?rqs) initial_state)) = Inl e \<longrightarrow>
        b_results resp ! i =
          \<lparr> rs_vmid = 0, rs_name = rq_name (?rqs ! i), rs_node = [], rs_status = ''failed'',
            rs_message = ''Failed: '' @ str e, rs_task_id = None \<rparr>"
    "\<forall>i<length ?rqs.
        \<not> valid (validate_vm_config (?rqs ! i)) \<longrightarrow>
        b_results resp ! i =
          \<lparr> rs_vmid = 0, rs_name = rq_name (?rqs ! i), rs_node = [], rs_status = ''failed'',
            rs_message = ''Invalid configuration: '' @
                         join '', '' (issues (validate_vm_config (?rqs ! i))),
            rs_task_id = None \<rparr>"
    using batch_create_vms_report[of ?R ?st ?rqs initial_state] by blast
  have i0: "b_results resp ! 0 =
          \<lparr> rs_vmid = 0, rs_name = rq_name (?rqs ! 0), rs_node = [], rs_status = ''failed'',
            rs_message = ''Failed: '' @ str ?e, rs_task_id = None \<rparr>"
  proof -
    have "(0::nat) < length ?rqs" by simp
    moreover have "valid (validate_vm_config (?rqs ! 0))" using v0 by simp
    ultimately show ?thesis using r(7) c0 by blast
  qed
  have i1: "b_results resp ! 1 =
          \<lparr> rs_vmid = 0, rs_name = rq_name (?rqs ! 1), rs_node = [], rs_status = ''failed'',
            rs_message = ''Invalid configuration: '' @
                         join '', '' (issues (validate_vm_config (?rqs ! 1))),
            rs_task_id = None \<rparr>"
  proof -
    have "(1::nat) < length ?rqs" by simp
    moreover have "\<not> valid (validate_vm_config (?rqs ! 1))" using v1 by simp
    ultimately show ?thesis using r(8) by blast
  qed
  have i2: "b_results resp ! 2 = ?ok"
  proof -
    have "(2::nat) < length ?rqs" by simp
    moreover have "valid (validate_vm_config (?rqs ! 2))" using v2 by simp
    ultimately show ?thesis using r(6) c2 by blast
  qed
  have s0: "rs_status (b_results resp ! 0) = ''failed''" using i0 by simp
  have s1: "rs_status (b_results resp ! 1) = ''failed''" "rs_vmid (b_results resp ! 1) = 0"
    using i1 by simp_all
  have s2: "rs_status (b_results resp ! 2) = ''started''" using i2 by simp
  have len: "length (b_results resp) = 3" using r(2) by simp
  have cnt: "length (filter (\<lambda>r. rs_status r = ''failed'')
                 [b_results resp ! 0, b_results resp ! 1, b_results resp ! 2]) = 2"
    using s0 s1(1) s2 by simp
  have nf: "b_failed resp = 2"
    by (subst r(5), subst list3[OF len], simp only: cnt)
  have ns: "b_successful resp = 1" using r(3,4) nf by simp
  have tot: "b_total resp = 3" using r(3) by simp
  have r0: "b_results resp ! 0 =
       \<lparr> rs_vmid = 0, rs_name = ''srv-01'', rs_node = [], rs_status = ''failed'',
         rs_message = ''Failed: VM ID 149 is outside allowed range (150-999)'',
         rs_task_id = None \<rparr>"
    using i0 m by (simp add: create_request_def)
  let ?s' = "(processed ?R ?st ?rqs initial_state)
          \<lparr>trace := trace (processed ?R ?st ?rqs initial_state) @
             [AuditBatch ''batch_create'' (int (length ?rqs))
                (b_successful resp) (b_failed resp)]\<rparr>"
  have tr: "last (trace ?s') = AuditBatch ''batch_create'' 3 1 2"
    using nf ns by simp
  show ?thesis
    apply (rule exI[of _ resp], rule exI[of _ ?s'])
    apply (intro conjI)
             apply (rule r(1))
            apply (rule len)
           apply (rule tot)
          apply (rule ns)
         apply (rule nf)
        apply (rule r0)
       apply (rule s1(1))
      apply (rule s1(2))
     apply (rule i2)
    apply (rule tr)
    done
qed

section \<open>validate\_vm always returns a result (claim C6)\<close>

lemma try_except_total:
  assumes "\<And>e s'. \<exists>a. fst (h e s') = Inr a"
  shows "\<exists>a. fst (try_except m h s) = Inr a"
proof (cases "m s")
  case (Pair r s')
  then show ?thesis
    using assms by (cases r) (auto simp: try_except_def)
qed

lemma check_proxmox_status_total: "\<exists>c. fst (check_proxmox_status R vmid s) = Inr c"
  unfolding check_proxmox_status_def
  by (rule try_except_total) (auto simp: ret_def split: exn.splits)

lemma check_port_total: "\<exists>c. fst (check_port R st ip port port_name s) = Inr c"
  unfolding check_port_def
  by (rule try_except_total) (auto simp: ret_def)

lemma validate_vm_total: "\<exists>r. fst (validate_vm R st vmid os_type timeout s) = Inr r"
  by (auto simp: validate_vm_def validate_vm_except_def ret_def Let_def
      split: prod.splits sum.splits)

lemma validate_vm_escape:
  assumes "validate_vm_try R st vmid os_type [] s = ((checks, Inl e), s')"
  shows "validate_vm R st vmid os_type timeout s =
     (Inr \<lparr> vr_vmid = vmid, vr_status = ''unhealthy'', vr_ip_address = None,
            vr_checks = dict_set checks ''error''
              \<lparr> vc_passed = False, vc_message = Some (''Validation failed: '' @ str e),
                vc_details = Some [(''error'', PStr (str e))], vc_required = True \<rparr>,
            vr_message = Some (''Validation failed: '' @ str e) \<rparr>, s')"
  using assms by (simp add: validate_vm_def validate_vm_except_def ret_def Let_def)

lemma keeps_now_get_vm_status [intro!, simp]: "keeps_now (get_vm_status R node vmid)"
  unfolding get_vm_status_def by (auto split: exn.splits)

lemma keeps_now_if [intro!]: "keeps_now a \<Longrightarrow> keeps_now b \<Longrightarrow> keeps_now (if c then a else b)"
  by simp

lemma keeps_now_check_proxmox_status [intro!, simp]: "keeps_now (check_proxmox_status R vmid)"
  unfolding check_proxmox_status_def Let_def by (auto split: exn.splits)

lemma list_vms_quiet_like:
  assumes "ProxmoxAPI R = (\<lambda>s. Inr ())" "version_get R = (\<lambda>s. Inr ())" "nodes_get R = (\<lambda>s. Inr [])"
  shows "fst (list_vms R None s) = Inr []"
  using assms
  by (simp add: list_vms_def list_nodes_def try_except_def bnd_def proxmox_def connect_def
      perform_def set_cached_def ret_def)

lemma find_vm_node_quiet_like:
  assumes "ProxmoxAPI R = (\<lambda>s. Inr ())" "version_get R = (\<lambda>s. Inr ())" "nodes_get R = (\<lambda>s. Inr [])"
  shows "fst (find_vm_node R vmid s) = Inr None"
proof -
  have "fst (list_vms R None s) = Inr []" using assms by (rule list_vms_quiet_like)
  then show ?thesis using find_vm_node_absent[of R s "[]" vmid] by simp
qed

lemma get_vm_ip_address_none:
  assumes "fst (find_vm_node R vmid s) = Inr None"
  shows "fst (get_vm_ip_address R vmid s) = Inr None"
proof -
  obtain s' where f: "find_vm_node R vmid s = (Inr None, s')"
    using assms by (cases "find_vm_node R vmid s") auto
  show ?thesis
    using f by (simp add: get_vm_ip_address_def try_except_def bnd_def ret_def)
qed

lemma wait_for_ip_iter_sleep_raises:
  assumes "fst (get_vm_ip_address R vmid s) = Inr None"
    and "\<forall>d s. asyncio_sleep R d s = Inl e"
  shows "fst (wait_for_ip_iter R vmid s) = Inl e"
proof -
  obtain s' where g: "get_vm_ip_address R vmid s = (Inr None, s')"
    using assms(1) by (cases "get_vm_ip_address R vmid s") auto
  show ?thesis
    using g assms(2)
    by (simp add: wait_for_ip_iter_def try_except_def bnd_def ret_def await_sleep_def)
qed

lemma wait_for_ip_sleep_raises:
  assumes "fst (get_vm_ip_address R vmid s) = Inr None"
    and "\<forall>d s. asyncio_sleep R d s = Inl e"
  shows "fst (wait_for_ip R vmid 120 s) = Inl e"
  using wait_for_ip_iter_sleep_raises[OF assms]
  by (simp add: wait_for_ip_def bnd_def time_time_def wait_for_ip_loop.simps[of R vmid 120 "now s" s]
      Let_def)

text \<open>
  Claim C6. validate\_vm never raises: for every input, every state and every behaviour
  of the environment (each call of the control plane, of the port prober and of the event
  loop may raise) it returns a ValidationResult. The liveness check and the port check
  return a check even when the client or the prober raises. When an exception leaves the
  \<^verbatim>\<open>try\<close> body, the result has the status "unhealthy", no address, and the checks
  recorded so far with the failing check "error" that carries the text of the exception.
\<close>

theorem validate_vm_never_raises:
  "(\<exists>r. fst (validate_vm R st vmid os_type timeout s) = Inr r) \<and>
   (\<exists>c. fst (check_proxmox_status R vmid s) = Inr c) \<and>
   (\<exists>c. fst (check_port R st ip port port_name s) = Inr c) \<and>
   (\<forall>checks e s'. validate_vm_try R st vmid os_type [] s = ((checks, Inl e), s') \<longrightarrow>
      validate_vm R st vmid os_type timeout s =
        (Inr \<lparr> vr_vmid = vmid, vr_status = ''unhealthy'', vr_ip_address = None,
               vr_checks = dict_set checks ''error''
                 \<lparr> vc_passed = False, vc_message = Some (''Validation failed: '' @ str e),
                   vc_details = Some [(''error'', PStr (str e))], vc_required = True \<rparr>,
               vr_message = Some (''Validation failed: '' @ str e) \<rparr>, s'))"
proof (intro conjI allI impI)
  show "\<exists>r. fst (validate_vm R st vmid os_type timeout s) = Inr r"
    by (rule validate_vm_total)
  show "\<exists>c. fst (check_proxmox_status R vmid s) = Inr c"
    by (rule check_proxmox_status_total)
  show "\<exists>c. fst (check_port R st ip port port_name s) = Inr c"
    by (rule check_port_total)
next
  fix checks e s'
  assume "validate_vm_try R st vmid os_type [] s = ((checks, Inl e), s')"
  then show "validate_vm R st vmid os_type timeout s =
        (Inr \<lparr> vr_vmid = vmid, vr_status = ''unhealthy'', vr_ip_address = None,
               vr_checks = dict_set checks ''error''
                 \<lparr> vc_passed = False, vc_message = Some (''Validation failed: '' @ str e),
                   vc_details = Some [(''error'', PStr (str e))], vc_required = True \<rparr>,
               vr_message = Some (''Validation failed: '' @ str e) \<rparr>, s')"
    by (rule validate_vm_escape)
qed

theorem validate_vm_never_raises_witness:
  "fst (validate_vm nosleep_remote default_settings 100 ''linux'' None initial_state) =
     Inr \<lparr> vr_vmid = 100, vr_status = ''unhealthy'', vr_ip_address = None,
           vr_checks =
             [(''proxmox_status'',
               \<lparr> vc_passed = False, vc_message = Some ''VM 100 not found'',
                 vc_details = None, vc_required = True \<rparr>),
              (''error'',
               \<lparr> vc_passed = False, vc_message = Some ''Validation failed: event loop closed'',
                 vc_details = Some [(''error'', PStr ''event loop closed'')],
                 vc_required = True \<rparr>)],
           vr_message = Some ''Validation failed: event loop closed'' \<rparr>"
proof -
  let ?R = nosleep_remote
  let ?c = "\<lparr> vc_passed = False, vc_message = Some (''VM '' @ str_int 100 @ '' not found''),
                vc_details = None, vc_required = True \<rparr>"
  let ?e = "PyException ''event loop closed''"
  have n: "str_int 100 = ''100''"
    by (simp add: str_int_def str_nat.simps digit_char_def)
  have f: "\<And>s. fst (find_vm_node ?R 100 s) = Inr None"
    by (rule find_vm_node_quiet_like) (simp_all add: nosleep_remote_def quiet_remote_def)
  have sl: "\<forall>d s. asyncio_sleep ?R d s = Inl ?e"
    by (simp add: nosleep_remote_def)
  define s1 where "s1 = snd (check_proxmox_status ?R 100 initial_state)"
  define s2 where "s2 = snd (wait_for_ip ?R 100 120 s1)"
  have c: "check_proxmox_status ?R 100 initial_state = (Inr ?c, s1)"
    unfolding s1_def using f by (intro pair_fst check_proxmox_status_not_found)
  have w: "wait_for_ip ?R 100 120 s1 = (Inl ?e, s2)"
    unfolding s2_def
    by (intro pair_fst wait_for_ip_sleep_raises get_vm_ip_address_none f sl)
  have t: "validate_vm_try ?R default_settings 100 ''linux'' [] initial_state =
             (([(''proxmox_status'', ?c)], Inl ?e), s2)"
    using c w by (simp add: validate_vm_try_def Let_def)
  show ?thesis
    using validate_vm_never_raises [where R = ?R and st = default_settings and vmid = 100
        and os_type = "''linux''" and timeout = None and s = initial_state] t n
    by simp
qed

section \<open>The address wait when the node is not resolved (claims C9 and C2)\<close>

lemma wait_for_ip_iter_none:
  assumes "fst (get_vm_ip_address R vmid s) = Inr None"
    and "\<forall>d s. asyncio_sleep R d s = Inr ()"
  shows "fst (wait_for_ip_iter R vmid s) = Inr None \<and>
         now (snd (wait_for_ip_iter R vmid s)) = now s + 10"
proof -
  obtain s' where g: "get_vm_ip_address R vmid s = (Inr None, s')"
    using assms(1) by (cases "get_vm_ip_address R vmid s") auto
  have "now s' = now s"
    using keeps_now_get_vm_ip_address g by (rule keeps_nowD)
  then show ?thesis
    using g assms(2)
    by (simp add: wait_for_ip_iter_def try_except_def bnd_def ret_def await_sleep_def
        retry_interval_def)
qed

lemma ceil10_step:
  fixes d :: int
  assumes "0 < d"
  shows "(if 10 < d then 10 + 10 * ((d - 10 + 9) div 10) else 10) = 10 * ((d + 9) div 10)"
proof -
  have "(d + 9) div 10 = ((d - 1) + 10) div 10" by simp
  also have "\<dots> = (d - 1) div 10 + 1" by (rule div_add_self2) simp
  finally have a: "(d + 9) div 10 = (d - 1) div 10 + 1" .
  show ?thesis
  proof (cases "10 < d")
    case True
    have "d - 10 + 9 = d - 1" by simp
    then show ?thesis using a True by simp
  next
    case False
    have "(d - 1) div 10 = 0" using assms False by simp
    then show ?thesis using a False by simp
  qed
qed

lemma wait_for_ip_loop_none:
  "\<forall>s. fst (get_vm_ip_address R vmid s) = Inr None \<Longrightarrow>
   \<forall>d s. asyncio_sleep R d s = Inr () \<Longrightarrow>
   fst (wait_for_ip_loop R vmid timeout start s) = Inr None \<and>
   now (snd (wait_for_ip_loop R vmid timeout start s)) =
     (if now s - start < timeout then now s + 10 * ((timeout - (now s - start) + 9) div 10)
      else now s)"
proof (induction R vmid timeout start s rule: wait_for_ip_loop.induct)
  case (1 R vmid timeout start_time s)
  show ?case
  proof (cases "now s - start_time < timeout")
    case False
    then show ?thesis
      by (subst wait_for_ip_loop.simps, subst (2) wait_for_ip_loop.simps) simp
  next
    case True
    let ?r = "wait_for_ip_iter R vmid s"
    let ?s' = "snd ?r"
    have it: "fst ?r = Inr None" "now ?s' = now s + 10"
      using wait_for_ip_iter_none[of R vmid s] "1.prems" by auto
    have step: "wait_for_ip_loop R vmid timeout start_time s =
                wait_for_ip_loop R vmid timeout start_time ?s'"
      using True it by (subst wait_for_ip_loop.simps) (simp add: Let_def)
    have ih: "fst (wait_for_ip_loop R vmid timeout start_time ?s') = Inr None \<and>
          now (snd (wait_for_ip_loop R vmid timeout start_time ?s')) =
            (if now ?s' - start_time < timeout
             then now ?s' + 10 * ((timeout - (now ?s' - start_time) + 9) div 10) else now ?s')"
      using "1.IH"[OF True refl it(1) refl "1.prems"] .
    have e1: "fst (wait_for_ip_loop R vmid timeout start_time ?s') = Inr None"
      using ih by blast
    have e2: "now (snd (wait_for_ip_loop R vmid timeout start_time ?s')) =
            (if now s + 10 - start_time < timeout
             then now s + 10 + 10 * ((timeout - (now s + 10 - start_time) + 9) div 10)
             else now s + 10)"
      using ih unfolding it(2) by blast
    have ar: "(if now s + 10 - start_time < timeout
               then now s + 10 + 10 * ((timeout - (now s + 10 - start_time) + 9) div 10)
               else now s + 10)
              = now s + 10 * ((timeout - (now s - start_time) + 9) div 10)"
    proof -
      define d where "d = timeout - (now s - start_time)"
      have d: "0 < d" using True by (simp add: d_def)
      have c: "(now s + 10 - start_time < timeout) = (10 < d)" by (auto simp: d_def)
      have x: "timeout - (now s + 10 - start_time) + 9 = d - 10 + 9" by (simp add: d_def)
      have "(if 10 < d then now s + 10 + 10 * ((d - 10 + 9) div 10) else now s + 10)
            = now s + 10 * ((d + 9) div 10)"
        using ceil10_step[OF d] by (simp split: if_splits)
      then show ?thesis
        unfolding c x by (simp only: d_def)
    qed
    have e3: "now (snd (wait_for_ip_loop R vmid timeout start_time ?s')) =
            now s + 10 * ((timeout - (now s - start_time) + 9) div 10)"
      by (rule trans[OF e2 ar])
    show ?thesis
      unfolding step using e1 e3 True by simp
  qed
qed

lemma wait_for_ip_none:
  assumes "\<forall>s. fst (get_vm_ip_address R vmid s) = Inr None"
    and "\<forall>d s. asyncio_sleep R d s = Inr ()"
  shows "fst (wait_for_ip R vmid 120 s) = Inr None \<and>
         now (snd (wait_for_ip R vmid 120 s)) = now s + 120"
  using wait_for_ip_loop_none[OF assms, of 120 "now s" s]
  by (simp add: wait_for_ip_def bnd_def time_time_def)

text \<open>
  The run of validate\_vm when the node of the VM is never resolved and the event loop works:
  the liveness check fails, the address wait still runs its full 120 seconds, and the
  result is "degraded".
\<close>

lemma validate_vm_unresolved:
  assumes f: "\<forall>s. fst (find_vm_node R vmid s) = Inr None"
    and sl: "\<forall>d s. asyncio_sleep R d s = Inr ()"
  shows "fst (validate_vm R st vmid os_type timeout s) =
     Inr \<lparr> vr_vmid = vmid, vr_status = ''degraded'', vr_ip_address = None,
           vr_checks = [(''proxmox_status'',
              \<lparr> vc_passed = False, vc_message = Some (''VM '' @ str_int vmid @ '' not found''),
                vc_details = None, vc_required = True \<rparr>)],
           vr_message = Some ''VM is running but no IP address assigned'' \<rparr> \<and>
     now (snd (validate_vm R st vmid os_type timeout s)) = now s + 120"
proof -
  let ?c = "\<lparr> vc_passed = False, vc_message = Some (''VM '' @ str_int vmid @ '' not found''),
                vc_details = None, vc_required = True \<rparr>"
  define s1 where "s1 = snd (check_proxmox_status R vmid s)"
  define s2 where "s2 = snd (wait_for_ip R vmid 120 s1)"
  have c: "check_proxmox_status R vmid s = (Inr ?c, s1)"
    unfolding s1_def using f by (intro pair_fst check_proxmox_status_not_found) blast
  have n1: "now s1 = now s"
    using keeps_now_check_proxmox_status c by (rule keeps_nowD)
  have ip: "\<forall>s. fst (get_vm_ip_address R vmid s) = Inr None"
    using f get_vm_ip_address_none by blast
  have w1: "fst (wait_for_ip R vmid 120 s1) = Inr None"
    using wait_for_ip_none[OF ip sl, of s1] by blast
  have w: "wait_for_ip R vmid 120 s1 = (Inr None, s2)"
    unfolding s2_def using w1 by (rule pair_fst)
  have n2: "now s2 = now s1 + 120"
    unfolding s2_def using wait_for_ip_none[OF ip sl, of s1] by blast
  have t: "validate_vm_try R st vmid os_type [] s =
     (([(''proxmox_status'', ?c)],
       Inr \<lparr> vr_vmid = vmid, vr_status = ''degraded'', vr_ip_address = None,
             vr_checks = [(''proxmox_status'', ?c)],
             vr_message = Some ''VM is running but no IP address assigned'' \<rparr>), s2)"
    using c w by (simp add: validate_vm_try_def Let_def)
  show ?thesis
    using t n2 n1 by (simp add: validate_vm_def Let_def)
qed

text \<open>
  Claim C9. The result and the final state of validate\_vm do not depend on its timeout
  argument: the value computed from it is never used, and the address wait is called with
  the constant 120.
\<close>

theorem validate_vm_ignores_timeout:
  "validate_vm R st vmid os_type t1 = validate_vm R st vmid os_type t2"
  by (simp add: validate_vm_def)

theorem validate_vm_ignores_timeout_witness:
  "validate_vm quiet_remote default_settings 100 ''linux'' (Some 1) initial_state =
   validate_vm quiet_remote default_settings 100 ''linux'' None initial_state \<and>
   now (snd (validate_vm quiet_remote default_settings 100 ''linux'' (Some 1) initial_state)) = 120"
proof -
  have f: "\<forall>s. fst (find_vm_node quiet_remote 100 s) = Inr None"
    by (intro allI find_vm_node_quiet_like) (simp_all add: quiet_remote_def)
  have sl: "\<forall>d s. asyncio_sleep quiet_remote d s = Inr ()"
    by (simp add: quiet_remote_def)
  have "now (snd (validate_vm quiet_remote default_settings 100 ''linux'' (Some 1) initial_state))
          = now initial_state + 120"
    using validate_vm_unresolved[OF f sl] by blast
  then show ?thesis
    using validate_vm_ignores_timeout [of quiet_remote default_settings 100 "''linux''" "Some 1" None]
    by (simp add: initial_state_def)
qed

text \<open>
  Claim C2 says that a VM whose node cannot be resolved is reported "unhealthy" without an
  address wait. The code does otherwise: against a cluster that does not list the VM 100,
  validate\_vm records the failing liveness check, then runs the address wait to its end
  (the fake clock stands at 120 when it returns) and reports "degraded" with the message
  "VM is running but no IP address assigned".
\<close>

theorem validate_vm_unresolved_node_degraded:
  "fst (validate_vm quiet_remote default_settings 100 ''linux'' None initial_state) =
     Inr \<lparr> vr_vmid = 100, vr_status = ''degraded'', vr_ip_address = None,
           vr_checks =
             [(''proxmox_status'',
               \<lparr> vc_passed = False, vc_message = Some ''VM 100 not found'',
                 vc_details = None, vc_required = True \<rparr>)],
           vr_message = Some ''VM is running but no IP address assigned'' \<rparr> \<and>
   now (snd (validate_vm quiet_remote default_settings 100 ''linux'' None initial_state)) = 120 \<and>
   fst (quick_health_check quiet_remote 100 initial_state) = Inr False"
proof -
  have n: "str_int 100 = ''100''"
    by (simp add: str_int_def str_nat.simps digit_char_def)
  have f: "\<forall>s. fst (find_vm_node quiet_remote 100 s) = Inr None"
    by (intro allI find_vm_node_quiet_like) (simp_all add: quiet_remote_def)
  have sl: "\<forall>d s. asyncio_sleep quiet_remote d s = Inr ()"
    by (simp add: quiet_remote_def)
  have q: "fst (quick_health_check quiet_remote 100 initial_state) = Inr False"
  proof -
    obtain s1 where "check_proxmox_status quiet_remote 100 initial_state =
        (Inr \<lparr> vc_passed = False, vc_message = Some (''VM '' @ str_int 100 @ '' not found''),
                vc_details = None, vc_required = True \<rparr>, s1)"
      using check_proxmox_status_not_found[of quiet_remote 100 initial_state] f
      by (metis prod.collapse)
    then show ?thesis
      by (simp add: quick_health_check_def try_except_def bnd_def ret_def)
  qed
  show ?thesis
    using validate_vm_unresolved[OF f sl, of default_settings "''linux''" None initial_state] n q
    by (simp add: initial_state_def)
qed

end
